theory Spec2Isabelle
  imports Complex_Main "HOL-Library.Multiset"
begin

section \<open>Modelling conventions\<close>

text \<open>
  The theory embeds the pattern-analysis core of the contract analyser
  (\<^verbatim>\<open>core/clause_extractor.py\<close>, \<^verbatim>\<open>core/contract_classifier.py\<close>,
  \<^verbatim>\<open>core/risk_assessor.py\<close>) and the way \<^verbatim>\<open>app.py\<close> chains the three components.

  \<^item> Strings are lists of 8-bit characters, read as the code points U+0000 to U+00FF: case
    conversion, whitespace, digits and word characters are those of Python on these code
    points, and the rupee sign U+20B9 of three patterns is a pattern that matches no
    character.
  \<^item> Python floats are idealised as exact rationals.  The scores of the weight tables are
    small integers, the averages and confidences are quotients of small integers.  The
    \<^verbatim>\<open>round(confidence, 2)\<close> of the classifier is round-half-to-even on the exact value; the
    \<^verbatim>\<open>round(avg_score, 1)\<close> of the risk report, which can meet a decimal tie, is a
    parameter \<open>rnd\<close>.
  \<^item> Dictionaries whose iteration order matters are association lists in insertion order.
  \<^item> Instance attributes that a method assigns (\<^verbatim>\<open>self.findings\<close>, \<^verbatim>\<open>self.clauses\<close>,
    \<^verbatim>\<open>self.result\<close>) are passed in and returned explicitly.
  \<^item> \<^verbatim>\<open>list(set(xs))\<close> lists the distinct elements of \<open>xs\<close> in the iteration order of a
    Python set of strings.  That order is fixed within one interpreter process but is not
    determined by the program text (string hashing is seeded per process), so it is a
    parameter \<open>ord\<close> of the functions that use it.
  \<^item> Exceptions the source can raise are values of \<open>py_error\<close>.
\<close>

datatype py_error = AttributeError | KeyError | ZeroDivisionError

section \<open>Python built-ins used by the source\<close>

subsection \<open>Characters\<close>

text \<open>A character is a code point from U+0000 to U+00FF.  \<open>is_upper\<close>, \<open>is_lower\<close> and
  \<open>is_digit\<close> are the ASCII capital letters, small letters and digits (no other code point
  below U+0100 is a decimal digit for \<^verbatim>\<open>\d\<close>).\<close>

definition is_upper :: "char \<Rightarrow> bool" where
  "is_upper c = ((65::nat) \<le> of_char c \<and> of_char c \<le> (90::nat))"

definition is_lower :: "char \<Rightarrow> bool" where
  "is_lower c = ((97::nat) \<le> of_char c \<and> of_char c \<le> (122::nat))"

definition is_digit :: "char \<Rightarrow> bool" where
  "is_digit c = ((48::nat) \<le> of_char c \<and> of_char c \<le> (57::nat))"

text \<open>\<^verbatim>\<open>str.isspace\<close>, which is also the class \<^verbatim>\<open>\s\<close> and what \<^verbatim>\<open>str.strip\<close> removes: tab,
  line feed, vertical tab, form feed, carriage return, the separators 0x1C to 0x1F, the
  space, the next-line control U+0085 and the no-break space U+00A0.\<close>

definition is_space :: "char \<Rightarrow> bool" where
  "is_space c =
     (let n = (of_char c :: nat)
      in (9 \<le> n \<and> n \<le> 13) \<or> (28 \<le> n \<and> n \<le> 32) \<or> n = 133 \<or> n = 160)"

text \<open>The letters and numeric characters from U+0080 to U+00FF (\<^verbatim>\<open>str.isalnum\<close>): the
  ordinal indicators, the micro sign, the superscript digits, the fractions, and the letters
  from U+00C0 on without the multiplication and the division sign.\<close>

definition is_latin1_alnum :: "char \<Rightarrow> bool" where
  "is_latin1_alnum c =
     (let n = (of_char c :: nat)
      in n = 170 \<or> n = 178 \<or> n = 179 \<or> n = 181 \<or> n = 185 \<or> n = 186
         \<or> n = 188 \<or> n = 189 \<or> n = 190
         \<or> (192 \<le> n \<and> n \<le> 214) \<or> (216 \<le> n \<and> n \<le> 246) \<or> 248 \<le> n)"

text \<open>The word characters of \<^verbatim>\<open>\b\<close>: letters, numeric characters and the underscore.\<close>

definition is_word :: "char \<Rightarrow> bool" where
  "is_word c = (is_upper c \<or> is_lower c \<or> is_digit c \<or> c = CHR ''_'' \<or> is_latin1_alnum c)"

text \<open>The capital letters from U+00C0 to U+00DE and the small letters from U+00E0 to U+00FE
  that are each other's case forms.\<close>

definition is_latin1_upper :: "char \<Rightarrow> bool" where
  "is_latin1_upper c = (let n = (of_char c :: nat) in 192 \<le> n \<and> n \<le> 222 \<and> n \<noteq> 215)"

definition is_latin1_lower :: "char \<Rightarrow> bool" where
  "is_latin1_lower c = (let n = (of_char c :: nat) in 224 \<le> n \<and> n \<le> 254 \<and> n \<noteq> 247)"

text \<open>\<^verbatim>\<open>str.lower\<close> and \<^verbatim>\<open>str.upper\<close> on one character.  The upper-case forms of U+00B5,
  U+00DF and U+00FF are not code points below U+0100; \<open>to_upper\<close> leaves these three as they
  are.  The source upper-cases only keys of its tables (\<^verbatim>\<open>str.title\<close>), and the matcher
  compares the upper-case form with the ASCII characters of the patterns only.\<close>

definition to_lower :: "char \<Rightarrow> char" where
  "to_lower c = (if is_upper c \<or> is_latin1_upper c then char_of (of_char c + (32::nat)) else c)"

definition to_upper :: "char \<Rightarrow> char" where
  "to_upper c = (if is_lower c \<or> is_latin1_lower c then char_of (of_char c - (32::nat)) else c)"

subsection \<open>Strings\<close>

definition lower :: "string \<Rightarrow> string" where
  "lower s = map to_lower s"

definition strip :: "string \<Rightarrow> string" where
  "strip s = rev (dropWhile is_space (rev (dropWhile is_space s)))"

text \<open>\<^verbatim>\<open>s[a:b]\<close> for offsets \<open>0 \<le> a\<close>, \<open>0 \<le> b\<close>: empty when \<open>b \<le> a\<close>, cut at the end of \<open>s\<close>.\<close>

definition slice :: "nat \<Rightarrow> nat \<Rightarrow> string \<Rightarrow> string" where
  "slice a b s = take (b - a) (drop a s)"

fun startswith :: "string \<Rightarrow> string \<Rightarrow> bool" where
  "startswith s [] = True"
| "startswith [] (p # ps) = False"
| "startswith (c # cs) (p # ps) = (c = p \<and> startswith cs ps)"

text \<open>\<^verbatim>\<open>sub in s\<close>.\<close>

fun contains :: "string \<Rightarrow> string \<Rightarrow> bool" where
  "contains [] sub = (sub = [])"
| "contains (c # cs) sub = (startswith (c # cs) sub \<or> contains cs sub)"

text \<open>\<^verbatim>\<open>s.count(sub)\<close>: the number of non-overlapping occurrences, scanning from the
  left; after an occurrence the scan resumes behind it (\<open>skip\<close> characters are passed over).\<close>

fun count_from :: "string \<Rightarrow> nat \<Rightarrow> string \<Rightarrow> nat" where
  "count_from sub skip [] = 0"
| "count_from sub skip (c # cs) =
     (if skip > 0 then count_from sub (skip - 1) cs
      else if startswith (c # cs) sub then 1 + count_from sub (length sub - 1) cs
      else count_from sub 0 cs)"

definition str_count :: "string \<Rightarrow> string \<Rightarrow> nat" where
  "str_count s sub = (if sub = [] then length s + 1 else count_from sub 0 s)"

definition replace_char :: "char \<Rightarrow> char \<Rightarrow> string \<Rightarrow> string" where
  "replace_char a b s = map (\<lambda>c. if c = a then b else c) s"

text \<open>\<^verbatim>\<open>str.title\<close>: a letter is upper-cased when the character before it is not a letter
  and lower-cased otherwise.  The source calls it on keys of its tables only, which are
  ASCII; the letters here are the ASCII letters.\<close>

fun title_from :: "bool \<Rightarrow> string \<Rightarrow> string" where
  "title_from prev_cased [] = []"
| "title_from prev_cased (c # cs) =
     (if is_upper c \<or> is_lower c
      then (if prev_cased then to_lower c else to_upper c) # title_from True cs
      else c # title_from False cs)"

definition str_title :: "string \<Rightarrow> string" where
  "str_title s = title_from False s"

definition digit_char :: "nat \<Rightarrow> char" where
  "digit_char d = char_of (48 + d)"

text \<open>\<^verbatim>\<open>str(n)\<close> of a non-negative integer.\<close>

fun str_nat :: "nat \<Rightarrow> string" where
  "str_nat n = (if n < 10 then [digit_char n] else str_nat (n div 10) @ [digit_char (n mod 10)])"

declare str_nat.simps [simp del]

text \<open>\<^verbatim>\<open>sep.join(xs)\<close>.\<close>

fun join :: "string \<Rightarrow> string list \<Rightarrow> string" where
  "join sep [] = []"
| "join sep [x] = x"
| "join sep (x # y # ys) = x @ sep @ join sep (y # ys)"

subsection \<open>Numbers\<close>

definition round_half_even :: "rat \<Rightarrow> int" where
  "round_half_even x =
     (let f = \<lfloor>x\<rfloor>; d = x - of_int f
      in if d < 1 / 2 then f
         else if 1 / 2 < d then f + 1
         else if even f then f else f + 1)"

text \<open>Rounding to \<open>n\<close> decimal places, half to even, on the exact value.  It stands for
  the \<^verbatim>\<open>round(confidence, 2)\<close> of the classifier, whose argument never lies at a decimal
  tie (lemma \<open>confidence_no_tie\<close>).\<close>

definition py_round :: "rat \<Rightarrow> nat \<Rightarrow> rat" where
  "py_round x n = of_int (round_half_even (x * 10 ^ n)) / 10 ^ n"

text \<open>\<^verbatim>\<open>round(x, 1)\<close> on a float.  Python rounds the binary value of the float, so at a
  decimal tie (4.35, 4.45) the result follows the binary representation: \<^verbatim>\<open>round(4.35, 1)\<close>
  is 4.3 and \<^verbatim>\<open>round(4.45, 1)\<close> is 4.5.  The rounding is a parameter \<open>rnd\<close> of the
  functions that use it; what is known of it is that it returns a multiple of 0.1 that is
  nearest to its argument.  Rounding half to even is one such function.\<close>

type_synonym rounding = "rat \<Rightarrow> rat"

definition nearest_tenth :: "rounding \<Rightarrow> bool" where
  "nearest_tenth rnd = (\<forall>x. (\<exists>k::int. rnd x = of_int k / 10) \<and> \<bar>rnd x - x\<bar> \<le> 1 / 20)"

definition half_even_tenth :: rounding where
  "half_even_tenth x = py_round x 1"

text \<open>\<^verbatim>\<open>max(xs, key=key)\<close> on a non-empty sequence \<open>x # xs\<close>: the first element whose key
  is largest.\<close>

fun max_by :: "('a \<Rightarrow> nat) \<Rightarrow> 'a \<Rightarrow> 'a list \<Rightarrow> 'a" where
  "max_by key best [] = best"
| "max_by key best (x # xs) = max_by key (if key best < key x then x else best) xs"

type_synonym set_order = "string list \<Rightarrow> string list"

text \<open>What is known of \<^verbatim>\<open>list(set(xs))\<close>: it lists every element of \<open>xs\<close> once.\<close>

definition valid_set_order :: "set_order \<Rightarrow> bool" where
  "valid_set_order ord = (\<forall>xs. distinct (ord xs) \<and> set (ord xs) = set xs)"

section \<open>Regular expressions: a backtracking matcher for Python's \<^verbatim>\<open>re\<close>\<close>

text \<open>
  The pattern tables are written in the syntax of Python's \<^verbatim>\<open>re\<close> module.  A pattern is
  embedded as a term of \<open>rx\<close> that follows its text construct by construct (the pattern
  text stands in a comment beside each term).  \<^verbatim>\<open>re.MULTILINE\<close> and \<^verbatim>\<open>re.DOTALL\<close> are
  resolved in the term (\<open>BolM\<close> for \<^verbatim>\<open>^\<close>, \<open>AnyNL\<close> for the dot);
  \<^verbatim>\<open>re.IGNORECASE\<close> is the flag \<open>ic\<close> of the matcher.

  The matcher is the backtracking search of \<^verbatim>\<open>re\<close> in continuation-passing style: it
  tries the alternatives of a pattern in the order of their priority (left alternative
  first, greedy repetition longest first, lazy repetition shortest first) and returns the
  first way of matching that the continuation accepts.
\<close>

datatype citem = CChar char | CRange char char | CDigit | CSpace

fun citem_match :: "citem \<Rightarrow> char \<Rightarrow> bool" where
  "citem_match (CChar a) c = (c = a)"
| "citem_match (CRange a b) c = ((of_char a :: nat) \<le> of_char c \<and> (of_char c :: nat) \<le> of_char b)"
| "citem_match CDigit c = is_digit c"
| "citem_match CSpace c = is_space c"

definition set_match :: "bool \<Rightarrow> citem list \<Rightarrow> char \<Rightarrow> bool" where
  "set_match ic items c =
     list_ex (\<lambda>i. citem_match i c \<or> (ic \<and> (citem_match i (to_lower c) \<or> citem_match i (to_upper c)))) items"

definition lit_match :: "bool \<Rightarrow> char \<Rightarrow> char \<Rightarrow> bool" where
  "lit_match ic a c = (if ic then to_lower c = to_lower a else c = a)"

datatype rx =
    Lit char  \<comment> \<open>a literal character\<close>
  | AnyC  \<comment> \<open>the dot: any character but a line feed\<close>
  | AnyNL  \<comment> \<open>the dot under \<^verbatim>\<open>re.DOTALL\<close>\<close>
  | InSet "citem list"  \<comment> \<open>a character set\<close>
  | NotInSet "citem list"  \<comment> \<open>a negated character set\<close>
  | Never  \<comment> \<open>matches nothing\<close>
  | Eps
  | Seq rx rx
  | Alt rx rx
  | Rep nat "nat option" bool rx  \<comment> \<open>least and greatest count, greedy?, body\<close>
  | Grp nat rx  \<comment> \<open>capturing group\<close>
  | BolM  \<comment> \<open>\<^verbatim>\<open>^\<close> under \<^verbatim>\<open>re.MULTILINE\<close>\<close>
  | Eol  \<comment> \<open>\<^verbatim>\<open>$\<close> without \<^verbatim>\<open>re.MULTILINE\<close>\<close>
  | EndZ  \<comment> \<open>end of the text\<close>
  | WordB  \<comment> \<open>word boundary\<close>
  | Look rx  \<comment> \<open>positive lookahead\<close>

text \<open>A position in the text: the character before it (if any), the text from it on, and
  the groups captured so far (latest first).\<close>

datatype mstate = MState (m_prev: "char option") (m_rest: string) (m_caps: "(nat \<times> string) list")

type_synonym cont = "mstate \<Rightarrow> mstate option"

definition step :: "(char \<Rightarrow> bool) \<Rightarrow> mstate \<Rightarrow> cont \<Rightarrow> mstate option" where
  "step p st k =
     (case m_rest st of
        [] \<Rightarrow> None
      | c # cs \<Rightarrow> if p c then k (MState (Some c) cs (m_caps st)) else None)"

definition word_opt :: "char option \<Rightarrow> bool" where
  "word_opt x = (case x of None \<Rightarrow> False | Some c \<Rightarrow> is_word c)"

definition next_char :: "mstate \<Rightarrow> char option" where
  "next_char st = (case m_rest st of [] \<Rightarrow> None | c # cs \<Rightarrow> Some c)"

text \<open>Repetition.  Every round of a repetition consumes at least one character (no body
  of a repetition in the tables matches the empty string), so the number \<open>n\<close> of rounds
  that may still follow is bounded by the length of the remaining text.\<close>

primrec rep :: "nat \<Rightarrow> (mstate \<Rightarrow> cont \<Rightarrow> mstate option) \<Rightarrow> bool \<Rightarrow> nat \<Rightarrow> nat option
                 \<Rightarrow> mstate \<Rightarrow> cont \<Rightarrow> mstate option" where
  "rep 0 f greedy mn mx st k = (if mn = 0 then k st else None)"
| "rep (Suc n) f greedy mn mx st k =
     (if greedy then
        (case (if mx = Some 0 then None
               else f st (\<lambda>st'. if length (m_rest st') < length (m_rest st)
                                 then rep n f greedy (mn - 1) (map_option (\<lambda>x. x - 1) mx) st' k
                                 else None)) of
           Some r \<Rightarrow> Some r
         | None \<Rightarrow> if mn = 0 then k st else None)
      else
        (case (if mn = 0 then k st else None) of
           Some r \<Rightarrow> Some r
         | None \<Rightarrow>
             if mx = Some 0 then None
             else f st (\<lambda>st'. if length (m_rest st') < length (m_rest st)
                               then rep n f greedy (mn - 1) (map_option (\<lambda>x. x - 1) mx) st' k
                               else None)))"

primrec rmatch :: "rx \<Rightarrow> bool \<Rightarrow> mstate \<Rightarrow> cont \<Rightarrow> mstate option" where
  "rmatch (Lit a) ic st k = step (lit_match ic a) st k"
| "rmatch AnyC ic st k = step (\<lambda>c. c \<noteq> CHR 0x0A) st k"
| "rmatch AnyNL ic st k = step (\<lambda>c. True) st k"
| "rmatch (InSet items) ic st k = step (set_match ic items) st k"
| "rmatch (NotInSet items) ic st k = step (\<lambda>c. \<not> set_match ic items c) st k"
| "rmatch Never ic st k = None"
| "rmatch Eps ic st k = k st"
| "rmatch (Seq a b) ic st k = rmatch a ic st (\<lambda>st'. rmatch b ic st' k)"
| "rmatch (Alt a b) ic st k =
     (case rmatch a ic st k of Some r \<Rightarrow> Some r | None \<Rightarrow> rmatch b ic st k)"
| "rmatch (Rep mn mx greedy r) ic st k =
     rep (length (m_rest st)) (rmatch r ic) greedy mn mx st k"
| "rmatch (Grp n r) ic st k =
     rmatch r ic st
       (\<lambda>st'. k (MState (m_prev st') (m_rest st')
                  ((n, take (length (m_rest st) - length (m_rest st')) (m_rest st)) # m_caps st')))"
| "rmatch BolM ic st k =
     (if m_prev st = None \<or> m_prev st = Some (CHR 0x0A) then k st else None)"
| "rmatch Eol ic st k =
     (if m_rest st = [] \<or> m_rest st = [CHR 0x0A] then k st else None)"
| "rmatch EndZ ic st k = (if m_rest st = [] then k st else None)"
| "rmatch WordB ic st k =
     (if word_opt (m_prev st) \<noteq> word_opt (next_char st) then k st else None)"
| "rmatch (Look r) ic st k =
     (case rmatch r ic st Some of None \<Rightarrow> None | Some e \<Rightarrow> k st)"

subsection \<open>Notation of the pattern tables\<close>

primrec seqs :: "rx list \<Rightarrow> rx" where
  "seqs [] = Eps"
| "seqs (r # rs) = Seq r (seqs rs)"

fun alts :: "rx list \<Rightarrow> rx" where
  "alts [] = Never"
| "alts [r] = r"
| "alts (r # rs) = Alt r (alts rs)"

definition lit :: "string \<Rightarrow> rx" where
  "lit s = seqs (map Lit s)"

abbreviation ws :: rx where "ws \<equiv> InSet [CSpace]"
abbreviation dg :: rx where "dg \<equiv> InSet [CDigit]"
abbreviation many :: "rx \<Rightarrow> rx" where "many r \<equiv> Rep 0 None True r"
abbreviation many1 :: "rx \<Rightarrow> rx" where "many1 r \<equiv> Rep 1 None True r"
abbreviation opt :: "rx \<Rightarrow> rx" where "opt r \<equiv> Rep 0 (Some 1) True r"
abbreviation lazy_many1 :: "rx \<Rightarrow> rx" where "lazy_many1 r \<equiv> Rep 1 None False r"
abbreviation rupee_sign :: rx where "rupee_sign \<equiv> Never"

subsection \<open>\<^verbatim>\<open>re.search\<close>, \<^verbatim>\<open>re.finditer\<close>, \<^verbatim>\<open>re.findall\<close>\<close>

text \<open>The leftmost position from which the pattern matches: the text from that position
  on, and the state at the end of the match.\<close>

fun scan :: "rx \<Rightarrow> bool \<Rightarrow> char option \<Rightarrow> string \<Rightarrow> (string \<times> mstate) option" where
  "scan r ic p [] =
     (case rmatch r ic (MState p [] []) Some of None \<Rightarrow> None | Some e \<Rightarrow> Some ([], e))"
| "scan r ic p (c # cs) =
     (case rmatch r ic (MState p (c # cs) []) Some of
        Some e \<Rightarrow> Some (c # cs, e)
      | None \<Rightarrow> scan r ic (Some c) cs)"

record re_match =
  m_start :: nat
  m_end :: nat
  m_groups :: "(nat \<times> string) list"

text \<open>\<^verbatim>\<open>match.group(n)\<close>: \<open>None\<close> for a group that took no part in the match.\<close>

definition group :: "re_match \<Rightarrow> nat \<Rightarrow> string option" where
  "group m n = map_of (m_groups m) n"

definition mk_match :: "nat \<Rightarrow> string \<Rightarrow> mstate \<Rightarrow> re_match" where
  "mk_match n s' e =
     \<lparr>m_start = n - length s', m_end = n - length (m_rest e), m_groups = m_caps e\<rparr>"

definition re_search_match :: "rx \<Rightarrow> bool \<Rightarrow> string \<Rightarrow> re_match option" where
  "re_search_match r ic s =
     (case scan r ic None s of None \<Rightarrow> None | Some (s', e) \<Rightarrow> Some (mk_match (length s) s' e))"

definition re_search :: "rx \<Rightarrow> bool \<Rightarrow> string \<Rightarrow> bool" where
  "re_search r ic s = (scan r ic None s \<noteq> None)"

lemma scan_length: "scan r ic p s = Some (s', e) \<Longrightarrow> length s' \<le> length s"
proof (induction s arbitrary: p)
  case Nil
  then show ?case by (auto split: option.splits)
next
  case (Cons c cs)
  show ?case
  proof (cases "rmatch r ic (MState p (c # cs) []) Some")
    case None
    with Cons.prems have "scan r ic (Some c) cs = Some (s', e)" by simp
    from Cons.IH [OF this] show ?thesis by simp
  next
    case (Some a)
    with Cons.prems show ?thesis by auto
  qed
qed

text \<open>The matches of a pattern from left to right, each search starting where the match
  before ended (one character further after an empty match; no pattern of the tables
  matches the empty string).  \<open>n\<close> is the length of the whole text.\<close>

function finditer_from :: "rx \<Rightarrow> bool \<Rightarrow> nat \<Rightarrow> char option \<Rightarrow> string \<Rightarrow> re_match list" where
  "finditer_from r ic n p s =
     (case scan r ic p s of
        None \<Rightarrow> []
      | Some (s', e) \<Rightarrow>
          mk_match n s' e #
          (if length (m_rest e) < length s' then finditer_from r ic n (m_prev e) (m_rest e)
           else (case s' of [] \<Rightarrow> [] | c # cs \<Rightarrow> finditer_from r ic n (Some c) cs)))"
  by pat_completeness auto
termination
proof (relation "measure (\<lambda>(r, ic, n, p, s). length s)", goal_cases)
  case 1
  show ?case by simp
next
  case (2 r ic n p s x2 s' e)
  from 2(1,2) have "length s' \<le> length s" using scan_length [of r ic p s s' e] by simp
  with 2(3) show ?case by simp
next
  case (3 r ic n p s x2 s' e c cs)
  from 3(1,2) have "length s' \<le> length s" using scan_length [of r ic p s s' e] by simp
  with 3(4) show ?case by simp
qed

declare finditer_from.simps [simp del]

definition finditer :: "rx \<Rightarrow> bool \<Rightarrow> string \<Rightarrow> re_match list" where
  "finditer r ic s = finditer_from r ic (length s) None s"

text \<open>\<^verbatim>\<open>re.findall\<close> for a pattern without a group (the matched texts), with one group
  (the texts of the group, empty for a group that took no part) and with two.\<close>

definition group_text :: "re_match \<Rightarrow> nat \<Rightarrow> string" where
  "group_text m n = (case group m n of None \<Rightarrow> [] | Some g \<Rightarrow> g)"

definition findall0 :: "rx \<Rightarrow> bool \<Rightarrow> string \<Rightarrow> string list" where
  "findall0 r ic s = map (\<lambda>m. slice (m_start m) (m_end m) s) (finditer r ic s)"

definition findall1 :: "rx \<Rightarrow> bool \<Rightarrow> string \<Rightarrow> string list" where
  "findall1 r ic s = map (\<lambda>m. group_text m 1) (finditer r ic s)"

definition findall2 :: "rx \<Rightarrow> bool \<Rightarrow> string \<Rightarrow> (string \<times> string) list" where
  "findall2 r ic s = map (\<lambda>m. (group_text m 1, group_text m 2)) (finditer r ic s)"

section \<open>Risk assessor (core/risk\_assessor.py)\<close>

datatype RiskLevel = LOW | MEDIUM | HIGH | CRITICAL

record RiskFinding =
  clause_id :: string
  risk_type :: string
  risk_level :: RiskLevel
  score :: rat
  description :: string
  original_text :: string
  suggestion :: string
  indian_law_reference :: string

record RiskReport =
  overall_score :: rat
  overall_level :: RiskLevel
  high_risk_count :: nat
  medium_risk_count :: nat
  low_risk_count :: nat
  findings :: "RiskFinding list"
  summary :: string

subsection \<open>The tables \<^verbatim>\<open>RISK_WEIGHTS\<close>, \<^verbatim>\<open>RISK_PATTERNS\<close> and \<^verbatim>\<open>missing_checks\<close>\<close>

definition RISK_WEIGHTS :: "(string \<times> rat) list" where
  "RISK_WEIGHTS =
     [(''unlimited_liability'', 9),
      (''one_sided_indemnity'', 8),
      (''unilateral_termination'', 8),
      (''ip_full_transfer'', 8),
      (''broad_non_compete'', 7),
      (''excessive_penalty'', 7),
      (''auto_renewal_hidden'', 6),
      (''unfavorable_jurisdiction'', 6),
      (''vague_termination'', 5),
      (''missing_liability_cap'', 5),
      (''missing_notice_period'', 4),
      (''ambiguous_deliverables'', 4),
      (''missing_dispute_resolution'', 4),
      (''unclear_payment_terms'', 3),
      (''missing_confidentiality'', 3)]"

record risk_info =
  patterns :: "rx list"
  ri_description :: string
  ri_suggestion :: string
  ri_indian_law :: string

definition RISK_PATTERNS :: "(string \<times> risk_info) list" where
  \<open>RISK_PATTERNS =
     [(''unlimited_liability'',
       \<lparr>patterns =
           [seqs [lit ''unlimited'', many1 ws, lit ''liability''],  \<comment> \<open>unlimited\s+liability\<close>
            seqs [lit ''liable'', many1 ws, lit ''for'', many1 ws, lit ''all'', many1 ws, alts [lit ''damages'', lit ''losses'', lit ''claims'']],  \<comment> \<open>liable\s+for\s+all\s+(?:damages|losses|claims)\<close>
            seqs [lit ''full'', many1 ws, lit ''liability'', many1 ws, lit ''for''],  \<comment> \<open>full\s+liability\s+for\<close>
            seqs [lit ''no'', many1 ws, lit ''limitation'', many1 ws, alts [lit ''on'', lit ''of''], many1 ws, lit ''liability'']]  \<comment> \<open>no\s+limitation\s+(?:on|of)\s+liability\<close>,
        ri_description = ''Unlimited liability exposure'',
        ri_suggestion = ''Negotiate a liability cap (typically 12 months of fees or specific amount)'',
        ri_indian_law = ''Indian Contract Act, Section 73-74 allows for reasonable limitation''\<rparr>),
      (''one_sided_indemnity'',
       \<lparr>patterns =
           [seqs [alts [lit ''vendor'', lit ''contractor'', lit ''employee'', lit ''consultant''], many1 ws, lit ''shall'', many1 ws, opt (seqs [lit ''fully'', many1 ws]), lit ''indemnify''],  \<comment> \<open>(?:vendor|contractor|employee|consultant)\s+shall\s+(?:fully\s+)?indemnify\<close>
            seqs [lit ''indemnify'', many1 ws, opt (seqs [lit ''and'', many1 ws, lit ''hold'', many1 ws, lit ''harmless'', many1 ws]), opt (seqs [lit ''the'', many1 ws]), alts [lit ''company'', lit ''employer'', lit ''client'']],  \<comment> \<open>indemnify\s+(?:and\s+hold\s+harmless\s+)?(?:the\s+)?(?:company|employer|client)\<close>
            seqs [lit ''defend'', many1 ws, opt (seqs [lit ''and'', many1 ws]), lit ''indemnify'', many AnyC, alts [lit ''all'', lit ''any''], many1 ws, lit ''claims'']]  \<comment> \<open>defend\s+(?:and\s+)?indemnify.*(?:all|any)\s+claims\<close>,
        ri_description = ''One-sided indemnification favoring the other party'',
        ri_suggestion = ''Request mutual indemnification or limit indemnity scope'',
        ri_indian_law = ''Should be mutual per fair contract principles''\<rparr>),
      (''unilateral_termination'',
       \<lparr>patterns =
           [seqs [alts [lit ''company'', lit ''employer'', lit ''client''], many1 ws, lit ''may'', many1 ws, lit ''terminate'', many1 ws, alts [seqs [lit ''at'', many1 ws, lit ''any'', many1 ws, lit ''time''], seqs [lit ''without'', many1 ws, lit ''cause''], lit ''immediately'', lit ''forthwith'']],  \<comment> \<open>(?:company|employer|client)\s+may\s+terminate\s+(?:at\s+any\s+time|without\s+cause|immediately|forthwith)\<close>
            seqs [lit ''terminate'', many1 ws, opt (seqs [lit ''this'', many1 ws, lit ''agreement'', many1 ws]), lit ''at'', many1 ws, opt (seqs [lit ''it'', opt (Lit CHR ''s''), many1 ws]), lit ''sole'', many1 ws, lit ''discretion''],  \<comment> \<open>terminate\s+(?:this\s+agreement\s+)?at\s+(?:its?\s+)?sole\s+discretion\<close>
            seqs [lit ''reserve'', opt (Lit CHR ''d''), many1 ws, opt (seqs [lit ''the'', many1 ws]), lit ''right'', many1 ws, lit ''to'', many1 ws, lit ''terminate'', many1 ws, lit ''without'']]  \<comment> \<open>reserved?\s+(?:the\s+)?right\s+to\s+terminate\s+without\<close>,
        ri_description = ''Only one party can terminate without cause'',
        ri_suggestion = ''Ensure mutual termination rights with reasonable notice period'',
        ri_indian_law = ''Indian Contract Act requires reasonable opportunity to cure''\<rparr>),
      (''ip_full_transfer'',
       \<lparr>patterns =
           [seqs [lit ''assign'', opt (alts [Lit CHR ''s'', lit ''ed'']), many1 ws, lit ''all'', many1 ws, alts [lit ''right'', lit ''title'', lit ''interest''], many AnyC, alts [seqs [lit ''intellectual'', many1 ws, lit ''property''], lit ''ip'', seqs [lit ''work'', many1 ws, lit ''product'']]],  \<comment> \<open>assign(?:s|ed)?\s+all\s+(?:right|title|interest).*(?:intellectual\s+property|ip|work\s+product)\<close>
            seqs [lit ''work'', opt (Lit CHR ''s''), many1 ws, opt (seqs [lit ''made'', many1 ws]), lit ''for'', many1 ws, lit ''hire''],  \<comment> \<open>work(?:s)?\s+(?:made\s+)?for\s+hire\<close>
            seqs [alts [lit ''all'', lit ''any''], many1 ws, alts [seqs [lit ''invention'', opt (Lit CHR ''s'')], seqs [lit ''creation'', opt (Lit CHR ''s'')], seqs [lit ''development'', opt (Lit CHR ''s'')]], many AnyC, alts [lit ''belong'', lit ''vest'', lit ''transfer''], many AnyC, alts [lit ''company'', lit ''employer'']],  \<comment> \<open>(?:all|any)\s+(?:inventions?|creations?|developments?).*(?:belong|vest|transfer).*(?:company|employer)\<close>
            seqs [lit ''irrevocable'', many AnyC, alts [lit ''license'', lit ''assignment'', lit ''transfer''], many AnyC, alts [lit ''ip'', lit ''intellectual'']]]  \<comment> \<open>irrevocable.*(?:license|assignment|transfer).*(?:ip|intellectual)\<close>,
        ri_description = ''Complete transfer of intellectual property rights'',
        ri_suggestion = ''Negotiate to retain rights to pre-existing IP and general knowledge'',
        ri_indian_law = ''Copyright Act, 1957 - Assignment should be in writing and specific''\<rparr>),
      (''broad_non_compete'',
       \<lparr>patterns =
           [seqs [opt (seqs [lit ''shall'', many1 ws]), lit ''not'', many1 ws, opt (seqs [lit ''directly'', many1 ws, lit ''or'', many1 ws, lit ''indirectly'', many1 ws]), alts [lit ''engage'', lit ''work'', lit ''compete''], many AnyC, alts [lit ''worldwide'', lit ''global'', seqs [lit ''any'', many1 ws, alts [lit ''market'', lit ''territory'']]]],  \<comment> \<open>(?:shall\s+)?not\s+(?:directly\s+or\s+indirectly\s+)?(?:engage|work|compete).*(?:worldwide|global|any\s+(?:market|territory))\<close>
            seqs [lit ''non-compete'', many AnyC, alts [InSet [CRange CHR ''2'' CHR ''9''], seqs [InSet [CRange CHR ''1'' CHR ''9''], many1 dg]], many1 ws, lit ''years''],  \<comment> \<open>non-compete.*(?:[2-9]|[1-9]\d+)\s+years\<close>
            seqs [lit ''restrain'', opt (alts [lit ''ed'', Lit CHR ''t'']), many1 ws, lit ''from'', many1 ws, alts [lit ''engaging'', lit ''working'', lit ''competing''], many AnyC, alts [lit ''perpetual'', lit ''indefinite'']]]  \<comment> \<open>restrain(?:ed|t)?\s+from\s+(?:engaging|working|competing).*(?:perpetual|indefinite)\<close>,
        ri_description = ''Overly broad non-compete restrictions'',
        ri_suggestion = ''Limit geographic scope and duration (6-12 months is typical in India)'',
        ri_indian_law = ''Section 27 of Indian Contract Act - Restraint of trade is void unless reasonable''\<rparr>),
      (''excessive_penalty'',
       \<lparr>patterns =
           [seqs [alts [lit ''penalty'', seqs [lit ''liquidated'', many1 ws, lit ''damages'']], many1 ws, alts [lit ''of'', seqs [lit ''equal'', many1 ws, lit ''to'']], many1 ws, alts [seqs [lit ''rs'', opt (Lit CHR ''.'')], lit ''inr'', rupee_sign], many ws, alts [seqs [InSet [CRange CHR ''5'' CHR ''9''], Rep 5 None True dg], seqs [InSet [CRange CHR ''1'' CHR ''9''], Rep 6 None True dg]]],  \<comment> \<open>(?:penalty|liquidated\s+damages)\s+(?:of|equal\s+to)\s+(?:rs\.?|inr|<U+20B9>)\s*(?:[5-9]\d{5,}|[1-9]\d{6,})\<close>
            seqs [lit ''forfeit'', many AnyC, alts [lit ''entire'', lit ''full'', lit ''all''], many AnyC, alts [lit ''amount'', lit ''fee'', lit ''payment'']],  \<comment> \<open>forfeit.*(?:entire|full|all).*(?:amount|fee|payment)\<close>
            seqs [lit ''penalty'', many AnyC, alts [lit ''double'', lit ''triple'', lit ''twice'', lit ''thrice'']]]  \<comment> \<open>penalty.*(?:double|triple|twice|thrice)\<close>,
        ri_description = ''Potentially excessive penalty clauses'',
        ri_suggestion = ''Negotiate reasonable and proportionate penalties'',
        ri_indian_law = ''Section 74 of Indian Contract Act - Only reasonable compensation is recoverable''\<rparr>),
      (''auto_renewal_hidden'',
       \<lparr>patterns =
           [seqs [alts [lit ''automatically'', lit ''auto''], many1 ws, lit ''renew'', opt (alts [lit ''ed'', Lit CHR ''s''])],  \<comment> \<open>(?:automatically|auto)\s+renew(?:ed|s)?\<close>
            seqs [lit ''shall'', many1 ws, alts [lit ''continue'', lit ''renew''], many1 ws, alts [lit ''for'', lit ''unless''], many AnyC, alts [lit ''notice'', lit ''terminated'']],  \<comment> \<open>shall\s+(?:continue|renew)\s+(?:for|unless).*(?:notice|terminated)\<close>
            seqs [lit ''evergreen'', many1 ws, alts [lit ''clause'', lit ''term'', lit ''provision'']]]  \<comment> \<open>evergreen\s+(?:clause|term|provision)\<close>,
        ri_description = ''Automatic renewal clause that may lock you in'',
        ri_suggestion = ''Add clear opt-out mechanism with reasonable notice period'',
        ri_indian_law = ''Consumer Protection Act, 2019 requires clear disclosure''\<rparr>),
      (''unfavorable_jurisdiction'',
       \<lparr>patterns =
           [seqs [opt (seqs [lit ''exclusive'', many1 ws]), lit ''jurisdiction'', many1 ws, alts [lit ''of'', lit ''in''], many1 ws, opt (seqs [lit ''court'', opt (Lit CHR ''s''), many1 ws, alts [lit ''of'', lit ''in''], many1 ws]), alts [lit ''london'', seqs [lit ''new'', many1 ws, lit ''york''], lit ''singapore'', seqs [lit ''hong'', many1 ws, lit ''kong''], lit ''us'', lit ''uk'', lit ''england'']],  \<comment> \<open>(?:exclusive\s+)?jurisdiction\s+(?:of|in)\s+(?:courts?\s+(?:of|in)\s+)?(?:london|new\s+york|singapore|hong\s+kong|us|uk|england)\<close>
            seqs [lit ''governed'', many1 ws, lit ''by'', many AnyC, opt (seqs [lit ''law'', opt (Lit CHR ''s''), many1 ws, lit ''of'', many1 ws]), alts [lit ''england'', seqs [lit ''new'', many1 ws, lit ''york''], lit ''singapore'', lit ''delaware'']]]  \<comment> \<open>governed\s+by.*(?:laws?\s+of\s+)?(?:england|new\s+york|singapore|delaware)\<close>,
        ri_description = ''Foreign jurisdiction may be costly and inconvenient'',
        ri_suggestion = ''Negotiate for local Indian jurisdiction (preferably your state)'',
        ri_indian_law = ''Indian courts should have jurisdiction for domestic parties''\<rparr>),
      (''vague_termination'',
       \<lparr>patterns =
           [seqs [lit ''terminate'', many AnyC, alts [seqs [lit ''any'', many1 ws, lit ''reason''], seqs [lit ''no'', many1 ws, lit ''reason''], lit ''whatsoever'']],  \<comment> \<open>terminate.*(?:any\s+reason|no\s+reason|whatsoever)\<close>
            seqs [alts [seqs [lit ''at'', many1 ws, lit ''will''], seqs [lit ''without'', many1 ws, lit ''cause'']], many AnyC, lit ''terminat'']]  \<comment> \<open>(?:at\s+will|without\s+cause).*terminat\<close>,
        ri_description = ''Vague termination grounds without proper process'',
        ri_suggestion = ''Define specific grounds for termination and cure periods'',
        ri_indian_law = ''Industrial Disputes Act requires proper process for employment termination''\<rparr>),
      (''missing_liability_cap'',
       \<lparr>patterns =
           [seqs [alts [lit ''no'', lit ''without''], many1 ws, alts [lit ''limitation'', lit ''cap'', lit ''ceiling''], many1 ws, alts [lit ''on'', lit ''of''], many1 ws, alts [lit ''liability'', lit ''damages'']]]  \<comment> \<open>(?:no|without)\s+(?:limitation|cap|ceiling)\s+(?:on|of)\s+(?:liability|damages)\<close>,
        ri_description = ''No cap on liability exposure'',
        ri_suggestion = ''Include liability cap (e.g., total fees paid in last 12 months)'',
        ri_indian_law = ''Parties can contractually limit liability under Indian Contract Act''\<rparr>)]\<close>

record missing_check =
  mc_check :: "string list"
  mc_description :: string
  mc_suggestion :: string
  mc_score :: rat

definition missing_checks :: "(string \<times> missing_check) list" where
  "missing_checks =
     [(''liability_cap'',
       \<lparr>mc_check = [''limitation of liability'', ''liability cap'',
                     ''liability shall not exceed'', ''maximum liability''],
        mc_description = ''Missing liability limitation clause'',
        mc_suggestion = ''Add a clause capping total liability exposure'',
        mc_score = 5\<rparr>),
      (''dispute_resolution'',
       \<lparr>mc_check = [''arbitration'', ''dispute resolution'', ''mediation'',
                     ''conciliation''],
        mc_description = ''Missing dispute resolution mechanism'',
        mc_suggestion = ''Include arbitration clause as per Arbitration and Conciliation Act, 1996'',
        mc_score = 4\<rparr>),
      (''notice_period'',
       \<lparr>mc_check = [''notice period'', ''days notice'', ''written notice'',
                     ''prior notice''],
        mc_description = ''Missing or unclear notice period requirements'',
        mc_suggestion = ''Specify clear notice periods for termination and other actions'',
        mc_score = 4\<rparr>),
      (''force_majeure'',
       \<lparr>mc_check = [''force majeure'', ''act of god'', ''unforeseen circumstances''],
        mc_description = ''Missing force majeure clause'',
        mc_suggestion = ''Add force majeure clause to protect against unforeseen events'',
        mc_score = 3\<rparr>),
      (''confidentiality'',
       \<lparr>mc_check = [''confidential'', ''non-disclosure'', ''proprietary information'',
                     ''trade secret''],
        mc_description = ''Missing confidentiality provisions'',
        mc_suggestion = ''Include mutual confidentiality obligations'',
        mc_score = 3\<rparr>)]"

subsection \<open>\<^verbatim>\<open>_score_to_level\<close>\<close>

definition score_to_level :: "rat \<Rightarrow> RiskLevel" where
  "score_to_level s =
     (if s \<ge> 8 then CRITICAL
      else if s \<ge> 6 then HIGH
      else if s \<ge> 4 then MEDIUM
      else LOW)"

subsection \<open>\<^verbatim>\<open>_analyze_text_risks\<close>\<close>

text \<open>\<^verbatim>\<open>risk_type.replace("_", " ").title()\<close>.\<close>

definition risk_label :: "string \<Rightarrow> string" where
  "risk_label t = str_title (replace_char CHR ''_'' CHR '' '' t)"

definition text_finding :: "string \<Rightarrow> string \<Rightarrow> risk_info \<Rightarrow> re_match \<Rightarrow> RiskFinding" where
  "text_finding text rtype rinfo m =
     (let start = nat (max 0 (int (m_start m) - 100));
          stop = min (length text) (m_end m + 100);
          context = slice start stop text;
          sc = (case map_of RISK_WEIGHTS rtype of Some w \<Rightarrow> w | None \<Rightarrow> 5);
          level = score_to_level sc
      in \<lparr>clause_id = ''general'',
          risk_type = risk_label rtype,
          risk_level = level,
          score = sc,
          description = ri_description rinfo,
          original_text = strip context,
          suggestion = ri_suggestion rinfo,
          indian_law_reference = ri_indian_law rinfo\<rparr>)"

definition add_text_finding :: "RiskFinding \<Rightarrow> RiskFinding list \<Rightarrow> RiskFinding list" where
  "add_text_finding finding fs =
     (if \<not> list_ex (\<lambda>f. risk_type f = risk_type finding \<and> original_text f = original_text finding) fs
      then fs @ [finding] else fs)"

definition analyze_text_risks :: "string \<Rightarrow> RiskFinding list \<Rightarrow> RiskFinding list" where
  "analyze_text_risks text fs =
     (let text_lower = lower text
      in fold (\<lambda>(rtype, rinfo).
                 fold (\<lambda>pattern.
                         fold (\<lambda>m. add_text_finding (text_finding text rtype rinfo m))
                              (finditer pattern True text_lower))
                      (patterns rinfo))
              RISK_PATTERNS fs)"

subsection \<open>\<^verbatim>\<open>_analyze_clause_risks\<close>\<close>

text \<open>A clause dictionary as the risk assessor reads it: the keys \<^verbatim>\<open>clause_id\<close>,
  \<^verbatim>\<open>number\<close>, \<^verbatim>\<open>content\<close> and \<^verbatim>\<open>risk_indicators\<close>, each of which may be absent.\<close>

record clause_dict =
  d_clause_id :: "string option"
  d_number :: "string option"
  d_content :: "string option"
  d_risk_indicators :: "string list option"

definition clause_finding :: "string \<Rightarrow> string \<Rightarrow> string \<Rightarrow> rat \<Rightarrow> RiskFinding" where
  "clause_finding cid body indicator sc =
     (let rinfo = map_of RISK_PATTERNS indicator
      in \<lparr>clause_id = cid,
          risk_type = risk_label indicator,
          risk_level = score_to_level sc,
          score = sc,
          description = (case rinfo of None \<Rightarrow> indicator | Some i \<Rightarrow> ri_description i),
          original_text = take 200 body,
          suggestion = (case rinfo of None \<Rightarrow> '''' | Some i \<Rightarrow> ri_suggestion i),
          indian_law_reference = (case rinfo of None \<Rightarrow> '''' | Some i \<Rightarrow> ri_indian_law i)\<rparr>)"

definition add_clause_finding :: "RiskFinding \<Rightarrow> RiskFinding list \<Rightarrow> RiskFinding list" where
  "add_clause_finding finding fs =
     (if \<not> list_ex (\<lambda>f. clause_id f = clause_id finding \<and> risk_type f = risk_type finding) fs
      then fs @ [finding] else fs)"

text \<open>\<^verbatim>\<open>clause.get("clause_id", clause.get("number", "unknown"))\<close>,
  \<^verbatim>\<open>clause.get("content", "")\<close> and \<^verbatim>\<open>clause.get("risk_indicators", [])\<close>.\<close>

definition clause_id_of :: "clause_dict \<Rightarrow> string" where
  "clause_id_of clause =
     (case d_clause_id clause of
        Some i \<Rightarrow> i
      | None \<Rightarrow> (case d_number clause of Some n \<Rightarrow> n | None \<Rightarrow> ''unknown''))"

definition content_of :: "clause_dict \<Rightarrow> string" where
  "content_of clause = (case d_content clause of None \<Rightarrow> [] | Some c \<Rightarrow> c)"

definition indicators_of :: "clause_dict \<Rightarrow> string list" where
  "indicators_of clause = (case d_risk_indicators clause of None \<Rightarrow> [] | Some inds \<Rightarrow> inds)"

definition analyze_clause_risks :: "clause_dict \<Rightarrow> RiskFinding list \<Rightarrow> RiskFinding list" where
  "analyze_clause_risks clause fs =
     (let body = content_of clause;
          cid = clause_id_of clause;
          inds = indicators_of clause
      in fold (\<lambda>indicator fs.
                 case map_of RISK_WEIGHTS indicator of
                   None \<Rightarrow> fs
                 | Some sc \<Rightarrow> add_clause_finding (clause_finding cid body indicator sc) fs)
              inds fs)"

subsection \<open>\<^verbatim>\<open>_check_missing_protections\<close>\<close>

definition missing_finding :: "string \<Rightarrow> missing_check \<Rightarrow> RiskFinding" where
  "missing_finding check_type check_info =
     \<lparr>clause_id = ''missing'',
      risk_type = ''Missing '' @ risk_label check_type,
      risk_level = score_to_level (mc_score check_info),
      score = mc_score check_info,
      description = mc_description check_info,
      original_text = ''[Not found in contract]'',
      suggestion = mc_suggestion check_info,
      indian_law_reference = ''''\<rparr>"

definition check_missing_protections :: "string \<Rightarrow> RiskFinding list \<Rightarrow> RiskFinding list" where
  "check_missing_protections text fs =
     (let text_lower = lower text
      in fold (\<lambda>(check_type, check_info) fs.
                 let found = list_ex (\<lambda>keyword. contains text_lower keyword) (mc_check check_info)
                 in if \<not> found then fs @ [missing_finding check_type check_info] else fs)
              missing_checks fs)"

subsection \<open>\<^verbatim>\<open>_calculate_overall_score\<close>\<close>

definition count_level :: "RiskLevel \<Rightarrow> RiskFinding list \<Rightarrow> nat" where
  "count_level l fs = sum_list (map (\<lambda>f. if risk_level f = l then 1 else 0) fs)"

text \<open>\<^verbatim>\<open>sorted(findings, key=lambda x: x.score, reverse=True)\<close>; Python's sort is stable,
  also with \<^verbatim>\<open>reverse=True\<close>.\<close>

definition sorted_desc :: "RiskFinding list \<Rightarrow> RiskFinding list" where
  "sorted_desc fs = sort_key (\<lambda>f. - score f) fs"

definition calculate_overall_score :: "rounding \<Rightarrow> RiskFinding list \<Rightarrow> RiskReport" where
  "calculate_overall_score rnd fs =
     (if fs = [] then
        \<lparr>overall_score = 2, overall_level = LOW, high_risk_count = 0,
         medium_risk_count = 0, low_risk_count = 0, findings = [],
         summary = ''No significant risks found. Contract appears well-balanced.''\<rparr>
      else
        let critical_count = count_level CRITICAL fs;
            high_count = count_level HIGH fs;
            medium_count = count_level MEDIUM fs;
            low_count = count_level LOW fs;
            total_score = sum_list (map score fs);
            avg_score = total_score / of_nat (length fs);
            avg_score = (if critical_count > 0
                         then min 10 (avg_score + of_nat critical_count * (1 / 2))
                         else avg_score);
            avg_score = (if high_count > 2 then min 10 (avg_score + 1 / 2) else avg_score);
            level = score_to_level avg_score;
            summary_parts =
              (if critical_count > 0
               then [str_nat critical_count @ '' critical risk(s) require immediate attention'']
               else []) @
              (if high_count > 0
               then [str_nat high_count @ '' high-risk clause(s) should be renegotiated'']
               else []) @
              (if medium_count > 0
               then [str_nat medium_count @ '' medium-risk item(s) to review'']
               else []);
            summ = (if summary_parts \<noteq> [] then join ''. '' summary_parts
                       else ''Contract has acceptable risk levels.'')
        in \<lparr>overall_score = rnd avg_score, overall_level = level,
            high_risk_count = critical_count + high_count,
            medium_risk_count = medium_count, low_risk_count = low_count,
            findings = sorted_desc fs, summary = summ\<rparr>)"

subsection \<open>\<^verbatim>\<open>assess_contract\<close>\<close>

text \<open>The findings the three passes collect, starting from the empty list that
  \<^verbatim>\<open>assess_contract\<close> assigns to \<^verbatim>\<open>self.findings\<close>.  An absent or empty \<^verbatim>\<open>clauses\<close>
  argument skips the per-clause pass; both are the empty list here.\<close>

definition collect_findings :: "string \<Rightarrow> clause_dict list \<Rightarrow> RiskFinding list" where
  "collect_findings text clauses =
     (let fs = [];
          fs = analyze_text_risks text fs;
          fs = fold analyze_clause_risks clauses fs;
          fs = check_missing_protections text fs
      in fs)"

text \<open>\<open>self_findings\<close> is the attribute \<^verbatim>\<open>self.findings\<close> before the call; the result is
  the report and the attribute after the call.\<close>

definition assess_contract ::
    "rounding \<Rightarrow> RiskFinding list \<Rightarrow> string \<Rightarrow> clause_dict list
     \<Rightarrow> RiskReport \<times> RiskFinding list" where
  "assess_contract rnd self_findings text clauses =
     (let self_findings = collect_findings text clauses
      in (calculate_overall_score rnd self_findings, self_findings))"

subsection \<open>\<^verbatim>\<open>get_clause_risk_score\<close>\<close>

text \<open>The inner loop with its \<^verbatim>\<open>break\<close>: the first pattern that is found ends it.\<close>

fun first_match :: "rx list \<Rightarrow> string \<Rightarrow> bool" where
  "first_match [] content_lower = False"
| "first_match (pattern # ps) content_lower =
     (if re_search pattern True content_lower then True else first_match ps content_lower)"

fun matched_risk_types :: "(string \<times> risk_info) list \<Rightarrow> string \<Rightarrow> string list \<Rightarrow> string list" where
  "matched_risk_types [] content_lower found = found"
| "matched_risk_types ((rtype, rinfo) # rest) content_lower found =
     matched_risk_types rest content_lower
       (if first_match (patterns rinfo) content_lower then found @ [rtype] else found)"

text \<open>\<^verbatim>\<open>max(self.RISK_WEIGHTS.get(f, 5) for f in findings)\<close> on a non-empty list.\<close>

definition weight_or_5 :: "string \<Rightarrow> rat" where
  "weight_or_5 f = (case map_of RISK_WEIGHTS f of None \<Rightarrow> 5 | Some w \<Rightarrow> w)"

fun max_weight :: "rat \<Rightarrow> string list \<Rightarrow> rat" where
  "max_weight best [] = best"
| "max_weight best (f # fs) =
     max_weight (if best < weight_or_5 f then weight_or_5 f else best) fs"

definition get_clause_risk_score :: "string \<Rightarrow> rat \<times> RiskLevel \<times> string list" where
  "get_clause_risk_score clause_content =
     (let content_lower = lower clause_content;
          found = matched_risk_types RISK_PATTERNS content_lower []
      in case found of
           [] \<Rightarrow> (2, LOW, [])
         | f # fs \<Rightarrow>
             let max_score = max_weight (weight_or_5 f) fs
             in (max_score, score_to_level max_score, found))"

section \<open>Contract classifier (core/contract\_classifier.py)\<close>

record ClassificationResult =
  contract_type :: string
  confidence :: rat
  sub_type :: string
  key_indicators :: "string list"

subsection \<open>The table \<^verbatim>\<open>CONTRACT_PATTERNS\<close>\<close>

text \<open>Each pattern of a type stands with its text, of which \<^verbatim>\<open>classify\<close> quotes the first
  30 characters in \<^verbatim>\<open>key_indicators\<close>.\<close>

record type_info =
  type_keywords :: "string list"
  type_patterns :: "(string \<times> rx) list"
  sub_types :: "string list"

definition CONTRACT_PATTERNS :: "(string \<times> type_info) list" where
  "CONTRACT_PATTERNS =
     [(''Employment Agreement'',
       \<lparr>type_keywords =
          [''employment'', ''employee'', ''employer'', ''salary'', ''compensation'',
           ''working hours'', ''leave'', ''provident fund'', ''gratuity'', ''probation'',
           ''termination of employment'', ''notice period'', ''designation'',
           ''job duties'', ''reporting'', ''workplace'', ''office hours''],
        type_patterns =
          [(''employment'' @ [CHR 0x5C] @ ''s+agreement'', seqs [lit ''employment'', many1 ws, lit ''agreement'']),
           (''contract'' @ [CHR 0x5C] @ ''s+of'' @ [CHR 0x5C] @ ''s+employment'', seqs [lit ''contract'', many1 ws, lit ''of'', many1 ws, lit ''employment'']),
           (''letter'' @ [CHR 0x5C] @ ''s+of'' @ [CHR 0x5C] @ ''s+appointment'', seqs [lit ''letter'', many1 ws, lit ''of'', many1 ws, lit ''appointment'']),
           (''offer'' @ [CHR 0x5C] @ ''s+letter'', seqs [lit ''offer'', many1 ws, lit ''letter'']),
           (''service'' @ [CHR 0x5C] @ ''s+agreement.*employee'', seqs [lit ''service'', many1 ws, lit ''agreement'', many AnyC, lit ''employee''])],
        sub_types = [''Full-time'', ''Part-time'', ''Fixed-term'', ''Probationary'',
                     ''Executive'']\<rparr>),
      (''Vendor Contract'',
       \<lparr>type_keywords =
          [''vendor'', ''supplier'', ''purchase'', ''supply'', ''goods'', ''materials'',
           ''delivery'', ''invoice'', ''procurement'', ''quality'', ''specifications'',
           ''order'', ''consignment'', ''warranty on goods''],
        type_patterns =
          [(''vendor'' @ [CHR 0x5C] @ ''s+agreement'', seqs [lit ''vendor'', many1 ws, lit ''agreement'']),
           (''supply'' @ [CHR 0x5C] @ ''s+agreement'', seqs [lit ''supply'', many1 ws, lit ''agreement'']),
           (''purchase'' @ [CHR 0x5C] @ ''s+agreement'', seqs [lit ''purchase'', many1 ws, lit ''agreement'']),
           (''procurement'' @ [CHR 0x5C] @ ''s+contract'', seqs [lit ''procurement'', many1 ws, lit ''contract'']),
           (''supplier'' @ [CHR 0x5C] @ ''s+contract'', seqs [lit ''supplier'', many1 ws, lit ''contract''])],
        sub_types = [''Supply Agreement'', ''Purchase Order'', ''Framework Agreement'']\<rparr>),
      (''Lease Agreement'',
       \<lparr>type_keywords =
          [''lease'', ''lessor'', ''lessee'', ''rent'', ''rental'', ''premises'',
           ''property'', ''tenant'', ''landlord'', ''security deposit'', ''maintenance'',
           ''occupancy'', ''possession'', ''eviction'', ''sub-lease'', ''monthly rent''],
        type_patterns =
          [(''lease'' @ [CHR 0x5C] @ ''s+(?:agreement|deed)'', seqs [lit ''lease'', many1 ws, alts [lit ''agreement'', lit ''deed'']]),
           (''rental'' @ [CHR 0x5C] @ ''s+agreement'', seqs [lit ''rental'', many1 ws, lit ''agreement'']),
           (''tenancy'' @ [CHR 0x5C] @ ''s+agreement'', seqs [lit ''tenancy'', many1 ws, lit ''agreement'']),
           (''leave'' @ [CHR 0x5C] @ ''s+and'' @ [CHR 0x5C] @ ''s+license'', seqs [lit ''leave'', many1 ws, lit ''and'', many1 ws, lit ''license'']),
           (''property'' @ [CHR 0x5C] @ ''s+lease'', seqs [lit ''property'', many1 ws, lit ''lease''])],
        sub_types = [''Residential'', ''Commercial'', ''Industrial'', ''Leave and License'']\<rparr>),
      (''Partnership Deed'',
       \<lparr>type_keywords =
          [''partnership'', ''partner'', ''partners'', ''profit sharing'',
           ''capital contribution'', ''partnership firm'', ''mutual consent'',
           ''dissolution'', ''goodwill'', ''partner'' @ [CHR 0x27] @ ''s share'', ''draw'',
           ''partnership act''],
        type_patterns =
          [(''partnership'' @ [CHR 0x5C] @ ''s+deed'', seqs [lit ''partnership'', many1 ws, lit ''deed'']),
           (''partnership'' @ [CHR 0x5C] @ ''s+agreement'', seqs [lit ''partnership'', many1 ws, lit ''agreement'']),
           (''articles'' @ [CHR 0x5C] @ ''s+of'' @ [CHR 0x5C] @ ''s+partnership'', seqs [lit ''articles'', many1 ws, lit ''of'', many1 ws, lit ''partnership'']),
           (''(?:general|limited)'' @ [CHR 0x5C] @ ''s+partnership'', seqs [alts [lit ''general'', lit ''limited''], many1 ws, lit ''partnership''])],
        sub_types = [''General Partnership'', ''Limited Partnership'', ''LLP'']\<rparr>),
      (''Service Contract'',
       \<lparr>type_keywords =
          [''services'', ''service provider'', ''client'', ''deliverables'',
           ''scope of work'', ''milestones'', ''project'', ''consultancy'',
           ''professional services'', ''statement of work'', ''sow'', ''service level'',
           ''sla''],
        type_patterns =
          [(''service'' @ [CHR 0x5C] @ ''s+agreement'', seqs [lit ''service'', many1 ws, lit ''agreement'']),
           (''consulting'' @ [CHR 0x5C] @ ''s+agreement'', seqs [lit ''consulting'', many1 ws, lit ''agreement'']),
           (''professional'' @ [CHR 0x5C] @ ''s+services'' @ [CHR 0x5C] @ ''s+agreement'', seqs [lit ''professional'', many1 ws, lit ''services'', many1 ws, lit ''agreement'']),
           (''master'' @ [CHR 0x5C] @ ''s+service'' @ [CHR 0x5C] @ ''s+agreement'', seqs [lit ''master'', many1 ws, lit ''service'', many1 ws, lit ''agreement'']),
           (''statement'' @ [CHR 0x5C] @ ''s+of'' @ [CHR 0x5C] @ ''s+work'', seqs [lit ''statement'', many1 ws, lit ''of'', many1 ws, lit ''work''])],
        sub_types = [''Consulting'', ''IT Services'', ''Professional Services'',
                     ''Maintenance'']\<rparr>),
      (''Non-Disclosure Agreement'',
       \<lparr>type_keywords =
          [''confidential'', ''non-disclosure'', ''nda'', ''proprietary'',
           ''trade secret'', ''confidential information'', ''receiving party'',
           ''disclosing party'', ''sensitive information'', ''protect''],
        type_patterns =
          [(''non-disclosure'' @ [CHR 0x5C] @ ''s+agreement'', seqs [lit ''non-disclosure'', many1 ws, lit ''agreement'']),
           (''confidentiality'' @ [CHR 0x5C] @ ''s+agreement'', seqs [lit ''confidentiality'', many1 ws, lit ''agreement'']),
           ([CHR 0x5C] @ ''bnda'' @ [CHR 0x5C] @ ''b'', seqs [WordB, lit ''nda'', WordB]),
           (''mutual'' @ [CHR 0x5C] @ ''s+(?:non-disclosure|confidentiality)'', seqs [lit ''mutual'', many1 ws, alts [lit ''non-disclosure'', lit ''confidentiality'']])],
        sub_types = [''Mutual NDA'', ''One-way NDA'', ''Employee NDA'']\<rparr>),
      (''Licensing Agreement'',
       \<lparr>type_keywords =
          [''license'', ''licensor'', ''licensee'', ''royalty'', ''intellectual property'',
           ''trademark'', ''patent'', ''copyright'', ''sublicense'', ''territory'',
           ''exclusive'', ''non-exclusive'', ''usage rights''],
        type_patterns =
          [(''licens(?:e|ing)'' @ [CHR 0x5C] @ ''s+agreement'', seqs [lit ''licens'', alts [Lit CHR ''e'', lit ''ing''], many1 ws, lit ''agreement'']),
           (''software'' @ [CHR 0x5C] @ ''s+license'', seqs [lit ''software'', many1 ws, lit ''license'']),
           (''trademark'' @ [CHR 0x5C] @ ''s+license'', seqs [lit ''trademark'', many1 ws, lit ''license'']),
           (''patent'' @ [CHR 0x5C] @ ''s+license'', seqs [lit ''patent'', many1 ws, lit ''license'']),
           (''end'' @ [CHR 0x5C] @ ''s+user'' @ [CHR 0x5C] @ ''s+license'', seqs [lit ''end'', many1 ws, lit ''user'', many1 ws, lit ''license''])],
        sub_types = [''Software License'', ''IP License'', ''Franchise'',
                     ''Technology License'']\<rparr>),
      (''Sales Agreement'',
       \<lparr>type_keywords =
          [''sale'', ''seller'', ''buyer'', ''purchaser'', ''purchase price'', ''goods'',
           ''transfer of ownership'', ''title'', ''delivery'', ''payment terms'',
           ''bill of sale'', ''consideration''],
        type_patterns =
          [(''sale'' @ [CHR 0x5C] @ ''s+agreement'', seqs [lit ''sale'', many1 ws, lit ''agreement'']),
           (''sale'' @ [CHR 0x5C] @ ''s+deed'', seqs [lit ''sale'', many1 ws, lit ''deed'']),
           (''agreement'' @ [CHR 0x5C] @ ''s+(?:for|of)'' @ [CHR 0x5C] @ ''s+sale'', seqs [lit ''agreement'', many1 ws, alts [lit ''for'', lit ''of''], many1 ws, lit ''sale'']),
           (''purchase'' @ [CHR 0x5C] @ ''s+and'' @ [CHR 0x5C] @ ''s+sale'', seqs [lit ''purchase'', many1 ws, lit ''and'', many1 ws, lit ''sale''])],
        sub_types = [''Asset Sale'', ''Share Sale'', ''Real Estate Sale'',
                     ''Business Sale'']\<rparr>),
      (''Loan Agreement'',
       \<lparr>type_keywords =
          [''loan'', ''lender'', ''borrower'', ''principal'', ''interest'', ''repayment'',
           ''emi'', ''collateral'', ''security'', ''default'', ''disbursement'',
           ''promissory note'', ''mortgage''],
        type_patterns =
          [(''loan'' @ [CHR 0x5C] @ ''s+agreement'', seqs [lit ''loan'', many1 ws, lit ''agreement'']),
           (''credit'' @ [CHR 0x5C] @ ''s+agreement'', seqs [lit ''credit'', many1 ws, lit ''agreement'']),
           (''facility'' @ [CHR 0x5C] @ ''s+agreement'', seqs [lit ''facility'', many1 ws, lit ''agreement'']),
           (''promissory'' @ [CHR 0x5C] @ ''s+note'', seqs [lit ''promissory'', many1 ws, lit ''note''])],
        sub_types = [''Personal Loan'', ''Business Loan'', ''Mortgage'', ''Line of Credit'']\<rparr>),
      (''Franchise Agreement'',
       \<lparr>type_keywords =
          [''franchise'', ''franchisee'', ''franchisor'', ''brand'', ''trademark usage'',
           ''franchise fee'', ''royalty'', ''territory'', ''operational standards'',
           ''training'', ''marketing fund''],
        type_patterns =
          [(''franchise'' @ [CHR 0x5C] @ ''s+agreement'', seqs [lit ''franchise'', many1 ws, lit ''agreement'']),
           (''franchising'' @ [CHR 0x5C] @ ''s+agreement'', seqs [lit ''franchising'', many1 ws, lit ''agreement'']),
           (''master'' @ [CHR 0x5C] @ ''s+franchise'', seqs [lit ''master'', many1 ws, lit ''franchise''])],
        sub_types = [''Unit Franchise'', ''Master Franchise'', ''Area Development'']\<rparr>)]"

subsection \<open>\<^verbatim>\<open>_determine_sub_type\<close>\<close>

fun first_sub_type :: "string list \<Rightarrow> string \<Rightarrow> string option" where
  "first_sub_type [] text_lower = None"
| "first_sub_type (st # rest) text_lower =
     (if contains text_lower (lower st) then Some st
      else first_sub_type rest text_lower)"

definition determine_sub_type :: "string \<Rightarrow> string \<Rightarrow> string" where
  "determine_sub_type text_lower ctype =
     (let stypes = (case map_of CONTRACT_PATTERNS ctype of
                         None \<Rightarrow> [] | Some tinfo \<Rightarrow> sub_types tinfo)
      in case first_sub_type stypes text_lower of
           Some st \<Rightarrow> st
         | None \<Rightarrow>
             if ctype = ''Employment Agreement'' then
               (if contains text_lower ''probation'' then ''Probationary''
                else if contains text_lower ''fixed term'' \<or> contains text_lower ''fixed-term''
                  then ''Fixed-term''
                else if contains text_lower ''executive'' \<or> contains text_lower ''managing director''
                  then ''Executive''
                else ''Full-time'')
             else if ctype = ''Lease Agreement'' then
               (if contains text_lower ''residential'' \<or> contains text_lower ''house''
                   \<or> contains text_lower ''apartment''
                  then ''Residential''
                else if contains text_lower ''commercial'' \<or> contains text_lower ''office''
                   \<or> contains text_lower ''shop''
                  then ''Commercial''
                else if contains text_lower ''leave and license'' then ''Leave and License''
                else ''Commercial'')
             else if ctype = ''Non-Disclosure Agreement'' then
               (if contains text_lower ''mutual'' then ''Mutual NDA'' else ''One-way NDA'')
             else (case stypes of [] \<Rightarrow> '''' | s # rest \<Rightarrow> s))"

subsection \<open>\<^verbatim>\<open>classify\<close>\<close>

text \<open>The score of one contract type and the keywords and patterns that matched.\<close>

definition score_keywords :: "string \<Rightarrow> string list \<Rightarrow> nat \<times> string list \<Rightarrow> nat \<times> string list" where
  "score_keywords text_lower kws acc =
     fold (\<lambda>keyword (sc, matched_keywords).
             let count = str_count text_lower (lower keyword)
             in if count > 0 then (sc + min count 5, matched_keywords @ [keyword])
                else (sc, matched_keywords))
          kws acc"

definition score_patterns ::
    "string \<Rightarrow> (string \<times> rx) list \<Rightarrow> nat \<times> string list \<Rightarrow> nat \<times> string list" where
  "score_patterns text_lower pats acc =
     fold (\<lambda>(pattern_text, pattern) (sc, matched_keywords).
             if re_search pattern True text_lower
             then (sc + 10, matched_keywords @ [''[pattern: '' @ take 30 pattern_text @ ''...]''])
             else (sc, matched_keywords))
          pats acc"

definition score_type :: "string \<Rightarrow> type_info \<Rightarrow> nat \<times> string list" where
  "score_type text_lower tinfo =
     score_patterns text_lower (type_patterns tinfo)
       (score_keywords text_lower (type_keywords tinfo) (0, []))"

text \<open>The dictionary \<^verbatim>\<open>scores\<close>: the types with a positive score, in the order of the
  table, each with its score and its first ten matched keywords.\<close>

definition type_scores :: "string \<Rightarrow> (string \<times> nat \<times> string list) list" where
  "type_scores text_lower =
     concat (map (\<lambda>(ctype, tinfo).
                    let (sc, matched_keywords) = score_type text_lower tinfo
                    in if sc > 0 then [(ctype, sc, take 10 matched_keywords)] else [])
                 CONTRACT_PATTERNS)"

text \<open>\<open>self_result\<close> is the attribute \<^verbatim>\<open>self.result\<close> before the call (\<open>None\<close> for a
  fresh classifier); the call returns the result it stores there.\<close>

definition classify ::
    "ClassificationResult option \<Rightarrow> string \<Rightarrow> py_error + ClassificationResult" where
  "classify self_result text =
     (let text_lower = lower text;
          scores = type_scores text_lower
      in case scores of
           [] \<Rightarrow> Inr \<lparr>contract_type = ''Unknown'', confidence = 0, sub_type = '''',
                     key_indicators = []\<rparr>
         | s # rest \<Rightarrow>
             let (best_type, best_score, matched) = max_by (\<lambda>(t, sc, kws). sc) s rest
             in (case map_of CONTRACT_PATTERNS best_type of
                  None \<Rightarrow> Inl KeyError
                | Some tinfo \<Rightarrow>
                    let max_possible = length (type_keywords tinfo) * 5
                                       + length (type_patterns tinfo) * 10
                    in if of_nat max_possible * (3 / 10 :: rat) = 0 then Inl ZeroDivisionError
                       else
                         let conf = min 1 (of_nat best_score / (of_nat max_possible * (3 / 10)));
                             stype = determine_sub_type text_lower best_type
                         in Inr \<lparr>contract_type = best_type,
                                 confidence = py_round conf 2,
                                 sub_type = stype,
                                 key_indicators = matched\<rparr>))"

section \<open>Clause extractor (core/clause\_extractor.py)\<close>

record ExtractedClause =
  ec_clause_id :: string
  title :: string
  content :: string
  category :: string
  risk_indicators :: "string list"
  key_terms :: "string list"
  amounts :: "string list"
  dates :: "string list"

subsection \<open>The tables and patterns of the extractor\<close>

definition CLAUSE_CATEGORIES :: "(string \<times> string list) list" where
  "CLAUSE_CATEGORIES =
     [(''payment'',
       [''payment'', ''compensation'', ''salary'', ''fee'', ''price'', ''cost'',
        ''invoice'', ''billing'', ''remuneration'']),
      (''termination'',
       [''termination'', ''terminate'', ''cancel'', ''cancellation'', ''exit'',
        ''end of agreement'', ''expiry'', ''expire'']),
      (''confidentiality'',
       [''confidential'', ''confidentiality'', ''non-disclosure'', ''nda'',
        ''proprietary'', ''trade secret'', ''sensitive information'']),
      (''liability'',
       [''liability'', ''liable'', ''indemnify'', ''indemnification'', ''indemnity'',
        ''hold harmless'', ''defend'', ''damages'']),
      (''intellectual_property'',
       [''intellectual property'', ''ip'', ''patent'', ''copyright'', ''trademark'',
        ''invention'', ''work product'', ''proprietary rights'']),
      (''non_compete'',
       [''non-compete'', ''non compete'', ''compete'', ''competition'',
        ''competitive activity'', ''restraint of trade'']),
      (''arbitration'',
       [''arbitration'', ''dispute'', ''resolution'', ''mediation'', ''arbitrator'']),
      (''jurisdiction'',
       [''jurisdiction'', ''governing law'', ''venue'', ''court'', ''applicable law'']),
      (''warranty'',
       [''warranty'', ''warranties'', ''represent'', ''representation'', ''guarantee'',
        ''assurance'']),
      (''force_majeure'',
       [''force majeure'', ''act of god'', ''unforeseen'', ''beyond control'',
        ''natural disaster'', ''pandemic'']),
      (''renewal'',
       [''renewal'', ''renew'', ''auto-renew'', ''automatic renewal'', ''extension'',
        ''extend'', ''evergreen'']),
      (''notice'',
       [''notice'', ''notification'', ''notify'', ''inform'', ''written notice'']),
      (''assignment'',
       [''assignment'', ''assign'', ''transfer'', ''delegate'', ''succession'']),
      (''amendment'',
       [''amendment'', ''amend'', ''modify'', ''modification'', ''change'']),
      (''definitions'',
       [''definition'', ''defined'', ''means'', ''shall mean'', ''interpretation'']),
      (''scope'',
       [''scope'', ''services'', ''deliverables'', ''obligations'', ''responsibilities'',
        ''work'', ''duties''])]"

definition HIGH_RISK_PATTERNS :: "(string \<times> rx list) list" where
  \<open>HIGH_RISK_PATTERNS =
     [(''unlimited_liability'',
       [seqs [lit ''unlimited'', many1 ws, lit ''liability''],  \<comment> \<open>unlimited\s+liability\<close>
        seqs [lit ''full'', many1 ws, lit ''liability''],  \<comment> \<open>full\s+liability\<close>
        seqs [lit ''liable'', many1 ws, lit ''for'', many1 ws, lit ''all'', many1 ws, lit ''damages'']]),  \<comment> \<open>liable\s+for\s+all\s+damages\<close>
      (''unilateral_termination'',
       [seqs [alts [seqs [lit ''party'', many1 ws, InSet [CChar CHR ''a'', CChar CHR ''b'', CChar CHR ''1'', CChar CHR ''2'']], lit ''employer'', lit ''company''], many1 ws, lit ''may'', many1 ws, lit ''terminate'', many1 ws, alts [seqs [lit ''at'', many1 ws, lit ''any'', many1 ws, lit ''time''], seqs [lit ''without'', many1 ws, lit ''cause''], lit ''immediately'']],  \<comment> \<open>(?:party\s+[ab12]|employer|company)\s+may\s+terminate\s+(?:at\s+any\s+time|without\s+cause|immediately)\<close>
        seqs [lit ''sole'', many1 ws, lit ''discretion'', many AnyC, lit ''terminat'']]),  \<comment> \<open>sole\s+discretion.*terminat\<close>
      (''excessive_penalty'',
       [seqs [lit ''penalty'', many1 ws, lit ''of'', many1 ws, alts [seqs [lit ''rs'', opt (Lit CHR ''.'')], lit ''inr'', rupee_sign], many ws, many1 (InSet [CDigit, CChar CHR '',''])],  \<comment> \<open>penalty\s+of\s+(?:rs\.?|inr|<U+20B9>)\s*[\d,]+\<close>
        seqs [lit ''liquidated'', many1 ws, lit ''damages'', many AnyC, alts [seqs [lit ''rs'', opt (Lit CHR ''.'')], lit ''inr'', rupee_sign], many ws, many1 (InSet [CDigit, CChar CHR '',''])]]),  \<comment> \<open>liquidated\s+damages.*(?:rs\.?|inr|<U+20B9>)\s*[\d,]+\<close>
      (''broad_non_compete'',
       [seqs [alts [lit ''worldwide'', lit ''global'', lit ''unlimited''], many1 ws, alts [lit ''non-compete'', lit ''restriction'']],  \<comment> \<open>(?:worldwide|global|unlimited)\s+(?:non-compete|restriction)\<close>
        seqs [lit ''non-compete'', many AnyC, alts [seqs [many1 dg, many1 ws, lit ''years''], seqs [many1 dg, many1 ws, lit ''year'', many1 ws, lit ''period'']]]]),  \<comment> \<open>non-compete.*(?:\d+\s+years|\d+\s+year\s+period)\<close>
      (''ip_assignment'',
       [seqs [lit ''assign'', many AnyC, lit ''all'', many AnyC, alts [seqs [lit ''intellectual'', many1 ws, lit ''property''], lit ''ip'', lit ''rights'']],  \<comment> \<open>assign.*all.*(?:intellectual\s+property|ip|rights)\<close>
        seqs [lit ''work'', many AnyC, lit ''for'', many AnyC, lit ''hire''],  \<comment> \<open>work.*for.*hire\<close>
        seqs [lit ''transfer'', many AnyC, lit ''ownership'', many AnyC, alts [lit ''ip'', lit ''intellectual'']]]),  \<comment> \<open>transfer.*ownership.*(?:ip|intellectual)\<close>
      (''auto_renewal'',
       [seqs [lit ''auto'', opt (seqs [lit ''matic'']), opt (seqs [lit ''ally'']), many1 ws, lit ''renew''],  \<comment> \<open>auto(?:matic)?(?:ally)?\s+renew\<close>
        seqs [lit ''evergreen'', many AnyC, lit ''clause'']]),  \<comment> \<open>evergreen.*clause\<close>
      (''one_sided_indemnity'',
       [seqs [alts [lit ''employee'', lit ''contractor'', lit ''vendor''], many1 ws, lit ''shall'', many1 ws, lit ''indemnify''],  \<comment> \<open>(?:employee|contractor|vendor)\s+shall\s+indemnify\<close>
        seqs [lit ''indemnify'', many AnyC, alts [lit ''company'', lit ''employer''], many AnyC, lit ''all'', many AnyC, lit ''claims'']])]  \<comment> \<open>indemnify.*(?:company|employer).*all.*claims\<close>\<close>

definition clause_patterns :: "rx list" where
  \<open>clause_patterns =
     [seqs [alts [BolM, Lit (CHR 0x0A)], many ws, Grp 1 (seqs [many1 dg, many (seqs [Lit CHR ''.'', many1 dg])]), many ws, InSet [CChar CHR ''.'', CChar CHR '':'', CChar CHR '')''], many ws, Grp 2 (seqs [InSet [CRange CHR ''A'' CHR ''Z''], Rep 0 (Some 100) True (NotInSet [CChar (CHR 0x0A)])])],  \<comment> \<open>(?:^|\n)\s*(\d+(?:\.\d+)*)\s*[\.:\)]\s*([A-Z][^\n]{0,100})\<close>
      seqs [alts [BolM, Lit (CHR 0x0A)], many ws, alts [lit ''ARTICLE'', lit ''Article'', lit ''SECTION'', lit ''Section'', lit ''CLAUSE'', lit ''Clause''], many ws, Grp 1 (seqs [many1 dg, opt (seqs [Lit CHR ''.'', many1 dg])]), many1 (InSet [CChar CHR ''.'', CChar CHR '':'', CSpace]), Grp 2 (many1 (NotInSet [CChar (CHR 0x0A)]))],  \<comment> \<open>(?:^|\n)\s*(?:ARTICLE|Article|SECTION|Section|CLAUSE|Clause)\s*(\d+(?:\.\d+)?)[\.:\s]+([^\n]+)\<close>
      seqs [alts [BolM, Lit (CHR 0x0A)], many ws, Grp 1 (many1 (InSet [CChar CHR ''I'', CChar CHR ''V'', CChar CHR ''X'', CChar CHR ''L'', CChar CHR ''C''])), many ws, InSet [CChar CHR ''.'', CChar CHR '':'', CChar CHR '')''], many ws, Grp 2 (many1 (NotInSet [CChar (CHR 0x0A)]))],  \<comment> \<open>(?:^|\n)\s*([IVXLC]+)\s*[\.:\)]\s*([^\n]+)\<close>
      seqs [alts [BolM, Lit (CHR 0x0A)], many ws, Lit CHR ''('', Grp 1 (InSet [CRange CHR ''a'' CHR ''z'']), Lit CHR '')'', many ws, Grp 2 (many1 (NotInSet [CChar (CHR 0x0A)]))]]  \<comment> \<open>(?:^|\n)\s*\(([a-z])\)\s*([^\n]+)\<close>\<close>

definition legal_terms :: "string list" where
  "legal_terms =
     [''shall'', ''must'', ''may'', ''will'', ''agrees'', ''warrants'', ''represents'',
      ''indemnify'', ''terminate'', ''liable'', ''confidential'', ''proprietary'',
      ''exclusive'', ''non-exclusive'', ''irrevocable'', ''perpetual'']"

definition amount_patterns :: "rx list" where
  \<open>amount_patterns =
     [seqs [alts [seqs [lit ''Rs'', opt (Lit CHR ''.'')], lit ''INR'', rupee_sign], many ws, many1 (InSet [CDigit, CChar CHR '','']), opt (seqs [Lit CHR ''.'', Rep 2 (Some 2) True dg])],  \<comment> \<open>(?:Rs\.?|INR|<U+20B9>)\s*[\d,]+(?:\.\d{2})?\<close>
      seqs [Lit CHR ''$'', many ws, many1 (InSet [CDigit, CChar CHR '','']), opt (seqs [Lit CHR ''.'', Rep 2 (Some 2) True dg])],  \<comment> \<open>\$\s*[\d,]+(?:\.\d{2})?\<close>
      seqs [many1 (InSet [CDigit, CChar CHR '','']), many ws, alts [lit ''rupees'', lit ''dollars'', seqs [lit ''lakh'', opt (Lit CHR ''s'')], seqs [lit ''crore'', opt (Lit CHR ''s'')]]]]  \<comment> \<open>[\d,]+\s*(?:rupees|dollars|lakhs?|crores?)\<close>\<close>

definition date_patterns :: "rx list" where
  \<open>date_patterns =
     [seqs [WordB, Rep 1 (Some 2) True dg, InSet [CChar CHR ''/'', CChar CHR ''-''], Rep 1 (Some 2) True dg, InSet [CChar CHR ''/'', CChar CHR ''-''], Rep 2 (Some 4) True dg, WordB],  \<comment> \<open>\b\d{1,2}[\/\-]\d{1,2}[\/\-]\d{2,4}\b\<close>
      seqs [WordB, Rep 1 (Some 2) True dg, opt (alts [lit ''st'', lit ''nd'', lit ''rd'', lit ''th'']), many1 ws, alts [lit ''Jan'', lit ''Feb'', lit ''Mar'', lit ''Apr'', lit ''May'', lit ''Jun'', lit ''Jul'', lit ''Aug'', lit ''Sep'', lit ''Oct'', lit ''Nov'', lit ''Dec''], many (InSet [CRange CHR ''a'' CHR ''z'']), many ws, opt (Lit CHR '',''), many ws, Rep 4 (Some 4) True dg, WordB],  \<comment> \<open>\b\d{1,2}(?:st|nd|rd|th)?\s+(?:Jan|Feb|Mar|Apr|May|Jun|Jul|Aug|Sep|Oct|Nov|Dec)[a-z]*\s*,?\s*\d{4}\b\<close>
      seqs [WordB, alts [lit ''January'', lit ''February'', lit ''March'', lit ''April'', lit ''May'', lit ''June'', lit ''July'', lit ''August'', lit ''September'', lit ''October'', lit ''November'', lit ''December''], many1 ws, Rep 1 (Some 2) True dg, opt (Lit CHR '',''), many1 ws, Rep 4 (Some 4) True dg, WordB]]  \<comment> \<open>\b(?:January|February|March|April|May|June|July|August|September|October|November|December)\s+\d{1,2},?\s+\d{4}\b\<close>\<close>

definition party_pattern_between :: rx where
  \<open>party_pattern_between =
     seqs [alts [lit ''between'', lit ''BETWEEN''], many1 ws, Grp 1 (lazy_many1 AnyNL), many1 ws, alts [lit ''and'', lit ''AND''], many1 ws, Grp 2 (lazy_many1 AnyNL), alts [Lit CHR ''.'', Lit CHR '','', Lit (CHR 0x0A)]]  \<comment> \<open>(?:between|BETWEEN)\s+(.+?)\s+(?:and|AND)\s+(.+?)(?:\.|,|\n)\<close>\<close>

definition party_pattern_label :: rx where
  \<open>party_pattern_label =
     seqs [seqs [lit ''Party'', many ws, InSet [CChar CHR ''A'', CChar CHR ''B'', CChar CHR ''1'', CChar CHR ''2'']], many1 (InSet [CChar CHR '':'', CSpace]), Grp 1 (lazy_many1 AnyNL), alts [Lit (CHR 0x0A), Lit CHR '','', Lit CHR ''.'']]  \<comment> \<open>(?:Party\s*[AB12])[:\s]+(.+?)(?:\n|,|\.)\<close>\<close>

definition party_pattern_hereinafter :: rx where
  \<open>party_pattern_hereinafter =
     seqs [lit ''hereinafter'', many AnyNL, alts [lit ''called'', lit ''referred''], many AnyNL, InSet [CChar (CHR 0x22), CChar (CHR 0x27)], Grp 1 (lazy_many1 AnyNL), InSet [CChar (CHR 0x22), CChar (CHR 0x27)]]  \<comment> \<open>(?:hereinafter.*(?:called|referred).*["\'](.+?)["\'])\<close>\<close>

definition amount_pattern :: rx where
  \<open>amount_pattern =
     seqs [alts [seqs [lit ''Rs'', opt (Lit CHR ''.'')], lit ''INR'', rupee_sign, Lit CHR ''$''], many ws, Grp 1 (seqs [many1 (InSet [CDigit, CChar CHR '','']), opt (seqs [Lit CHR ''.'', Rep 2 (Some 2) True dg])])]  \<comment> \<open>(?:Rs\.?|INR|<U+20B9>|\$)\s*([\d,]+(?:\.\d{2})?)\<close>\<close>

definition duration_pattern :: rx where
  \<open>duration_pattern =
     seqs [alts [lit ''term'', lit ''period'', lit ''duration''], many1 ws, opt (seqs [lit ''of'', many1 ws]), Grp 1 (many1 dg), many1 ws, Grp 2 (alts [seqs [lit ''year'', opt (Lit CHR ''s'')], seqs [lit ''month'', opt (Lit CHR ''s'')], seqs [lit ''day'', opt (Lit CHR ''s'')]])]  \<comment> \<open>(?:term|period|duration)\s+(?:of\s+)?(\d+)\s+(years?|months?|days?)\<close>\<close>

definition jurisdiction_pattern :: rx where
  \<open>jurisdiction_pattern =
     seqs [alts [lit ''governed by'', lit ''subject to'', lit ''jurisdiction of''], many1 ws, opt (seqs [lit ''the'', many1 ws]), opt (seqs [lit ''law'', opt (Lit CHR ''s''), many1 ws, lit ''of'', many1 ws]), Grp 1 (many1 (InSet [CRange CHR ''A'' CHR ''Z'', CRange CHR ''a'' CHR ''z'', CSpace, CChar CHR '',''])), alts [Lit CHR ''.'', Lit (CHR 0x0A), Eol]]  \<comment> \<open>(?:governed by|subject to|jurisdiction of)\s+(?:the\s+)?(?:laws?\s+of\s+)?([A-Za-z\s,]+)(?:\.|\n|$)\<close>\<close>

definition conditions_pattern :: rx where
  \<open>conditions_pattern =
     seqs [alts [seqs [lit ''may'', many1 ws, lit ''terminate''], seqs [lit ''terminate'', many AnyC, alts [lit ''if'', lit ''upon'', lit ''when'']]], Grp 1 (lazy_many1 AnyC), alts [Lit CHR ''.'', Lit CHR '';'', Eol]]  \<comment> \<open>(?:may\s+terminate|terminate.*(?:if|upon|when))(.+?)(?:\.|;|$)\<close>\<close>

definition ip_pattern :: rx where
  \<open>ip_pattern =
     seqs [alts [seqs [lit ''intellectual'', many1 ws, lit ''property''], lit ''patent'', lit ''copyright'', lit ''trademark'', lit ''invention''], Grp 1 (Rep 0 (Some 200) True AnyC)]  \<comment> \<open>(?:intellectual\s+property|patent|copyright|trademark|invention)(.{0,200})\<close>\<close>

definition section_pattern :: "string \<Rightarrow> rx" where
  "section_pattern keyword =
     seqs [alts [BolM, Lit (CHR 0x0A)], many ws, opt (seqs [many1 dg, many (seqs [Lit CHR ''.'', many1 dg]), opt (Lit CHR ''.''), many ws]), many (NotInSet [CChar (CHR 0x0A)]), lit keyword, many (NotInSet [CChar (CHR 0x0A)]), Lit (CHR 0x0A), Grp 1 (lazy_many1 AnyNL), Look (alts [seqs [alts [BolM, Lit (CHR 0x0A)], many ws, many1 dg, many (seqs [Lit CHR ''.'', many1 dg]), Lit CHR ''.'', many ws, InSet [CRange CHR ''A'' CHR ''Z'']], EndZ])]"

subsection \<open>\<^verbatim>\<open>_categorize_clause\<close>\<close>

text \<open>The dictionary \<^verbatim>\<open>category_scores\<close>: the categories with a positive score in the
  order of the table; \<^verbatim>\<open>max(category_scores, key=category_scores.get)\<close> is the first of
  the highest score.\<close>

definition category_scores :: "string \<Rightarrow> (string \<times> nat) list" where
  "category_scores combined_text =
     concat (map (\<lambda>(cat, kws).
                    let sc = sum_list (map (\<lambda>keyword. if contains combined_text keyword then 1 else 0) kws)
                    in if sc > 0 then [(cat, sc :: nat)] else [])
                 CLAUSE_CATEGORIES)"

definition categorize_clause :: "string \<Rightarrow> string \<Rightarrow> string" where
  "categorize_clause ttl body =
     (let combined_text = lower (ttl @ '' '' @ body)
      in case category_scores combined_text of
           [] \<Rightarrow> ''general''
         | s # rest \<Rightarrow> fst (max_by snd s rest))"

subsection \<open>\<^verbatim>\<open>_find_risk_indicators\<close>, \<^verbatim>\<open>_extract_key_terms\<close>, \<^verbatim>\<open>_extract_amounts\<close>,
  \<^verbatim>\<open>_extract_dates\<close>\<close>

fun any_match :: "rx list \<Rightarrow> string \<Rightarrow> bool" where
  "any_match [] content_lower = False"
| "any_match (pattern # ps) content_lower =
     (if re_search pattern True content_lower then True else any_match ps content_lower)"

definition find_risk_indicators :: "set_order \<Rightarrow> string \<Rightarrow> string list" where
  "find_risk_indicators ord body =
     (let content_lower = lower body;
          inds = map fst (filter (\<lambda>(rtype, pats). any_match pats content_lower)
                                            HIGH_RISK_PATTERNS)
      in ord inds)"

definition extract_key_terms :: "string \<Rightarrow> string list" where
  "extract_key_terms body =
     (let content_lower = lower body;
          found_terms = filter (\<lambda>t. contains content_lower t) legal_terms
      in take 10 found_terms)"

definition extract_amounts :: "string \<Rightarrow> string list" where
  "extract_amounts body =
     take 5 (concat (map (\<lambda>pattern. findall0 pattern True body) amount_patterns))"

definition extract_dates :: "string \<Rightarrow> string list" where
  "extract_dates body =
     take 5 (concat (map (\<lambda>pattern. findall0 pattern True body) date_patterns))"

subsection \<open>\<^verbatim>\<open>extract_clauses\<close>\<close>

text \<open>An entry of \<^verbatim>\<open>all_matches\<close>.  \<^verbatim>\<open>match.group(1)\<close> is stored as it is (\<open>None\<close> for a
  group that took no part, which \<^verbatim>\<open>str\<close> later prints as \<^verbatim>\<open>None\<close>);
  \<^verbatim>\<open>match.group(2).strip()\<close> raises \<^verbatim>\<open>AttributeError\<close> on such a group.\<close>

record heading =
  h_id :: "string option"
  h_title :: string
  h_start :: nat
  h_end :: nat

definition heading_of :: "re_match \<Rightarrow> py_error + heading" where
  "heading_of m =
     (case group m 2 of
        None \<Rightarrow> Inl AttributeError
      | Some t \<Rightarrow> Inr \<lparr>h_id = group m 1, h_title = strip t, h_start = m_start m, h_end = m_end m\<rparr>)"

fun headings_of :: "re_match list \<Rightarrow> py_error + heading list" where
  "headings_of [] = Inr []"
| "headings_of (m # ms) =
     (case heading_of m of
        Inl e \<Rightarrow> Inl e
      | Inr h \<Rightarrow> (case headings_of ms of Inl e \<Rightarrow> Inl e | Inr hs \<Rightarrow> Inr (h # hs)))"

text \<open>The matches of the four heading conventions, convention after convention.\<close>

definition all_matches :: "string \<Rightarrow> py_error + heading list" where
  "all_matches text = headings_of (concat (map (\<lambda>pattern. finditer pattern True text) clause_patterns))"

text \<open>The loop over the sorted matches.  A match is kept when the text between its end and
  the start of the next match (the end of the text for the last one), stripped, has at least
  20 characters.  A kept match stands with the offset where its body ends and the stripped
  body.\<close>

fun kept_segments :: "string \<Rightarrow> heading list \<Rightarrow> (heading \<times> nat \<times> string) list" where
  "kept_segments text [] = []"
| "kept_segments text (m # ms) =
     (let start = h_end m;
          stop = (case ms of [] \<Rightarrow> length text | n # rest \<Rightarrow> h_start n);
          body = strip (slice start stop text)
      in if length body < 20 then kept_segments text ms
         else (m, stop, body) # kept_segments text ms)"

definition build_clause :: "set_order \<Rightarrow> heading \<times> nat \<times> string \<Rightarrow> ExtractedClause" where
  "build_clause ord seg =
     (case seg of (m, stop, body) \<Rightarrow>
        \<lparr>ec_clause_id = (case h_id m of None \<Rightarrow> ''None'' | Some i \<Rightarrow> i),
         title = take 200 (h_title m),
         content = take 2000 body,
         category = categorize_clause (h_title m) body,
         risk_indicators = find_risk_indicators ord body,
         key_terms = extract_key_terms body,
         amounts = extract_amounts body,
         dates = extract_dates body\<rparr>)"

text \<open>The segments \<^verbatim>\<open>extract_clauses\<close> keeps, and the clauses it returns for them (the
  list it also stores in \<^verbatim>\<open>self.clauses\<close>; \<open>self_clauses\<close> is that attribute before the
  call).\<close>

definition clause_segments :: "string \<Rightarrow> py_error + (heading \<times> nat \<times> string) list" where
  "clause_segments text =
     (case all_matches text of
        Inl e \<Rightarrow> Inl e
      | Inr ms \<Rightarrow> Inr (kept_segments text (sort_key h_start ms)))"

definition extract_clauses ::
    "set_order \<Rightarrow> ExtractedClause list \<Rightarrow> string \<Rightarrow> py_error + ExtractedClause list" where
  "extract_clauses ord self_clauses text =
     (case clause_segments text of
        Inl e \<Rightarrow> Inl e
      | Inr segs \<Rightarrow> Inr (map (build_clause ord) segs))"

subsection \<open>\<^verbatim>\<open>_extract_section\<close> and \<^verbatim>\<open>extract_data_dimensions\<close>\<close>

fun extract_section :: "string \<Rightarrow> string list \<Rightarrow> string option" where
  "extract_section text [] = None"
| "extract_section text (keyword # rest) =
     (case re_search_match (section_pattern keyword) True text of
        Some m \<Rightarrow> Some (take 1000 (slice (m_start m) (m_end m) text))
      | None \<Rightarrow> extract_section text rest)"

record dimensions =
  parties :: "string list"
  financial_amounts :: "string list"
  obligations :: "string list"
  liabilities :: "string list"
  deliverables :: "string list"
  timeline :: "string list"
  duration :: "string option"
  termination_conditions :: "string list"
  jurisdiction :: "string option"
  governing_law :: "string option"
  ip_rights :: "string list"
  confidentiality_terms :: "string list"
  nda_terms :: "string list"

text \<open>The party names the three patterns find: both groups of the first pattern, stripped,
  when not empty; the group of the second and of the third, stripped.\<close>

definition party_names :: "string \<Rightarrow> string list" where
  "party_names text =
     concat (map (\<lambda>(a, b). filter (\<lambda>m. m \<noteq> []) [strip a, strip b])
                 (findall2 party_pattern_between True text))
     @ map strip (findall1 party_pattern_label True text)
     @ map strip (findall1 party_pattern_hereinafter True text)"

definition extract_data_dimensions :: "set_order \<Rightarrow> string \<Rightarrow> py_error + dimensions" where
  "extract_data_dimensions ord text =
     (let duration_match = re_search_match duration_pattern True text;
          jurisdiction_match = re_search_match jurisdiction_pattern True text;
          termination_section = extract_section text [''termination'', ''terminate''];
          conf_section = extract_section text [''confidential'', ''non-disclosure'', ''nda'']
      in case (case jurisdiction_match of
                 None \<Rightarrow> Inr None
               | Some m \<Rightarrow> (case group m 1 of None \<Rightarrow> Inl AttributeError
                                              | Some g \<Rightarrow> Inr (Some (strip g)))) of
           Inl e \<Rightarrow> Inl e
         | Inr jur \<Rightarrow>
             Inr \<lparr>parties = take 10 (ord (party_names text)),
                  financial_amounts = take 20 (findall1 amount_pattern False text),
                  obligations = [],
                  liabilities = [],
                  deliverables = [],
                  timeline = [],
                  duration = (case duration_match of
                                None \<Rightarrow> None
                              | Some m \<Rightarrow> Some (group_text m 1 @ '' '' @ group_text m 2)),
                  termination_conditions =
                    (case termination_section of
                       None \<Rightarrow> []
                     | Some sec \<Rightarrow>
                         if sec = [] then []
                         else map (\<lambda>c. take 200 (strip c))
                                  (take 5 (findall1 conditions_pattern True sec))),
                  jurisdiction = jur,
                  governing_law = jur,
                  ip_rights = map (\<lambda>m. take 200 (strip m)) (take 5 (findall1 ip_pattern True text)),
                  confidentiality_terms =
                    (case conf_section of
                       None \<Rightarrow> []
                     | Some sec \<Rightarrow> if sec = [] then [] else [take 500 sec]),
                  nda_terms = []\<rparr>)"

section \<open>The pipeline of \<^verbatim>\<open>process_document\<close> (app.py)\<close>

text \<open>The attributes of the three components that their methods assign.\<close>

record components =
  extractor_clauses :: "ExtractedClause list"
  assessor_findings :: "RiskFinding list"
  classifier_result :: "ClassificationResult option"

record pipeline_output =
  out_classification :: ClassificationResult
  out_clauses :: "ExtractedClause list"
  out_dimensions :: dimensions
  out_risk_report :: RiskReport

text \<open>The dictionary \<^verbatim>\<open>process_document\<close> builds of a clause for the risk assessor.\<close>

definition clause_dict_of :: "ExtractedClause \<Rightarrow> clause_dict" where
  "clause_dict_of c =
     \<lparr>d_clause_id = Some (ec_clause_id c), d_number = None, d_content = Some (content c),
      d_risk_indicators = Some (risk_indicators c)\<rparr>"

text \<open>Steps 3, 4 and 6 of \<^verbatim>\<open>process_document\<close>: classification, clause extraction with
  the data dimensions, and risk assessment, in that order.  The loading of the file (which
  refuses a text of fewer than 100 characters after trimming), the language step, the NLP
  statistics, the optional remote analysis and the session state of the user interface are
  not part of the model.\<close>

definition run_pipeline ::
    "set_order \<Rightarrow> rounding \<Rightarrow> components \<Rightarrow> string
     \<Rightarrow> py_error + (pipeline_output \<times> components)" where
  "run_pipeline ord rnd comps text =
     (case classify (classifier_result comps) text of
        Inl e \<Rightarrow> Inl e
      | Inr classification \<Rightarrow>
          (case extract_clauses ord (extractor_clauses comps) text of
             Inl e \<Rightarrow> Inl e
           | Inr clauses \<Rightarrow>
               (case extract_data_dimensions ord text of
                  Inl e \<Rightarrow> Inl e
                | Inr data_dimensions \<Rightarrow>
                    let clause_dicts = map clause_dict_of clauses;
                        (risk_report, fs) = assess_contract rnd (assessor_findings comps) text clause_dicts
                    in Inr (\<lparr>out_classification = classification, out_clauses = clauses,
                             out_dimensions = data_dimensions, out_risk_report = risk_report\<rparr>,
                            \<lparr>extractor_clauses = clauses, assessor_findings = fs,
                             classifier_result = Some classification\<rparr>))))"

section \<open>Definitions for the statements of the claims\<close>

text \<open>The score the specification describes, in its words: the arithmetic mean of all
  finding scores, increased (capped at 10) by 0.5 times the number of CRITICAL findings when
  there is one, and by a further 0.5 (capped at 10) when more than two findings are HIGH.\<close>

definition spec_boosted_mean :: "RiskFinding list \<Rightarrow> rat" where
  "spec_boosted_mean fs =
     (let mean = sum_list (map score fs) / of_nat (length fs);
          n_critical = length (filter (\<lambda>f. risk_level f = CRITICAL) fs);
          n_high = length (filter (\<lambda>f. risk_level f = HIGH) fs);
          boosted = (if n_critical > 0 then min 10 (mean + of_nat n_critical / 2) else mean)
      in if n_high > 2 then min 10 (boosted + 1 / 2) else boosted)"

text \<open>The risk types of the catalogue of which some pattern is found in the lower-cased
  text, in the order of the catalogue.\<close>

definition spec_matched_types :: "string \<Rightarrow> string list" where
  "spec_matched_types clause_content =
     map fst (filter (\<lambda>(rtype, rinfo). \<exists>p \<in> set (patterns rinfo). re_search p True (lower clause_content))
                     RISK_PATTERNS)"

text \<open>The triple and the pair by which findings are compared.\<close>

definition finding_key :: "RiskFinding \<Rightarrow> string \<times> string \<times> string" where
  "finding_key f = (risk_type f, clause_id f, original_text f)"

definition finding_pair :: "RiskFinding \<Rightarrow> string \<times> string" where
  "finding_pair f = (clause_id f, risk_type f)"

text \<open>The findings of the document-wide scan and the per-clause pass.\<close>

definition scanned_findings :: "string \<Rightarrow> clause_dict list \<Rightarrow> RiskFinding list" where
  "scanned_findings text clauses = fold analyze_clause_risks clauses (analyze_text_risks text [])"

definition text_inv :: "RiskFinding list \<Rightarrow> bool" where
  "text_inv fs = (distinct (map finding_key fs) \<and> (\<forall>f \<in> set fs. clause_id f = ''general''))"

text \<open>The missing-protection pass appends its findings.\<close>

definition missing_findings :: "string \<Rightarrow> RiskFinding list" where
  "missing_findings text =
     map (\<lambda>(check_type, check_info). missing_finding check_type check_info)
         (filter (\<lambda>(check_type, check_info).
                    \<not> list_ex (\<lambda>keyword. contains (lower text) keyword) (mc_check check_info))
                 missing_checks)"

text \<open>\<open>fs'\<close> extends \<open>fs\<close> by findings of \<open>G\<close> whose pairs (clause id, risk type) are new
  and pairwise different.\<close>

definition extends_by :: "RiskFinding set \<Rightarrow> RiskFinding list \<Rightarrow> RiskFinding list \<Rightarrow> bool" where
  "extends_by G fs fs' =
     (\<exists>new. fs' = fs @ new \<and> distinct (map finding_pair new)
            \<and> finding_pair ` set new \<inter> finding_pair ` set fs = {} \<and> set new \<subseteq> G)"

text \<open>The findings the per-clause pass can emit for a clause: one per indicator that the
  weight table lists, with the weight as its score.\<close>

definition clause_findings_of :: "clause_dict \<Rightarrow> RiskFinding set" where
  "clause_findings_of c =
     {clause_finding (clause_id_of c) (content_of c) i sc | i sc.
        i \<in> set (indicators_of c) \<and> map_of RISK_WEIGHTS i = Some sc}"

text \<open>The greatest score a contract type can reach, and the confidence the specification
  describes for a winning type: \<^verbatim>\<open>min(1.0, best_score / (max_possible * 0.3))\<close>.\<close>

definition max_possible_score :: "type_info \<Rightarrow> nat" where
  "max_possible_score tinfo = length (type_keywords tinfo) * 5 + length (type_patterns tinfo) * 10"

definition unrounded_confidence :: "string \<Rightarrow> string \<Rightarrow> rat" where
  "unrounded_confidence text ctype =
     (case map_of CONTRACT_PATTERNS ctype of
        None \<Rightarrow> 0
      | Some tinfo \<Rightarrow>
          min 1 (of_nat (fst (score_type (lower text) tinfo))
                 / (of_nat (max_possible_score tinfo) * (3 / 10))))"

subsection \<open>Sample inputs\<close>

text \<open>A one-sentence document that triggers no risk pattern and names none of the five
  protective topics, and three clause dictionaries for the per-clause pass.\<close>

definition sale_doc :: string where
  "sale_doc = ''The parties agree to the sale of goods.''"

definition restraint_clauses :: "clause_dict list" where
  "restraint_clauses =
     [\<lparr>d_clause_id = Some ''1'', d_number = None, d_content = Some ''Restraint'',
       d_risk_indicators = Some [''broad_non_compete'', ''excessive_penalty'']\<rparr>,
      \<lparr>d_clause_id = Some ''2'', d_number = None, d_content = Some ''Restraint'',
       d_risk_indicators = Some [''broad_non_compete'', ''excessive_penalty'']\<rparr>,
      \<lparr>d_clause_id = Some ''3'', d_number = None, d_content = Some ''Renewal'',
       d_risk_indicators = Some [''broad_non_compete'', ''auto_renewal_hidden'']\<rparr>]"

text \<open>A clause dictionary that names itself \<^verbatim>\<open>missing\<close>.\<close>

definition shadow_clause :: clause_dict where
  "shadow_clause =
     \<lparr>d_clause_id = Some ''missing'', d_number = None,
      d_content = Some ''[Not found in contract]'',
      d_risk_indicators = Some [''missing_liability_cap'']\<rparr>"

text \<open>A document of one clause, and the dictionary \<^verbatim>\<open>process_document\<close> passes for that
  clause to the risk assessor.\<close>

definition ip_doc :: string where
  "ip_doc = ''1. IP\<newline>Assign all ip rights; unlimited liability.''"

text \<open>The same clause under a longer heading, a document of 120 characters.\<close>

definition ip_contract :: string where
  "ip_contract = ''1. INTELLECTUAL PROPERTY AND LIABILITY OF THE CONSULTANT UNDER THIS AGREEMENT\<newline>Assign all ip rights; unlimited liability.''"

definition ip_clause :: clause_dict where
  "ip_clause =
     \<lparr>d_clause_id = Some ''1'', d_number = None,
      d_content = Some ''Assign all ip rights; unlimited liability.'',
      d_risk_indicators = Some [''unlimited_liability'', ''ip_assignment'']\<rparr>"

text \<open>A sentence with two risk types of different weights.\<close>

definition renewal_text :: string where
  "renewal_text = ''Auto renews; penalty is double.''"

text \<open>A sentence with two keywords of the employment profile.\<close>

definition employee_text :: string where
  "employee_text = ''The employee receives a salary.''"

subsection \<open>Predicates on matches and segments\<close>

text \<open>The groups that take part in every match of a pattern.\<close>

fun sure_groups :: "rx \<Rightarrow> nat list" where
  "sure_groups (Grp n r) = n # sure_groups r"
| "sure_groups (Seq a b) = sure_groups a @ sure_groups b"
| "sure_groups (Alt a b) = filter (\<lambda>n. n \<in> set (sure_groups b)) (sure_groups a)"
| "sure_groups (Rep mn mx greedy r) = (if mn > 0 then sure_groups r else [])"
| "sure_groups r = []"

text \<open>From \<open>st\<close> to \<open>st'\<close> the match has moved forward and has captured the groups \<open>G\<close>.\<close>

definition advances :: "nat set \<Rightarrow> mstate \<Rightarrow> mstate \<Rightarrow> bool" where
  "advances G st st' =
     (length (m_rest st') \<le> length (m_rest st)
      \<and> (\<exists>new. m_caps st' = new @ m_caps st \<and> G \<subseteq> fst ` set new))"

text \<open>A match lies inside a text of \<open>n\<close> characters and holds the groups of every path.\<close>

definition good_match :: "rx \<Rightarrow> nat \<Rightarrow> re_match \<Rightarrow> bool" where
  "good_match r n m =
     (m_start m \<le> m_end m \<and> m_end m \<le> n \<and> set (sure_groups r) \<subseteq> fst ` set (m_groups m))"

text \<open>A heading lies inside a text of \<open>n\<close> characters.\<close>

definition good_heading :: "nat \<Rightarrow> heading \<Rightarrow> bool" where
  "good_heading n h = (h_start h \<le> h_end h \<and> h_end h \<le> n)"

text \<open>A kept segment: its heading, the offset where its body ends, and the stripped body.\<close>

definition good_segment :: "string \<Rightarrow> heading \<times> nat \<times> string \<Rightarrow> bool" where
  "good_segment text seg =
     (case seg of (m, stop, body) \<Rightarrow>
        h_start m \<le> h_end m \<and> h_end m < stop \<and> stop \<le> length text
        \<and> body = strip (slice (h_end m) stop text) \<and> 20 \<le> length body)"

text \<open>One segment starts, and ends, before another starts.\<close>

definition before :: "heading \<times> nat \<times> string \<Rightarrow> heading \<times> nat \<times> string \<Rightarrow> bool" where
  "before seg seg' = (case seg of (m, stop, body) \<Rightarrow> case seg' of (m', stop', body') \<Rightarrow>
                        h_start m < h_start m' \<and> stop \<le> h_start m')"

text \<open>The text of the first scenario of the specification: two numbered headings, each
  followed by one line.\<close>

definition scenario1_text :: string where
  "scenario1_text = ''1. DEFINITIONS\<newline>Terms defined here.\<newline>2. PAYMENT\<newline>The Client shall pay Rs. 5,00,000 on signing.''"

text \<open>A document of one heading whose body is one letter, 2000 spaces and one letter.\<close>

definition padded_doc :: string where
  "padded_doc = ''1. A\<newline>p'' @ replicate 2000 (CHR '' '') @ ''q''"

text \<open>A document of two clauses, and the two segments \<^verbatim>\<open>extract_clauses\<close> keeps of it.\<close>

definition two_clause_doc :: string where
  "two_clause_doc = ''1. TERM\<newline>This lasts for two years.\<newline>2. FEES\<newline>The Client shall pay Rs. 500.''"

definition two_clause_segments :: "(heading \<times> nat \<times> string) list" where
  "two_clause_segments =
     [(\<lparr>h_id = Some ''1'', h_title = ''TERM'', h_start = 0, h_end = 7\<rparr>, 33,
       ''This lasts for two years.''),
      (\<lparr>h_id = Some ''2'', h_title = ''FEES'', h_start = 33, h_end = 41\<rparr>, 71,
       ''The Client shall pay Rs. 500.'')]"

text \<open>The components as \<^verbatim>\<open>__init__\<close> leaves them.\<close>

definition fresh :: components where
  "fresh = \<lparr>extractor_clauses = [], assessor_findings = [], classifier_result = None\<rparr>"

section \<open>Evaluation of the character classes\<close>

text \<open>The character classes decided on the bits of a character, for the evaluation of the
  model on concrete texts.\<close>

lemma is_upper_code [code]:
  "is_upper (Char b0 b1 b2 b3 b4 b5 b6 b7) =
     (\<not> b7 \<and> b6 \<and> \<not> b5 \<and> (b0 \<or> b1 \<or> b2 \<or> b3 \<or> b4) \<and> \<not> (b4 \<and> b3 \<and> (b2 \<or> (b1 \<and> b0))))"
  by (cases b0; cases b1; cases b2; cases b3; cases b4; cases b5; cases b6; cases b7)
     (simp_all add: is_upper_def)

lemma is_lower_code [code]:
  "is_lower (Char b0 b1 b2 b3 b4 b5 b6 b7) =
     (\<not> b7 \<and> b6 \<and> b5 \<and> (b0 \<or> b1 \<or> b2 \<or> b3 \<or> b4) \<and> \<not> (b4 \<and> b3 \<and> (b2 \<or> (b1 \<and> b0))))"
  by (cases b0; cases b1; cases b2; cases b3; cases b4; cases b5; cases b6; cases b7)
     (simp_all add: is_lower_def)

lemma is_digit_code [code]:
  "is_digit (Char b0 b1 b2 b3 b4 b5 b6 b7) =
     (\<not> b7 \<and> \<not> b6 \<and> b5 \<and> b4 \<and> \<not> (b3 \<and> (b2 \<or> b1)))"
  by (cases b0; cases b1; cases b2; cases b3; cases b4; cases b5; cases b6; cases b7)
     (simp_all add: is_digit_def)

lemma is_space_code [code]:
  "is_space (Char b0 b1 b2 b3 b4 b5 b6 b7) =
     (if b7 then \<not> b6 \<and> \<not> b4 \<and> \<not> b3 \<and> \<not> b1 \<and> (if b5 then \<not> b2 \<and> \<not> b0 else b2 \<and> b0)
      else \<not> b6 \<and>
        (if b5 then \<not> b4 \<and> \<not> b3 \<and> \<not> b2 \<and> \<not> b1 \<and> \<not> b0
         else if b4 then b3 \<and> b2
         else b3 \<and> (if b2 then \<not> b1 else b1 \<or> b0)))"
  by (cases b0; cases b1; cases b2; cases b3; cases b4; cases b5; cases b6; cases b7)
     (simp_all add: is_space_def)

lemma is_latin1_alnum_code [code]:
  "is_latin1_alnum (Char b0 b1 b2 b3 b4 b5 b6 b7) =
     (b7 \<and>
      (if b6 then \<not> (b4 \<and> \<not> b3 \<and> b2 \<and> b1 \<and> b0)
       else b5 \<and>
         (if b4 then
            (if b3 then (if b2 then \<not> (b1 \<and> b0) else b1 \<noteq> b0)
             else (if b2 then \<not> b1 \<and> b0 else b1))
          else b3 \<and> \<not> b2 \<and> b1 \<and> \<not> b0)))"
  by (cases b0; cases b1; cases b2; cases b3; cases b4; cases b5; cases b6; cases b7)
     (simp_all add: is_latin1_alnum_def)

lemma is_latin1_upper_code [code]:
  "is_latin1_upper (Char b0 b1 b2 b3 b4 b5 b6 b7) =
     (b7 \<and> b6 \<and> \<not> b5 \<and> \<not> (b4 \<and> \<not> b3 \<and> b2 \<and> b1 \<and> b0) \<and> \<not> (b4 \<and> b3 \<and> b2 \<and> b1 \<and> b0))"
  by (cases b0; cases b1; cases b2; cases b3; cases b4; cases b5; cases b6; cases b7)
     (simp_all add: is_latin1_upper_def)

lemma is_latin1_lower_code [code]:
  "is_latin1_lower (Char b0 b1 b2 b3 b4 b5 b6 b7) =
     (b7 \<and> b6 \<and> b5 \<and> \<not> (b4 \<and> \<not> b3 \<and> b2 \<and> b1 \<and> b0) \<and> \<not> (b4 \<and> b3 \<and> b2 \<and> b1 \<and> b0))"
  by (cases b0; cases b1; cases b2; cases b3; cases b4; cases b5; cases b6; cases b7)
     (simp_all add: is_latin1_lower_def)

lemma to_lower_code [code]:
  "to_lower (Char b0 b1 b2 b3 b4 b5 b6 b7) =
     (if is_upper (Char b0 b1 b2 b3 b4 b5 b6 b7) \<or> is_latin1_upper (Char b0 b1 b2 b3 b4 b5 b6 b7)
      then Char b0 b1 b2 b3 b4 True b6 b7
      else Char b0 b1 b2 b3 b4 b5 b6 b7)"
  by (cases b0; cases b1; cases b2; cases b3; cases b4; cases b5; cases b6; cases b7)
     (simp_all add: to_lower_def is_upper_def is_latin1_upper_def,
      simp_all flip: of_char_eq_iff [where 'a = nat])

lemma to_upper_code [code]:
  "to_upper (Char b0 b1 b2 b3 b4 b5 b6 b7) =
     (if is_lower (Char b0 b1 b2 b3 b4 b5 b6 b7) \<or> is_latin1_lower (Char b0 b1 b2 b3 b4 b5 b6 b7)
      then Char b0 b1 b2 b3 b4 False b6 b7
      else Char b0 b1 b2 b3 b4 b5 b6 b7)"
  by (cases b0; cases b1; cases b2; cases b3; cases b4; cases b5; cases b6; cases b7)
     (simp_all add: to_upper_def is_lower_def is_latin1_lower_def,
      simp_all flip: of_char_eq_iff [where 'a = nat])
section \<open>The aggregation of findings\<close>

lemma count_level_filter: "count_level l fs = length (filter (\<lambda>f. risk_level f = l) fs)"
  unfolding count_level_def by (induction fs) auto

lemma sorted_desc_sorted: "sorted_wrt (\<lambda>a b. score b \<le> score a) (sorted_desc fs)"
proof -
  have "sorted (map (\<lambda>f. - score f) (sort_key (\<lambda>f. - score f) fs))"
    by (rule sorted_sort_key)
  then show ?thesis
    unfolding sorted_desc_def by (simp add: sorted_map)
qed

lemma sorted_desc_stable:
  "filter (\<lambda>f. score f = k) (sorted_desc fs) = filter (\<lambda>f. score f = k) fs"
proof -
  have "filter (\<lambda>f. - score f = - k) (sort_key (\<lambda>f. - score f) fs)
        = filter (\<lambda>f. - score f = - k) fs"
    by (rule sort_key_stable)
  then show ?thesis
    unfolding sorted_desc_def by simp
qed

lemma sorted_desc_mset: "mset (sorted_desc fs) = mset fs"
  unfolding sorted_desc_def by simp

lemma round_half_even_dist: "\<bar>of_int (round_half_even y) - y\<bar> \<le> 1 / 2"
proof -
  let ?f = "\<lfloor>y\<rfloor>"
  let ?d = "y - of_int ?f"
  have lo: "0 \<le> ?d" by linarith
  have hi: "?d < 1" by linarith
  consider "?d < 1 / 2" | "1 / 2 < ?d" | "?d = 1 / 2" by linarith
  then show ?thesis
  proof cases
    case 1
    then have "round_half_even y = ?f" by (simp add: round_half_even_def Let_def)
    with 1 lo show ?thesis by simp
  next
    case 2
    then have "round_half_even y = ?f + 1" by (simp add: round_half_even_def Let_def)
    with 2 hi show ?thesis by simp
  next
    case 3
    then have "round_half_even y = ?f \<or> round_half_even y = ?f + 1"
      by (simp add: round_half_even_def Let_def)
    with 3 show ?thesis by auto
  qed
qed

lemma nearest_tenth_half_even: "nearest_tenth half_even_tenth"
  unfolding nearest_tenth_def
proof (intro allI conjI)
  fix x :: rat
  show "\<exists>k::int. half_even_tenth x = of_int k / 10"
    by (auto simp: half_even_tenth_def py_round_def)
  have "\<bar>of_int (round_half_even (x * 10)) - x * 10\<bar> \<le> 1 / 2"
    by (rule round_half_even_dist)
  then show "\<bar>half_even_tenth x - x\<bar> \<le> 1 / 20"
    by (simp add: half_even_tenth_def py_round_def field_simps abs_le_iff)
qed

lemma overall_score_nonempty:
  "fs \<noteq> [] \<Longrightarrow> overall_score (calculate_overall_score rnd fs) = rnd (spec_boosted_mean fs)"
  unfolding calculate_overall_score_def spec_boosted_mean_def
  by (simp add: Let_def count_level_filter)

lemma overall_level_nonempty:
  "fs \<noteq> [] \<Longrightarrow> overall_level (calculate_overall_score rnd fs) = score_to_level (spec_boosted_mean fs)"
  unfolding calculate_overall_score_def spec_boosted_mean_def
  by (simp add: Let_def count_level_filter)

lemma report_empty:
  "overall_score (calculate_overall_score rnd []) = 2
   \<and> overall_level (calculate_overall_score rnd []) = LOW"
  unfolding calculate_overall_score_def by simp

lemma findings_report: "findings (calculate_overall_score rnd fs) = sorted_desc fs"
  unfolding calculate_overall_score_def by (simp add: Let_def sorted_desc_def)

lemma high_risk_count_report:
  "high_risk_count (calculate_overall_score rnd fs)
   = length (filter (\<lambda>f. risk_level f = CRITICAL) fs) + length (filter (\<lambda>f. risk_level f = HIGH) fs)"
  unfolding calculate_overall_score_def by (simp add: Let_def count_level_filter)

lemma assess_contract_report:
  "fst (assess_contract rnd st text clauses)
   = calculate_overall_score rnd (collect_findings text clauses)"
  unfolding assess_contract_def by (simp add: Let_def)

subsection \<open>The sample document\<close>

lemma sale_doc_text_risks: "analyze_text_risks sale_doc [] = []"
  by code_simp

lemma sale_doc_findings:
  "collect_findings sale_doc restraint_clauses =
     [\<lparr>clause_id = ''1'', risk_type = ''Broad Non Compete'', risk_level = HIGH,
       score = 7, description = ''Overly broad non-compete restrictions'',
       original_text = ''Restraint'',
       suggestion =
         ''Limit geographic scope and duration (6-12 months is typical in India)'',
       indian_law_reference =
         ''Section 27 of Indian Contract Act - Restraint of trade is void unless reasonable''\<rparr>,
    \<lparr>clause_id = ''1'', risk_type = ''Excessive Penalty'', risk_level = HIGH,
       score = 7, description = ''Potentially excessive penalty clauses'',
       original_text = ''Restraint'',
       suggestion = ''Negotiate reasonable and proportionate penalties'',
       indian_law_reference =
         ''Section 74 of Indian Contract Act - Only reasonable compensation is recoverable''\<rparr>,
    \<lparr>clause_id = ''2'', risk_type = ''Broad Non Compete'', risk_level = HIGH,
       score = 7, description = ''Overly broad non-compete restrictions'',
       original_text = ''Restraint'',
       suggestion =
         ''Limit geographic scope and duration (6-12 months is typical in India)'',
       indian_law_reference =
         ''Section 27 of Indian Contract Act - Restraint of trade is void unless reasonable''\<rparr>,
    \<lparr>clause_id = ''2'', risk_type = ''Excessive Penalty'', risk_level = HIGH,
       score = 7, description = ''Potentially excessive penalty clauses'',
       original_text = ''Restraint'',
       suggestion = ''Negotiate reasonable and proportionate penalties'',
       indian_law_reference =
         ''Section 74 of Indian Contract Act - Only reasonable compensation is recoverable''\<rparr>,
    \<lparr>clause_id = ''3'', risk_type = ''Broad Non Compete'', risk_level = HIGH,
       score = 7, description = ''Overly broad non-compete restrictions'',
       original_text = ''Renewal'',
       suggestion =
         ''Limit geographic scope and duration (6-12 months is typical in India)'',
       indian_law_reference =
         ''Section 27 of Indian Contract Act - Restraint of trade is void unless reasonable''\<rparr>,
    \<lparr>clause_id = ''3'', risk_type = ''Auto Renewal Hidden'',
       risk_level = HIGH, score = 6,
       description = ''Automatic renewal clause that may lock you in'',
       original_text = ''Renewal'',
       suggestion =
         ''Add clear opt-out mechanism with reasonable notice period'',
       indian_law_reference =
         ''Consumer Protection Act, 2019 requires clear disclosure''\<rparr>,
    \<lparr>clause_id = ''missing'', risk_type = ''Missing Liability Cap'',
       risk_level = MEDIUM, score = 5,
       description = ''Missing liability limitation clause'',
       original_text = ''[Not found in contract]'',
       suggestion = ''Add a clause capping total liability exposure'',
       indian_law_reference = []\<rparr>,
    \<lparr>clause_id = ''missing'', risk_type = ''Missing Dispute Resolution'',
       risk_level = MEDIUM, score = 4,
       description = ''Missing dispute resolution mechanism'',
       original_text = ''[Not found in contract]'',
       suggestion =
         ''Include arbitration clause as per Arbitration and Conciliation Act, 1996'',
       indian_law_reference = []\<rparr>,
    \<lparr>clause_id = ''missing'', risk_type = ''Missing Notice Period'',
       risk_level = MEDIUM, score = 4,
       description = ''Missing or unclear notice period requirements'',
       original_text = ''[Not found in contract]'',
       suggestion =
         ''Specify clear notice periods for termination and other actions'',
       indian_law_reference = []\<rparr>,
    \<lparr>clause_id = ''missing'', risk_type = ''Missing Force Majeure'',
       risk_level = LOW, score = 3,
       description = ''Missing force majeure clause'',
       original_text = ''[Not found in contract]'',
       suggestion =
         ''Add force majeure clause to protect against unforeseen events'',
       indian_law_reference = []\<rparr>,
    \<lparr>clause_id = ''missing'', risk_type = ''Missing Confidentiality'',
       risk_level = LOW, score = 3,
       description = ''Missing confidentiality provisions'',
       original_text = ''[Not found in contract]'',
       suggestion = ''Include mutual confidentiality obligations'',
       indian_law_reference = []\<rparr>]"
  unfolding collect_findings_def Let_def sale_doc_text_risks by code_simp

section \<open>The three passes of the risk assessor\<close>

lemma fold_invariant:
  assumes "P s" and "\<And>x s. x \<in> set xs \<Longrightarrow> P s \<Longrightarrow> P (f x s)"
  shows "P (fold f xs s)"
  using assms by (induction xs arbitrary: s) auto

lemma add_text_finding_distinct:
  "distinct (map finding_key fs) \<Longrightarrow> distinct (map finding_key (add_text_finding g fs))"
  by (auto simp: add_text_finding_def list_ex_iff finding_key_def)

lemma add_text_finding_general:
  "\<forall>f \<in> set fs. clause_id f = ''general'' \<Longrightarrow> clause_id g = ''general''
   \<Longrightarrow> \<forall>f \<in> set (add_text_finding g fs). clause_id f = ''general''"
  by (auto simp: add_text_finding_def)

lemma text_finding_general: "clause_id (text_finding text rtype rinfo m) = ''general''"
  by (simp add: text_finding_def Let_def)

lemma add_text_finding_inv:
  "text_inv fs \<Longrightarrow> text_inv (add_text_finding (text_finding text rtype rinfo m) fs)"
  unfolding text_inv_def
  using add_text_finding_distinct add_text_finding_general text_finding_general by blast

lemma analyze_text_risks_inv: "text_inv fs \<Longrightarrow> text_inv (analyze_text_risks text fs)"
  unfolding analyze_text_risks_def Let_def
  apply (rule fold_invariant, assumption)
  apply (clarsimp)
  apply (rule fold_invariant, assumption)
  apply (rule fold_invariant, assumption)
  apply (rule add_text_finding_inv, assumption)
  done

lemma text_inv_Nil: "text_inv []"
  by (simp add: text_inv_def)

lemma add_clause_finding_distinct:
  "distinct (map finding_key fs) \<Longrightarrow> distinct (map finding_key (add_clause_finding g fs))"
  by (auto simp: add_clause_finding_def list_ex_iff finding_key_def)

lemma analyze_clause_risks_distinct:
  "distinct (map finding_key fs) \<Longrightarrow> distinct (map finding_key (analyze_clause_risks c fs))"
  unfolding analyze_clause_risks_def Let_def
  by (rule fold_invariant, assumption) (auto split: option.splits intro: add_clause_finding_distinct)

lemma scanned_findings_distinct: "distinct (map finding_key (scanned_findings text clauses))"
  unfolding scanned_findings_def
proof (rule fold_invariant)
  show "distinct (map finding_key (analyze_text_risks text []))"
    using analyze_text_risks_inv [OF text_inv_Nil] by (simp add: text_inv_def)
qed (rule analyze_clause_risks_distinct)

lemma clause_finding_id: "clause_id (clause_finding cid body i sc) = cid"
  by (simp add: clause_finding_def Let_def)

lemma clause_finding_type: "risk_type (clause_finding cid body i sc) = risk_label i"
  by (simp add: clause_finding_def Let_def)

lemma add_clause_finding_not_missing:
  "\<forall>f \<in> set fs. clause_id f \<noteq> ''missing'' \<Longrightarrow> clause_id g \<noteq> ''missing''
   \<Longrightarrow> \<forall>f \<in> set (add_clause_finding g fs). clause_id f \<noteq> ''missing''"
  by (auto simp: add_clause_finding_def)

lemma analyze_clause_risks_not_missing:
  assumes "clause_id_of c \<noteq> ''missing''" and "\<forall>f \<in> set fs. clause_id f \<noteq> ''missing''"
  shows "\<forall>f \<in> set (analyze_clause_risks c fs). clause_id f \<noteq> ''missing''"
  unfolding analyze_clause_risks_def Let_def
proof (rule fold_invariant)
  show "\<forall>f \<in> set fs. clause_id f \<noteq> ''missing''" by (rule assms(2))
next
  fix x and s :: "RiskFinding list"
  assume s: "\<forall>f \<in> set s. clause_id f \<noteq> ''missing''"
  show "\<forall>f \<in> set (case map_of RISK_WEIGHTS x of None \<Rightarrow> s
          | Some sc \<Rightarrow> add_clause_finding (clause_finding (clause_id_of c) (content_of c) x sc) s).
          clause_id f \<noteq> ''missing''"
  proof (cases "map_of RISK_WEIGHTS x")
    case None
    with s show ?thesis by simp
  next
    case (Some sc)
    have "clause_id (clause_finding (clause_id_of c) (content_of c) x sc) \<noteq> ''missing''"
      using assms(1) by (simp add: clause_finding_id)
    from add_clause_finding_not_missing [OF s this] Some show ?thesis by simp
  qed
qed

lemma scanned_findings_not_missing:
  assumes "\<forall>c \<in> set clauses. clause_id_of c \<noteq> ''missing''"
  shows "\<forall>f \<in> set (scanned_findings text clauses). clause_id f \<noteq> ''missing''"
  unfolding scanned_findings_def
proof (rule fold_invariant)
  show "\<forall>f \<in> set (analyze_text_risks text []). clause_id f \<noteq> ''missing''"
    using analyze_text_risks_inv [OF text_inv_Nil, of "text"] by (auto simp: text_inv_def)
next
  fix x and s :: "RiskFinding list"
  assume "x \<in> set clauses" and "\<forall>f \<in> set s. clause_id f \<noteq> ''missing''"
  with assms show "\<forall>f \<in> set (analyze_clause_risks x s). clause_id f \<noteq> ''missing''"
    using analyze_clause_risks_not_missing by blast
qed

lemma fold_append_if:
  "fold (\<lambda>x s. if c x then s @ [g x] else s) xs s = s @ map g (filter c xs)"
  by (induction xs arbitrary: s) auto

lemma check_missing_protections_append:
  "check_missing_protections text fs = fs @ missing_findings text"
proof -
  have "(\<lambda>(check_type, check_info) fs.
           let found = list_ex (\<lambda>keyword. contains (lower text) keyword) (mc_check check_info)
           in if \<not> found then fs @ [missing_finding check_type check_info] else fs)
        = (\<lambda>x s. if (case x of (check_type, check_info) \<Rightarrow>
                        \<not> list_ex (\<lambda>keyword. contains (lower text) keyword) (mc_check check_info))
                  then s @ [(case x of (check_type, check_info) \<Rightarrow> missing_finding check_type check_info)]
                  else s)"
    by (auto simp: fun_eq_iff Let_def)
  then show ?thesis
    unfolding check_missing_protections_def missing_findings_def Let_def
    by (simp add: fold_append_if)
qed

lemma collect_findings_append:
  "collect_findings text clauses = scanned_findings text clauses @ missing_findings text"
  by (simp add: collect_findings_def Let_def scanned_findings_def check_missing_protections_append)

lemma missing_checks_keys_distinct:
  "distinct (map (\<lambda>(check_type, check_info). finding_key (missing_finding check_type check_info))
                 missing_checks)"
  by code_simp

lemma missing_findings_distinct: "distinct (map finding_key (missing_findings text))"
proof -
  have "map finding_key (missing_findings text)
        = map (\<lambda>(check_type, check_info). finding_key (missing_finding check_type check_info))
              (filter (\<lambda>(check_type, check_info).
                    \<not> list_ex (\<lambda>keyword. contains (lower text) keyword) (mc_check check_info))
                 missing_checks)"
    by (simp add: missing_findings_def case_prod_unfold comp_def)
  then show ?thesis
    using missing_checks_keys_distinct by (simp add: distinct_map_filter)
qed

lemma missing_findings_id: "\<forall>f \<in> set (missing_findings text). clause_id f = ''missing''"
  by (auto simp: missing_findings_def missing_finding_def)

lemma sorted_desc_keys_distinct:
  "distinct (map finding_key (sorted_desc fs)) = distinct (map finding_key fs)"
proof -
  have "mset (map finding_key (sorted_desc fs)) = mset (map finding_key fs)"
    by (simp add: sorted_desc_mset)
  then show ?thesis by (rule mset_eq_imp_distinct_iff)
qed


lemma extends_by_refl: "extends_by G fs fs"
  by (simp add: extends_by_def)

lemma extends_by_trans:
  assumes "extends_by G fs fs'" and "extends_by G fs' fs''"
  shows "extends_by G fs fs''"
proof -
  from assms(1) obtain n1 where n1: "fs' = fs @ n1" "distinct (map finding_pair n1)"
    "finding_pair ` set n1 \<inter> finding_pair ` set fs = {}" "set n1 \<subseteq> G"
    unfolding extends_by_def by blast
  from assms(2) obtain n2 where n2: "fs'' = fs' @ n2" "distinct (map finding_pair n2)"
    "finding_pair ` set n2 \<inter> finding_pair ` set fs' = {}" "set n2 \<subseteq> G"
    unfolding extends_by_def by blast
  have "fs'' = fs @ (n1 @ n2)" using n1(1) n2(1) by simp
  moreover have "distinct (map finding_pair (n1 @ n2))"
    using n1(2) n2(2) n2(3) n1(1) by auto
  moreover have "finding_pair ` set (n1 @ n2) \<inter> finding_pair ` set fs = {}"
    using n1(3) n2(3) n1(1) by auto
  moreover have "set (n1 @ n2) \<subseteq> G" using n1(4) n2(4) by simp
  ultimately show ?thesis unfolding extends_by_def by blast
qed

lemma extends_by_mono: "extends_by G fs fs' \<Longrightarrow> G \<subseteq> H \<Longrightarrow> extends_by H fs fs'"
  unfolding extends_by_def by blast

lemma fold_extends_by:
  assumes "\<And>x s. x \<in> set xs \<Longrightarrow> extends_by G s (h x s)"
  shows "extends_by G s (fold h xs s)"
  using assms
proof (induction xs arbitrary: s)
  case Nil
  show ?case by (simp add: extends_by_refl)
next
  case (Cons x xs)
  have "extends_by G s (h x s)" using Cons.prems by simp
  moreover have "extends_by G (h x s) (fold h xs (h x s))"
    using Cons.IH Cons.prems by simp
  ultimately show ?case using extends_by_trans by fastforce
qed

lemma add_clause_finding_extends: "g \<in> G \<Longrightarrow> extends_by G fs (add_clause_finding g fs)"
  unfolding extends_by_def add_clause_finding_def
  by (auto simp: list_ex_iff finding_pair_def)

lemma analyze_clause_risks_extends:
  "extends_by (clause_findings_of c) fs (analyze_clause_risks c fs)"
  unfolding analyze_clause_risks_def Let_def
proof (rule fold_extends_by)
  fix x and s :: "RiskFinding list"
  assume x: "x \<in> set (indicators_of c)"
  show "extends_by (clause_findings_of c) s
          (case map_of RISK_WEIGHTS x of None \<Rightarrow> s
           | Some sc \<Rightarrow> add_clause_finding (clause_finding (clause_id_of c) (content_of c) x sc) s)"
  proof (cases "map_of RISK_WEIGHTS x")
    case None
    then show ?thesis by (simp add: extends_by_refl)
  next
    case (Some sc)
    with x have "clause_finding (clause_id_of c) (content_of c) x sc \<in> clause_findings_of c"
      unfolding clause_findings_of_def by blast
    from add_clause_finding_extends [OF this] Some show ?thesis by simp
  qed
qed

lemma scanned_findings_extends:
  "extends_by (\<Union>c \<in> set clauses. clause_findings_of c)
     (analyze_text_risks text []) (scanned_findings text clauses)"
  unfolding scanned_findings_def
proof (rule fold_extends_by)
  fix x and s :: "RiskFinding list"
  assume "x \<in> set clauses"
  then have "clause_findings_of x \<subseteq> (\<Union>c \<in> set clauses. clause_findings_of c)" by blast
  with analyze_clause_risks_extends show "extends_by (\<Union>c \<in> set clauses. clause_findings_of c) s (analyze_clause_risks x s)"
    using extends_by_mono by blast
qed

text \<open>A finding for every listed indicator.\<close>

lemma add_clause_finding_has:
  "\<exists>f \<in> set (add_clause_finding g fs). finding_pair f = finding_pair g"
  by (auto simp: add_clause_finding_def list_ex_iff finding_pair_def)

lemma add_clause_finding_subset: "set fs \<subseteq> set (add_clause_finding g fs)"
  by (auto simp: add_clause_finding_def)

lemma fold_establishes:
  assumes mono: "\<And>x s. set s \<subseteq> set (h x s)"
    and est: "\<And>x s. x \<in> set xs \<Longrightarrow> Q x \<Longrightarrow> \<exists>f \<in> set (h x s). R x f"
    and x: "x \<in> set xs" "Q x"
  shows "\<exists>f \<in> set (fold h xs s). R x f"
  using est x
proof (induction xs arbitrary: s)
  case Nil
  then show ?case by simp
next
  case (Cons y ys)
  have keep: "set t \<subseteq> set (fold h ys t)" for t
    by (rule fold_invariant [where P = "\<lambda>u. set t \<subseteq> set u"]) (use mono in auto)
  show ?case
  proof (cases "x \<in> set ys")
    case True
    then show ?thesis using Cons.IH [of "h y s"] Cons.prems by simp
  next
    case False
    with Cons.prems have "x = y" by simp
    with Cons.prems obtain f where "f \<in> set (h y s)" "R x f" by fastforce
    with keep [of "h y s"] show ?thesis by auto
  qed
qed

lemma analyze_clause_risks_subset: "set fs \<subseteq> set (analyze_clause_risks c fs)"
  unfolding analyze_clause_risks_def Let_def
  by (rule fold_invariant [where P = "\<lambda>u. set fs \<subseteq> set u"])
     (use add_clause_finding_subset in \<open>auto split: option.splits\<close>)

lemma analyze_clause_risks_has:
  assumes "i \<in> set (indicators_of c)" and "i \<in> fst ` set RISK_WEIGHTS"
  shows "\<exists>f \<in> set (analyze_clause_risks c fs).
           clause_id f = clause_id_of c \<and> risk_type f = risk_label i"
  unfolding analyze_clause_risks_def Let_def
proof (rule fold_establishes [where Q = "\<lambda>i. i \<in> fst ` set RISK_WEIGHTS"
      and R = "\<lambda>i f. clause_id f = clause_id_of c \<and> risk_type f = risk_label i"])
  fix x and s :: "RiskFinding list"
  show "set s \<subseteq> set (case map_of RISK_WEIGHTS x of None \<Rightarrow> s
          | Some sc \<Rightarrow> add_clause_finding (clause_finding (clause_id_of c) (content_of c) x sc) s)"
    using add_clause_finding_subset by (auto split: option.splits)
next
  fix x and s :: "RiskFinding list"
  assume "x \<in> fst ` set RISK_WEIGHTS"
  then obtain sc where sc: "map_of RISK_WEIGHTS x = Some sc"
    by (metis domIff dom_map_of_conv_image_fst not_Some_eq)
  from add_clause_finding_has [of "clause_finding (clause_id_of c) (content_of c) x sc" s]
  show "\<exists>f \<in> set (case map_of RISK_WEIGHTS x of None \<Rightarrow> s
          | Some sc \<Rightarrow> add_clause_finding (clause_finding (clause_id_of c) (content_of c) x sc) s).
          clause_id f = clause_id_of c \<and> risk_type f = risk_label x"
    using sc by (auto simp: finding_pair_def clause_finding_id clause_finding_type)
qed (use assms in auto)

lemma scanned_findings_has:
  assumes "c \<in> set clauses" and "i \<in> set (indicators_of c)" and "i \<in> fst ` set RISK_WEIGHTS"
  shows "\<exists>f \<in> set (scanned_findings text clauses).
           clause_id f = clause_id_of c \<and> risk_type f = risk_label i"
  unfolding scanned_findings_def
proof (rule fold_establishes [where Q = "\<lambda>c. i \<in> set (indicators_of c)"
      and R = "\<lambda>c f. clause_id f = clause_id_of c \<and> risk_type f = risk_label i"])
  fix x and s :: "RiskFinding list"
  show "set s \<subseteq> set (analyze_clause_risks x s)" by (rule analyze_clause_risks_subset)
next
  fix x and s :: "RiskFinding list"
  assume "i \<in> set (indicators_of x)"
  from analyze_clause_risks_has [OF this assms(3)]
  show "\<exists>f \<in> set (analyze_clause_risks x s). clause_id f = clause_id_of x \<and> risk_type f = risk_label i" .
qed (use assms in auto)

lemma report_findings_set:
  "set (findings (fst (assess_contract rnd st text clauses)))
   = set (scanned_findings text clauses) \<union> set (missing_findings text)"
  by (simp add: assess_contract_report findings_report sorted_desc_def collect_findings_append)


subsection \<open>The quick score of a clause\<close>

lemma first_match_iff: "first_match ps s = (\<exists>p \<in> set ps. re_search p True s)"
  by (induction ps) auto

lemma matched_risk_types_filter:
  "matched_risk_types tbl s acc
   = acc @ map fst (filter (\<lambda>(rtype, rinfo). \<exists>p \<in> set (patterns rinfo). re_search p True s) tbl)"
  by (induction tbl s acc rule: matched_risk_types.induct) (auto simp: first_match_iff)

lemma max_weight_fold: "max_weight best fs = fold max (map weight_or_5 fs) best"
  by (induction fs arbitrary: best) (auto simp: max_def)

lemma max_weight_Max: "max_weight (weight_or_5 f) fs = Max (weight_or_5 ` set (f # fs))"
proof -
  have "Max (set (map weight_or_5 (f # fs))) = fold max (map weight_or_5 fs) (weight_or_5 f)"
    using Max.set_eq_fold [of "weight_or_5 f" "map weight_or_5 fs"] by simp
  then show ?thesis by (simp add: max_weight_fold)
qed

lemma renewal_text_matched:
  "spec_matched_types renewal_text = [''excessive_penalty'', ''auto_renewal_hidden'']"
  by code_simp

lemma sale_doc_matched: "spec_matched_types sale_doc = []"
  by code_simp

section \<open>The classifier\<close>

lemma max_by_mem: "max_by key b xs \<in> set (b # xs)"
  by (induction xs arbitrary: b) auto

lemma max_by_start: "key b \<le> key (max_by key b xs)"
proof (induction xs arbitrary: b)
  case Nil
  show ?case by simp
next
  case (Cons y ys)
  have "key b \<le> key (if key b < key y then y else b)" by simp
  also have "\<dots> \<le> key (max_by key (if key b < key y then y else b) ys)" by (rule Cons.IH)
  finally show ?case by simp
qed

lemma max_by_ge: "x \<in> set (b # xs) \<Longrightarrow> key x \<le> key (max_by key b xs)"
proof (induction xs arbitrary: b)
  case Nil
  then show ?case by simp
next
  case (Cons y ys)
  let ?b' = "if key b < key y then y else b"
  have "x = b \<or> x = y \<or> x \<in> set ys" using Cons.prems by auto
  then have "x \<in> set (?b' # ys) \<or> key x \<le> key ?b'" by auto
  then show ?case
  proof
    assume "x \<in> set (?b' # ys)"
    from Cons.IH [OF this] show ?thesis by simp
  next
    assume "key x \<le> key ?b'"
    also have "key ?b' \<le> key (max_by key ?b' ys)" by (rule max_by_start)
    finally show ?thesis by simp
  qed
qed

lemma type_scores_mem:
  "(t, sc, kws) \<in> set (type_scores s) \<longleftrightarrow>
     (\<exists>tinfo. (t, tinfo) \<in> set CONTRACT_PATTERNS \<and> sc = fst (score_type s tinfo) \<and> 0 < sc
              \<and> kws = take 10 (snd (score_type s tinfo)))"
  unfolding type_scores_def
  by (force simp: Let_def case_prod_beta split: if_splits)

lemma contract_types_distinct: "distinct (map fst CONTRACT_PATTERNS)"
  by code_simp

lemma contract_patterns_bounds:
  "list_all (\<lambda>(t, tinfo). t \<noteq> ''Unknown'' \<and> 0 < max_possible_score tinfo
                           \<and> max_possible_score tinfo \<le> 135)
            CONTRACT_PATTERNS"
  by code_simp

lemma contract_patterns_entry:
  assumes "(t, tinfo) \<in> set CONTRACT_PATTERNS"
  shows "map_of CONTRACT_PATTERNS t = Some tinfo" and "t \<noteq> ''Unknown''"
    and "0 < max_possible_score tinfo" and "max_possible_score tinfo \<le> 135"
proof -
  show "map_of CONTRACT_PATTERNS t = Some tinfo"
    using assms contract_types_distinct by (rule_tac map_of_is_SomeI) auto
  from contract_patterns_bounds assms
  have "t \<noteq> ''Unknown'' \<and> 0 < max_possible_score tinfo \<and> max_possible_score tinfo \<le> 135"
    unfolding list_all_iff by blast
  then show "t \<noteq> ''Unknown''" and "0 < max_possible_score tinfo"
    and "max_possible_score tinfo \<le> 135" by simp_all
qed

lemma classify_unknown:
  "type_scores (lower text) = [] \<Longrightarrow>
   classify st text = Inr \<lparr>contract_type = ''Unknown'', confidence = 0, sub_type = '''',
                            key_indicators = []\<rparr>"
  by (simp add: classify_def Let_def)

lemma classify_best:
  assumes "type_scores (lower text) = s # rest"
  shows "\<exists>t sc kws tinfo.
           max_by (\<lambda>(t, sc, kws). sc) s rest = (t, sc, kws)
           \<and> (t, tinfo) \<in> set CONTRACT_PATTERNS
           \<and> sc = fst (score_type (lower text) tinfo) \<and> 0 < sc
           \<and> (\<forall>(t', tinfo') \<in> set CONTRACT_PATTERNS. fst (score_type (lower text) tinfo') \<le> sc)
           \<and> classify st text
               = Inr \<lparr>contract_type = t,
                      confidence = py_round (min 1 (of_nat sc / (of_nat (max_possible_score tinfo) * (3 / 10)))) 2,
                      sub_type = determine_sub_type (lower text) t,
                      key_indicators = kws\<rparr>"
proof -
  obtain t sc kws where best: "max_by (\<lambda>(t, sc, kws). sc) s rest = (t, sc, kws)"
    by (metis prod_cases3)
  have "(t, sc, kws) \<in> set (type_scores (lower text))"
    using max_by_mem [of "\<lambda>(t, sc, kws). sc" s rest] best assms by simp
  then obtain tinfo where ti: "(t, tinfo) \<in> set CONTRACT_PATTERNS"
    "sc = fst (score_type (lower text) tinfo)" "0 < sc"
    unfolding type_scores_mem by blast
  note e = contract_patterns_entry [OF ti(1)]
  have nz: "of_nat (max_possible_score tinfo) * (3 / 10 :: rat) \<noteq> 0"
    using e(3) by simp
  have maxi: "\<forall>(t', tinfo') \<in> set CONTRACT_PATTERNS. fst (score_type (lower text) tinfo') \<le> sc"
  proof (clarify)
    fix t' tinfo'
    assume m: "(t', tinfo') \<in> set CONTRACT_PATTERNS"
    show "fst (score_type (lower text) tinfo') \<le> sc"
    proof (cases "0 < fst (score_type (lower text) tinfo')")
      case True
      with m have "(t', fst (score_type (lower text) tinfo'), take 10 (snd (score_type (lower text) tinfo')))
                   \<in> set (s # rest)"
        using type_scores_mem [of t' _ _ "lower text"] assms by auto
      from max_by_ge [OF this, of "\<lambda>(t, sc, kws). sc"] best show ?thesis by simp
    next
      case False
      then show ?thesis by simp
    qed
  qed
  have "classify st text
        = Inr \<lparr>contract_type = t,
               confidence = py_round (min 1 (of_nat sc / (of_nat (max_possible_score tinfo) * (3 / 10)))) 2,
               sub_type = determine_sub_type (lower text) t,
               key_indicators = kws\<rparr>"
    using assms best e(1) nz
    by (simp add: classify_def Let_def max_possible_score_def [symmetric])
  with best ti maxi show ?thesis by blast
qed


lemma round_half_even_le: "x \<le> of_int n \<Longrightarrow> round_half_even x \<le> n"
proof -
  assume x: "x \<le> of_int n"
  show ?thesis
  proof (cases "x = of_int n")
    case True
    then show ?thesis by (simp add: round_half_even_def)
  next
    case False
    with x have "x < of_int n" by simp
    then have "\<lfloor>x\<rfloor> < n" by (simp add: floor_less_iff)
    then show ?thesis by (auto simp: round_half_even_def Let_def)
  qed
qed

lemma round_half_even_ge: "of_int n \<le> x \<Longrightarrow> n \<le> round_half_even x"
proof -
  assume "of_int n \<le> x"
  then have "n \<le> \<lfloor>x\<rfloor>" by (simp add: le_floor_iff)
  then show ?thesis by (auto simp: round_half_even_def Let_def)
qed

lemma py_round_2_le_1: "x \<le> 1 \<Longrightarrow> py_round x 2 \<le> 1"
proof -
  assume "x \<le> 1"
  then have "x * 10 ^ 2 \<le> of_int 100" by simp
  then have "round_half_even (x * 10 ^ 2) \<le> 100" by (rule round_half_even_le)
  then have "(of_int (round_half_even (x * 10 ^ 2)) :: rat) \<le> 100" by linarith
  then show ?thesis by (simp add: py_round_def)
qed

lemma py_round_2_ge: "2 / 100 \<le> x \<Longrightarrow> 2 / 100 \<le> py_round x 2"
proof -
  assume "2 / 100 \<le> x"
  then have "of_int 2 \<le> x * 10 ^ 2" by simp
  then have "2 \<le> round_half_even (x * 10 ^ 2)" by (rule round_half_even_ge)
  then have "(2 :: rat) \<le> of_int (round_half_even (x * 10 ^ 2))" by linarith
  then show ?thesis by (simp add: py_round_def)
qed

lemma confidence_lower_bound:
  assumes "0 < sc" and "0 < mp" and "mp \<le> 135"
  shows "2 / 100 \<le> min 1 (of_nat sc / (of_nat mp * (3 / 10 :: rat)))"
proof -
  have sc: "(1 :: rat) \<le> of_nat sc" using assms(1) by simp
  have mp: "(0 :: rat) < of_nat mp" "(of_nat mp :: rat) \<le> 135" using assms(2,3) by simp_all
  have pos: "(0 :: rat) < of_nat mp * (3 / 10)" using mp(1) by simp
  have "2 / 100 * (of_nat mp * (3 / 10 :: rat)) \<le> of_nat sc" using sc mp(2) by simp
  then have "2 / 100 \<le> of_nat sc / (of_nat mp * (3 / 10 :: rat))"
    using pos by (simp add: pos_le_divide_eq)
  then show ?thesis by simp
qed

lemma employee_classification:
  "classify None employee_text
   = Inr \<lparr>contract_type = ''Employment Agreement'', confidence = 1 / 20,
          sub_type = ''Full-time'', key_indicators = [''employee'', ''salary'']\<rparr>"
  by code_simp

lemma employee_unrounded:
  "unrounded_confidence employee_text ''Employment Agreement'' = 4 / 81"
  by code_simp

subsection \<open>The rounding of the confidence meets no tie\<close>

text \<open>The confidence of a winning type, times 100, never lies halfway between two integers:
  a tie would make the greatest possible score of the type a multiple of 16, and none is.
  So rounding half to even on the exact value is the only rounding to two decimal places
  that \<^verbatim>\<open>round(confidence, 2)\<close> can be.\<close>

lemma tie_needs_16:
  fixes sc mp :: nat
  assumes "0 < mp" and "frac (of_nat sc / (of_nat mp * (3 / 10)) * 10 ^ 2 :: rat) = 1 / 2"
  shows "16 dvd mp"
proof -
  let ?y = "of_nat sc / (of_nat mp * (3 / 10)) * 10 ^ 2 :: rat"
  obtain f :: int where f: "?y = of_int f + 1 / 2"
    using assms(2) unfolding frac_def by (metis add.commute diff_eq_eq)
  have mp: "(of_nat mp :: rat) \<noteq> 0" using assms(1) by simp
  from f have "(2000 :: rat) * of_nat sc = 3 * of_nat mp * (2 * of_int f + 1)"
    using mp by (simp add: field_simps)
  then have "(of_int (2000 * int sc) :: rat) = of_int (3 * int mp * (2 * f + 1))"
    by simp
  then have eq: "2000 * int sc = 3 * int mp * (2 * f + 1)"
    by (simp only: of_int_eq_iff)
  have "(16 :: int) dvd 2000 * int sc" by simp
  with eq have "(16 :: int) dvd int mp * (3 * (2 * f + 1))" by (simp add: mult.assoc mult.left_commute)
  moreover have "coprime (16 :: int) (3 * (2 * f + 1))"
  proof -
    have "coprime ((2 :: int) ^ 4) (3 * (2 * f + 1))"
      by (simp only: coprime_power_left_iff coprime_left_2_iff_odd) simp
    then show ?thesis by simp
  qed
  ultimately have "(16 :: int) dvd int mp"
    by (simp add: coprime_dvd_mult_left_iff)
  then show ?thesis by presburger
qed

lemma contract_patterns_not_16:
  "list_all (\<lambda>(t, tinfo). 0 < max_possible_score tinfo \<and> \<not> 16 dvd max_possible_score tinfo)
     CONTRACT_PATTERNS"
  by code_simp

lemma confidence_no_tie:
  assumes "(t, tinfo) \<in> set CONTRACT_PATTERNS"
  shows "frac (min 1 (of_nat sc / (of_nat (max_possible_score tinfo) * (3 / 10))) * 10 ^ 2 :: rat)
         \<noteq> 1 / 2"
proof
  let ?c = "of_nat sc / (of_nat (max_possible_score tinfo) * (3 / 10)) :: rat"
  assume tie: "frac (min 1 ?c * 10 ^ 2) = 1 / 2"
  from contract_patterns_not_16 assms
  have mp: "0 < max_possible_score tinfo" "\<not> 16 dvd max_possible_score tinfo"
    unfolding list_all_iff by auto
  show False
  proof (cases "1 \<le> ?c")
    case True
    then have "min 1 ?c = 1" by simp
    with tie have "frac (of_int 100 :: rat) = 1 / 2" by simp
    then show False by (simp only: frac_of_int)
  next
    case False
    then have "min 1 ?c = ?c" by simp
    with tie have "frac (?c * 10 ^ 2) = 1 / 2" by simp
    from tie_needs_16 [OF mp(1) this] mp(2) show False by simp
  qed
qed

section \<open>Matches, headings and segments\<close>

text \<open>Facts about the matcher that hold for every pattern and every text: a match moves
  forward in the text and captures the groups that lie on every path through the pattern.
  From them: every heading match of \<^verbatim>\<open>extract_clauses\<close> has its second group, so the
  segmenter raises no error, and the segments it keeps are ordered and disjoint.\<close>

lemma advances_refl: "advances {} st st"
  by (simp add: advances_def)

lemma advances_trans:
  assumes "advances G st st'" and "advances H st' st''"
  shows "advances (G \<union> H) st st''"
proof -
  from assms(1) obtain n1 where n1: "length (m_rest st') \<le> length (m_rest st)"
    "m_caps st' = n1 @ m_caps st" "G \<subseteq> fst ` set n1"
    unfolding advances_def by blast
  from assms(2) obtain n2 where n2: "length (m_rest st'') \<le> length (m_rest st')"
    "m_caps st'' = n2 @ m_caps st'" "H \<subseteq> fst ` set n2"
    unfolding advances_def by blast
  have "m_caps st'' = (n2 @ n1) @ m_caps st" using n1(2) n2(2) by simp
  moreover have "G \<union> H \<subseteq> fst ` set (n2 @ n1)" using n1(3) n2(3) by auto
  moreover have "length (m_rest st'') \<le> length (m_rest st)" using n1(1) n2(1) by simp
  ultimately show ?thesis unfolding advances_def by blast
qed

lemma advances_weaken: "advances G st st' \<Longrightarrow> H \<subseteq> G \<Longrightarrow> advances H st st'"
  unfolding advances_def by blast

lemma step_advances:
  "step p st k = Some e \<Longrightarrow> \<exists>st'. k st' = Some e \<and> advances {} st st'"
  unfolding step_def advances_def
  by (cases "m_rest st") (auto split: if_splits)

lemma rep_advances:
  assumes body: "\<And>st k e. f st k = Some e \<Longrightarrow> \<exists>st'. k st' = Some e \<and> advances G st st'"
  shows "rep n f greedy mn mx st k = Some e
         \<Longrightarrow> \<exists>st'. k st' = Some e \<and> advances (if mn > 0 then G else {}) st st'"
proof (induction n arbitrary: st mn mx k e)
  case 0
  then show ?case by (auto split: if_splits intro: advances_refl)
next
  case (Suc n)
  let ?more = "if mx = Some 0 then None
               else f st (\<lambda>st'. if length (m_rest st') < length (m_rest st)
                                 then rep n f greedy (mn - 1) (map_option (\<lambda>x. x - 1) mx) st' k
                                 else None)"
  let ?stop = "if mn = 0 then k st else None"
  from Suc.prems have "?more = Some e \<or> ?stop = Some e"
    by (auto split: if_splits option.splits)
  then show ?case
  proof
    assume "?more = Some e"
    then have "f st (\<lambda>st'. if length (m_rest st') < length (m_rest st)
                                 then rep n f greedy (mn - 1) (map_option (\<lambda>x. x - 1) mx) st' k
                                 else None) = Some e"
      by (auto split: if_splits)
    from body [OF this] obtain st1 where
      st1: "rep n f greedy (mn - 1) (map_option (\<lambda>x. x - 1) mx) st1 k = Some e"
      "advances G st st1"
      by (auto split: if_splits)
    from Suc.IH [OF st1(1)] obtain st' where
      st': "k st' = Some e" "advances (if mn - 1 > 0 then G else {}) st1 st'" by blast
    from advances_trans [OF st1(2) st'(2)]
    have "advances (if mn > 0 then G else {}) st st'"
      by (rule advances_weaken) (auto split: if_splits)
    with st'(1) show ?thesis by blast
  next
    assume "?stop = Some e"
    then have "mn = 0" "k st = Some e" by (auto split: if_splits)
    then show ?thesis using advances_refl by auto
  qed
qed

lemma rmatch_advances:
  "rmatch r ic st k = Some e
   \<Longrightarrow> \<exists>st'. k st' = Some e \<and> advances (set (sure_groups r)) st st'"
proof (induction r arbitrary: st k e)
  case (Seq a b)
  from Seq.prems have "rmatch a ic st (\<lambda>st'. rmatch b ic st' k) = Some e" by simp
  from Seq.IH(1) [OF this] obtain st1 where
    st1: "rmatch b ic st1 k = Some e" "advances (set (sure_groups a)) st st1" by blast
  from Seq.IH(2) [OF st1(1)] obtain st' where
    st': "k st' = Some e" "advances (set (sure_groups b)) st1 st'" by blast
  have "set (sure_groups (Seq a b)) = set (sure_groups a) \<union> set (sure_groups b)" by simp
  with advances_trans [OF st1(2) st'(2)] st'(1) show ?case by auto
next
  case (Alt a b)
  from Alt.prems have "rmatch a ic st k = Some e \<or> rmatch b ic st k = Some e"
    by (auto split: option.splits)
  then show ?case
  proof
    assume "rmatch a ic st k = Some e"
    from Alt.IH(1) [OF this] obtain st' where
      st': "k st' = Some e" "advances (set (sure_groups a)) st st'" by blast
    have "set (sure_groups (Alt a b)) \<subseteq> set (sure_groups a)" by auto
    from advances_weaken [OF st'(2) this] st'(1) show ?thesis by blast
  next
    assume "rmatch b ic st k = Some e"
    from Alt.IH(2) [OF this] obtain st' where
      st': "k st' = Some e" "advances (set (sure_groups b)) st st'" by blast
    have "set (sure_groups (Alt a b)) \<subseteq> set (sure_groups b)" by auto
    from advances_weaken [OF st'(2) this] st'(1) show ?thesis by blast
  qed
next
  case (Rep mn mx greedy r)
  from Rep.prems have "rep (length (m_rest st)) (rmatch r ic) greedy mn mx st k = Some e" by simp
  from rep_advances [where f = "rmatch r ic" and G = "set (sure_groups r)", OF Rep.IH this]
  obtain st' where st': "k st' = Some e"
    "advances (if mn > 0 then set (sure_groups r) else {}) st st'" by blast
  have "set (sure_groups (Rep mn mx greedy r)) = (if mn > 0 then set (sure_groups r) else {})"
    by simp
  with st' show ?case by auto
next
  case (Grp n r)
  let ?k = "\<lambda>st'. k (MState (m_prev st') (m_rest st')
                  ((n, take (length (m_rest st) - length (m_rest st')) (m_rest st)) # m_caps st'))"
  from Grp.prems have "rmatch r ic st ?k = Some e" by simp
  from Grp.IH [OF this] obtain st1 where
    st1: "?k st1 = Some e" "advances (set (sure_groups r)) st st1" by blast
  let ?st' = "MState (m_prev st1) (m_rest st1)
                  ((n, take (length (m_rest st) - length (m_rest st1)) (m_rest st)) # m_caps st1)"
  from st1(2) obtain new where new: "length (m_rest st1) \<le> length (m_rest st)"
    "m_caps st1 = new @ m_caps st" "set (sure_groups r) \<subseteq> fst ` set new"
    unfolding advances_def by blast
  have "m_caps ?st' = ((n, take (length (m_rest st) - length (m_rest st1)) (m_rest st)) # new) @ m_caps st"
    using new(2) by simp
  moreover have "set (sure_groups (Grp n r))
                 \<subseteq> fst ` set ((n, take (length (m_rest st) - length (m_rest st1)) (m_rest st)) # new)"
    using new(3) by auto
  moreover have "length (m_rest ?st') \<le> length (m_rest st)" using new(1) by simp
  ultimately have "advances (set (sure_groups (Grp n r))) st ?st'"
    unfolding advances_def by blast
  with st1(1) show ?case by blast
next
  case (Look r)
  then have "k st = Some e" by (auto split: option.splits)
  then show ?case using advances_refl by auto
next
  case (Lit a)
  then have "step (lit_match ic a) st k = Some e" by simp
  from step_advances [OF this] show ?case by simp
next
  case AnyC
  then have "step (\<lambda>c. c \<noteq> CHR 0x0A) st k = Some e" by simp
  from step_advances [OF this] show ?case by simp
next
  case AnyNL
  then have "step (\<lambda>c. True) st k = Some e" by simp
  from step_advances [OF this] show ?case by simp
next
  case (InSet items)
  then have "step (set_match ic items) st k = Some e" by simp
  from step_advances [OF this] show ?case by simp
next
  case (NotInSet items)
  then have "step (\<lambda>c. \<not> set_match ic items c) st k = Some e" by simp
  from step_advances [OF this] show ?case by simp
next
  case Never
  then show ?case by simp
next
  case Eps
  then have "k st = Some e" by simp
  then show ?case using advances_refl by auto
next
  case BolM
  then have "k st = Some e" by (simp split: if_splits)
  then show ?case using advances_refl by auto
next
  case Eol
  then have "k st = Some e" by (simp split: if_splits)
  then show ?case using advances_refl by auto
next
  case EndZ
  then have "k st = Some e" by (simp split: if_splits)
  then show ?case using advances_refl by auto
next
  case WordB
  then have "k st = Some e" by (simp split: if_splits)
  then show ?case using advances_refl by auto
qed

lemma rmatch_Some_advances:
  assumes "rmatch r ic st Some = Some e"
  shows "advances (set (sure_groups r)) st e"
  using rmatch_advances [OF assms] by auto

lemma scan_result:
  "scan r ic p s = Some (s', e) \<Longrightarrow>
     length s' \<le> length s \<and> length (m_rest e) \<le> length s'
     \<and> set (sure_groups r) \<subseteq> fst ` set (m_caps e)"
proof (induction s arbitrary: p)
  case Nil
  then have m: "rmatch r ic (MState p [] []) Some = Some e" and s': "s' = []"
    by (auto split: option.splits)
  from rmatch_Some_advances [OF m] s' show ?case
    by (auto simp: advances_def)
next
  case (Cons c cs)
  show ?case
  proof (cases "rmatch r ic (MState p (c # cs) []) Some")
    case None
    with Cons.prems have "scan r ic (Some c) cs = Some (s', e)" by simp
    from Cons.IH [OF this] show ?thesis by simp
  next
    case (Some a)
    with Cons.prems have a: "a = e" and s': "s' = c # cs" by auto
    from rmatch_Some_advances [OF Some] a s' show ?thesis
      by (auto simp: advances_def)
  qed
qed

lemma mk_match_good:
  assumes "scan r ic p s = Some (s', e)"
  shows "good_match r n (mk_match n s' e)"
  using scan_result [OF assms]
  by (auto simp: good_match_def mk_match_def)

lemma finditer_from_good: "\<forall>m \<in> set (finditer_from r ic n p s). good_match r n m"
proof (induction r ic n p s rule: finditer_from.induct)
  case (1 r ic n p s)
  show ?case
  proof (cases "scan r ic p s")
    case None
    then show ?thesis by (simp add: finditer_from.simps [of r ic n p s])
  next
    case (Some a)
    obtain s' e where a: "a = (s', e)" by (cases a)
    note sc = Some [unfolded a]
    have head: "good_match r n (mk_match n s' e)" by (rule mk_match_good [OF sc])
    show ?thesis
    proof (cases "length (m_rest e) < length s'")
      case True
      from "1.IH"(1) [OF sc refl True]
      have "\<forall>m \<in> set (finditer_from r ic n (m_prev e) (m_rest e)). good_match r n m" .
      with head sc True show ?thesis
        by (simp add: finditer_from.simps [of r ic n p s])
    next
      case False
      show ?thesis
      proof (cases s')
        case Nil
        with head sc False show ?thesis
          by (simp add: finditer_from.simps [of r ic n p s])
      next
        case (Cons c cs)
        from "1.IH"(2) [OF sc refl False Cons]
        have "\<forall>m \<in> set (finditer_from r ic n (Some c) cs). good_match r n m" .
        with head sc False Cons show ?thesis
          by (simp add: finditer_from.simps [of r ic n p s])
      qed
    qed
  qed
qed

lemma finditer_good: "m \<in> set (finditer r ic s) \<Longrightarrow> good_match r (length s) m"
  unfolding finditer_def using finditer_from_good by blast

lemma good_match_group:
  "good_match r n m \<Longrightarrow> g \<in> set (sure_groups r) \<Longrightarrow> \<exists>t. group m g = Some t"
  unfolding good_match_def group_def
  by (metis map_of_eq_None_iff not_Some_eq subsetD)

lemma clause_patterns_groups: "list_all (\<lambda>p. 2 \<in> set (sure_groups p)) clause_patterns"
  by code_simp

lemma headings_of_total:
  assumes "\<forall>m \<in> set ms. m_start m \<le> m_end m \<and> m_end m \<le> n \<and> (\<exists>t. group m 2 = Some t)"
  shows "\<exists>hs. headings_of ms = Inr hs \<and> (\<forall>h \<in> set hs. good_heading n h)"
  using assms
proof (induction ms)
  case Nil
  then show ?case by simp
next
  case (Cons m ms)
  from Cons.prems obtain t where t: "group m 2 = Some t" by auto
  from Cons.prems have m: "m_start m \<le> m_end m" "m_end m \<le> n" by auto
  from Cons.IH Cons.prems obtain hs where
    hs: "headings_of ms = Inr hs" "\<forall>h \<in> set hs. good_heading n h" by auto
  show ?case
    using t m hs by (simp add: heading_of_def good_heading_def)
qed

lemma all_matches_total:
  "\<exists>hs. all_matches text = Inr hs \<and> (\<forall>h \<in> set hs. good_heading (length text) h)"
  unfolding all_matches_def
proof (rule headings_of_total, rule ballI)
  fix m
  assume "m \<in> set (concat (map (\<lambda>pattern. finditer pattern True text) clause_patterns))"
  then obtain p where p: "p \<in> set clause_patterns" "m \<in> set (finditer p True text)" by auto
  from finditer_good [OF p(2)] have g: "good_match p (length text) m" .
  from clause_patterns_groups p(1) have "2 \<in> set (sure_groups p)"
    unfolding list_all_iff by blast
  from good_match_group [OF g this] g
  show "m_start m \<le> m_end m \<and> m_end m \<le> length text \<and> (\<exists>t. group m 2 = Some t)"
    by (simp add: good_match_def)
qed

lemma length_strip_le: "length (strip s) \<le> length s"
proof -
  have "length (strip s) \<le> length (dropWhile is_space s)"
    unfolding strip_def
    by (metis length_dropWhile_le length_rev)
  also have "\<dots> \<le> length s" by (rule length_dropWhile_le)
  finally show ?thesis .
qed

lemma length_slice_le: "length (slice a b s) \<le> b - a"
  by (simp add: slice_def)

lemma kept_segments_heading:
  "seg \<in> set (kept_segments doc hs) \<Longrightarrow> fst seg \<in> set hs"
  by (induction hs) (auto simp: Let_def split: if_splits)

lemma kept_segments_good:
  assumes "\<forall>h \<in> set hs. good_heading (length doc) h"
  shows "\<forall>seg \<in> set (kept_segments doc hs). good_segment doc seg"
  using assms
proof (induction hs)
  case Nil
  then show ?case by simp
next
  case (Cons m ms)
  let ?stop = "(case ms of [] \<Rightarrow> length doc | n # rest \<Rightarrow> h_start n)"
  let ?body = "strip (slice (h_end m) ?stop doc)"
  have rest: "\<forall>seg \<in> set (kept_segments doc ms). good_segment doc seg"
    using Cons by simp
  have stop: "?stop \<le> length doc"
    using Cons.prems by (auto simp: good_heading_def split: list.splits)
  show ?case
  proof (cases "length ?body < 20")
    case True
    with rest show ?thesis by (simp add: Let_def)
  next
    case False
    have "length ?body \<le> ?stop - h_end m"
      using length_strip_le [of "slice (h_end m) ?stop doc"]
        length_slice_le [of "h_end m" ?stop doc] by linarith
    with False have "h_end m < ?stop" by linarith
    moreover have "h_start m \<le> h_end m" using Cons.prems by (simp add: good_heading_def)
    ultimately have "good_segment doc (m, ?stop, ?body)"
      using False stop by (simp add: good_segment_def)
    with rest False show ?thesis by (simp add: Let_def)
  qed
qed

lemma kept_segments_before:
  assumes "sorted (map h_start hs)" and "\<forall>h \<in> set hs. good_heading (length doc) h"
  shows "sorted_wrt before (kept_segments doc hs)"
  using assms
proof (induction hs)
  case Nil
  then show ?case by simp
next
  case (Cons m ms)
  let ?stop = "(case ms of [] \<Rightarrow> length doc | n # rest \<Rightarrow> h_start n)"
  let ?body = "strip (slice (h_end m) ?stop doc)"
  have rest: "sorted_wrt before (kept_segments doc ms)"
    using Cons by simp
  show ?case
  proof (cases "length ?body < 20")
    case True
    with rest show ?thesis by (simp add: Let_def)
  next
    case False
    have "length ?body \<le> ?stop - h_end m"
      using length_strip_le [of "slice (h_end m) ?stop doc"]
        length_slice_le [of "h_end m" ?stop doc] by linarith
    with False have lt: "h_end m < ?stop" by linarith
    have le: "h_start m \<le> h_end m" using Cons.prems by (simp add: good_heading_def)
    have "before (m, ?stop, ?body) seg" if seg: "seg \<in> set (kept_segments doc ms)" for seg
    proof -
      from kept_segments_heading [OF seg] have mem: "fst seg \<in> set ms" .
      then obtain n rest' where ms: "ms = n # rest'" by (cases ms) auto
      from Cons.prems(1) ms mem have "h_start n \<le> h_start (fst seg)" by auto
      moreover have "?stop = h_start n" using ms by simp
      ultimately show ?thesis using lt le
        by (cases seg) (simp add: before_def)
    qed
    with rest False show ?thesis by (simp add: Let_def)
  qed
qed

lemma segments_basic:
  "\<exists>segs. clause_segments text = Inr segs
         \<and> extract_clauses ord self_clauses text = Inr (map (build_clause ord) segs)
         \<and> sorted_wrt before segs
         \<and> list_all (good_segment text) segs
         \<and> list_all (\<lambda>seg. content (build_clause ord seg) = take 2000 (snd (snd seg))
                             \<and> 20 \<le> length (content (build_clause ord seg))) segs"
proof -
  from all_matches_total [of "text"] obtain hs where
    hs: "all_matches text = Inr hs" "\<forall>h \<in> set hs. good_heading (length text) h" by blast
  let ?segs = "kept_segments text (sort_key h_start hs)"
  have sorted: "sorted (map h_start (sort_key h_start hs))" by (rule sorted_sort_key)
  have good: "\<forall>h \<in> set (sort_key h_start hs). good_heading (length text) h"
    using hs(2) by simp
  have g: "\<forall>seg \<in> set ?segs. good_segment text seg"
    by (rule kept_segments_good [OF good])
  have b: "sorted_wrt before ?segs"
    by (rule kept_segments_before [OF sorted good])
  have c: "\<forall>seg \<in> set ?segs. content (build_clause ord seg) = take 2000 (snd (snd seg))
                             \<and> 20 \<le> length (content (build_clause ord seg))"
    using g by (auto simp: good_segment_def build_clause_def)
  have "clause_segments text = Inr ?segs" by (simp add: clause_segments_def hs(1))
  moreover from this have "extract_clauses ord self_clauses text = Inr (map (build_clause ord) ?segs)"
    by (simp add: extract_clauses_def)
  ultimately show ?thesis using g b c unfolding list_all_iff by blast
qed

lemma scenario1_clauses:
  "extract_clauses ord self_clauses scenario1_text
   = Inr [\<lparr>ec_clause_id = ''2'', title = ''PAYMENT'',
           content = ''The Client shall pay Rs. 5,00,000 on signing.'',
           category = ''payment'', risk_indicators = ord [],
           key_terms = [''shall''], amounts = [''Rs. 5,00,000''], dates = []\<rparr>]"
  by code_simp

lemma ip_doc_clauses:
  "extract_clauses ord self_clauses ip_doc
   = Inr [\<lparr>ec_clause_id = ''1'', title = ''IP'',
           content = ''Assign all ip rights; unlimited liability.'',
           category = ''liability'',
           risk_indicators = ord [''unlimited_liability'', ''ip_assignment''],
           key_terms = [], amounts = [], dates = []\<rparr>]"
  by code_simp

lemma ip_contract_clauses:
  "extract_clauses ord self_clauses ip_contract
   = Inr [\<lparr>ec_clause_id = ''1'',
           title = ''INTELLECTUAL PROPERTY AND LIABILITY OF THE CONSULTANT UNDER THIS AGREEMENT'',
           content = ''Assign all ip rights; unlimited liability.'',
           category = ''intellectual_property'',
           risk_indicators = ord [''unlimited_liability'', ''ip_assignment''],
           key_terms = [], amounts = [], dates = []\<rparr>]"
  by code_simp

lemma ip_contract_length: "length (strip ip_contract) = 120"
  by code_simp

lemma classify_total: "\<exists>r. classify st text = Inr r"
proof (cases "type_scores (lower text)")
  case Nil
  then show ?thesis by (simp add: classify_unknown)
next
  case (Cons s rest)
  from classify_best [OF Cons, of st] show ?thesis by blast
qed

lemma classify_stateless: "classify st text = classify st' text"
  by (simp add: classify_def)

lemma extract_clauses_stateless:
  "extract_clauses ord self_clauses text = extract_clauses ord self_clauses' text"
  by (simp add: extract_clauses_def)

lemma assess_contract_stateless:
  "assess_contract rnd self_findings text clauses = assess_contract rnd self_findings' text clauses"
  by (simp add: assess_contract_def)

lemma extract_clauses_total: "\<exists>cs. extract_clauses ord self_clauses text = Inr cs"
  using segments_basic [of "text" ord self_clauses] by blast

lemma re_search_match_group:
  assumes "re_search_match r ic s = Some m" and "g \<in> set (sure_groups r)"
  shows "\<exists>t. group m g = Some t"
proof -
  from assms(1) obtain s' e where sc: "scan r ic None s = Some (s', e)"
    and m: "m = mk_match (length s) s' e"
    unfolding re_search_match_def by (auto split: option.splits)
  from mk_match_good [OF sc] m have "good_match r (length s) m" by simp
  from good_match_group [OF this assms(2)] show ?thesis .
qed

lemma jurisdiction_pattern_group: "1 \<in> set (sure_groups jurisdiction_pattern)"
  by code_simp

lemma extract_data_dimensions_total: "\<exists>d. extract_data_dimensions ord text = Inr d"
proof (cases "re_search_match jurisdiction_pattern True text")
  case None
  then show ?thesis by (simp add: extract_data_dimensions_def Let_def)
next
  case (Some m)
  from re_search_match_group [OF Some jurisdiction_pattern_group]
  obtain t where "group m 1 = Some t" by blast
  with Some show ?thesis by (simp add: extract_data_dimensions_def Let_def)
qed

lemma run_pipeline_stateless: "run_pipeline ord rnd comps text = run_pipeline ord rnd comps' text"
  unfolding run_pipeline_def classify_def extract_clauses_def assess_contract_def
  by (rule refl)

lemma run_pipeline_total: "\<exists>out comps'. run_pipeline ord rnd comps text = Inr (out, comps')"
proof -
  obtain r where r: "classify (classifier_result comps) text = Inr r"
    using classify_total by blast
  obtain cs where cs: "extract_clauses ord (extractor_clauses comps) text = Inr cs"
    using extract_clauses_total by blast
  obtain d where d: "extract_data_dimensions ord text = Inr d"
    using extract_data_dimensions_total by blast
  show ?thesis
    by (simp add: run_pipeline_def r cs d Let_def case_prod_beta)
qed

lemma run_pipeline_clauses:
  assumes "run_pipeline ord rnd comps text = Inr (out, comps')"
  shows "extract_clauses ord (extractor_clauses comps) text = Inr (out_clauses out)"
  using assms unfolding run_pipeline_def
  by (auto simp: Let_def case_prod_beta split: sum.splits)

lemma valid_set_order_remdups: "valid_set_order remdups"
  by (simp add: valid_set_order_def)

lemma valid_set_order_rev_remdups: "valid_set_order (rev \<circ> remdups)"
  by (simp add: valid_set_order_def)

lemma dropWhile_last:
  assumes "dropWhile P xs \<noteq> []"
  shows "last (dropWhile P xs) = last xs"
  using assms by (induction xs) (auto split: if_splits)

lemma strip_strip: "strip (strip s) = strip s"
proof -
  let ?u = "dropWhile is_space s"
  let ?v = "dropWhile is_space (rev ?u)"
  have v: "dropWhile is_space ?v = ?v" by simp
  have "dropWhile is_space (rev ?v) = rev ?v"
  proof (cases "?v = []")
    case True
    then show ?thesis by (simp only: rev.simps(1) dropWhile.simps(1))
  next
    case False
    then have u: "?u \<noteq> []" by (metis dropWhile.simps(1) rev.simps(1))
    have "hd (rev ?v) = last ?v" using False by (simp add: hd_rev)
    also have "\<dots> = last (rev ?u)" using False by (rule dropWhile_last)
    also have "\<dots> = hd ?u" using u by (simp add: last_rev)
    finally have "hd (rev ?v) = hd ?u" .
    moreover have "\<not> is_space (hd ?u)" using u by (rule hd_dropWhile)
    ultimately show ?thesis using False by (simp add: dropWhile_eq_self_iff)
  qed
  then show ?thesis by (simp add: strip_def v)
qed

lemma scenario1_headings:
  "all_matches scenario1_text
   = Inr [\<lparr>h_id = Some ''1'', h_title = ''DEFINITIONS'', h_start = 0, h_end = 14\<rparr>,
          \<lparr>h_id = Some ''2'', h_title = ''PAYMENT'', h_start = 34, h_end = 45\<rparr>]"
  by code_simp

lemma scenario1_first_body:
  "strip (slice 14 34 scenario1_text) = ''Terms defined here.''"
  by code_simp

subsection \<open>A body longer than 2000 characters\<close>

text \<open>The four heading patterns begin with \<^verbatim>\<open>(?:^|\n)\<close>: where the character before a
  position and the character at it are not line feeds, no heading begins.  With that the
  headings of a text with a long run of spaces are found without visiting the run.\<close>

lemma to_lower_not_newline: "c \<noteq> CHR 0x0A \<Longrightarrow> to_lower c \<noteq> CHR 0x0A"
proof (cases c)
  case (Char b0 b1 b2 b3 b4 b5 b6 b7)
  assume "c \<noteq> CHR 0x0A"
  with Char show ?thesis
    by (cases b0; cases b1; cases b2; cases b3; cases b4; cases b5; cases b6; cases b7)
       (simp_all add: to_lower_code is_upper_code is_latin1_upper_code)
qed

lemma to_lower_newline: "to_lower (CHR 0x0A) = CHR 0x0A"
  by (simp add: to_lower_code is_upper_code is_latin1_upper_code)

lemma heading_needs_line_start:
  assumes "a \<noteq> CHR 0x0A" and "s = [] \<or> hd s \<noteq> CHR 0x0A"
  shows "rmatch (Seq (Alt BolM (Lit (CHR 0x0A))) r) True (MState (Some a) s caps) k = None"
proof (cases s)
  case Nil
  with assms(1) show ?thesis by (simp add: step_def)
next
  case (Cons c cs)
  with assms(2) have "c \<noteq> CHR 0x0A" by simp
  then have "to_lower c \<noteq> CHR 0x0A" by (rule to_lower_not_newline)
  with assms(1) Cons show ?thesis
    by (simp add: step_def lit_match_def to_lower_newline)
qed

lemma scan_no_line_start:
  "a \<noteq> CHR 0x0A \<Longrightarrow> CHR 0x0A \<notin> set s
   \<Longrightarrow> scan (Seq (Alt BolM (Lit (CHR 0x0A))) r) True (Some a) s = None"
proof (induction s arbitrary: a)
  case Nil
  have "rmatch (Seq (Alt BolM (Lit (CHR 0x0A))) r) True (MState (Some a) [] []) Some = None"
    using Nil.prems(1) by (intro heading_needs_line_start) simp_all
  then show ?case by simp
next
  case (Cons c cs)
  from Cons.prems have c: "c \<noteq> CHR 0x0A" "CHR 0x0A \<notin> set cs" by auto
  have "rmatch (Seq (Alt BolM (Lit (CHR 0x0A))) r) True (MState (Some a) (c # cs) []) Some = None"
    using Cons.prems(1) c(1) by (intro heading_needs_line_start) simp_all
  moreover have "scan (Seq (Alt BolM (Lit (CHR 0x0A))) r) True (Some c) cs = None"
    using c by (rule Cons.IH)
  ultimately show ?case by simp
qed

lemmas char_class_simps = is_upper_code is_lower_code is_digit_code is_space_code
  to_lower_code to_upper_code is_latin1_upper_code is_latin1_lower_code

lemma p1_first:
  "rmatch (clause_patterns ! 0) True (MState None (''1. A\<newline>p'' @ t) []) Some
   = Some (MState (Some CHR ''A'') (''\<newline>p'' @ t) [(2, ''A''), (1, ''1'')])"
  by (simp add: clause_patterns_def step_def set_match_def lit_match_def char_class_simps)

lemma padded_matches:
  assumes "CHR 0x0A \<notin> set t"
  shows "all_matches (''1. A\<newline>p'' @ t)
         = Inr [\<lparr>h_id = Some ''1'', h_title = ''A'', h_start = 0, h_end = 4\<rparr>]"
  using assms
  by (simp add: all_matches_def finditer_def finditer_from.simps clause_patterns_def
      step_def set_match_def lit_match_def lit_def char_class_simps mk_match_def
      scan_no_line_start heading_of_def group_def strip_def)

lemma strip_padded:
  assumes "is_space a" and "\<not> is_space b" and "\<not> is_space c"
  shows "strip (a # b # u @ [c]) = b # u @ [c]"
  using assms by (simp add: strip_def)

lemma strip_trailing_spaces:
  assumes "\<not> is_space b" and "is_space a"
  shows "strip (b # replicate n a) = [b]"
proof -
  have "dropWhile is_space (replicate n a @ [b]) = [b]"
    using assms by (induction n) simp_all
  with assms(1) show ?thesis by (simp add: strip_def)
qed

lemma padded_segments:
  "clause_segments padded_doc
   = Inr [(\<lparr>h_id = Some ''1'', h_title = ''A'', h_start = 0, h_end = 4\<rparr>, 2007,
           ''p'' @ replicate 2000 (CHR '' '') @ ''q'')]"
proof -
  let ?t = "replicate 2000 (CHR '' '') @ ''q''"
  have nl: "CHR 0x0A \<notin> set ?t" by simp
  have m: "all_matches padded_doc
         = Inr [\<lparr>h_id = Some ''1'', h_title = ''A'', h_start = 0, h_end = 4\<rparr>]"
    unfolding padded_doc_def by (rule padded_matches [OF nl])
  have len: "length padded_doc = 2007" by (simp add: padded_doc_def)
  have sl: "slice 4 2007 padded_doc = CHR 0x0A # CHR ''p'' # replicate 2000 (CHR '' '') @ ''q''"
    by (simp add: slice_def padded_doc_def)
  have st: "strip (CHR 0x0A # CHR ''p'' # replicate 2000 (CHR '' '') @ ''q'')
            = CHR ''p'' # replicate 2000 (CHR '' '') @ ''q''"
    by (rule strip_padded) (simp_all add: is_space_code)
  show ?thesis
    by (simp add: clause_segments_def m len sl st)
qed

lemma two_clause_doc_segments: "clause_segments two_clause_doc = Inr two_clause_segments"
  by code_simp

section \<open>The claims\<close>

subsection \<open>C1: the overall score, the order of the findings, the high-risk count\<close>

text \<open>
  C1 states that, for every document whose assessment produces at least one finding, the
  report's \<open>overall_score\<close> equals the mean of the finding scores with the two boosts.  The
  code rounds that value to one decimal place (\<^verbatim>\<open>round(avg_score, 1)\<close>) before it stores
  it, so the claim fails wherever the boosted mean is not a multiple of 0.1: for the sample
  document the boosted mean is 131/22, which lies strictly between 5.95 and 6, and the report
  says 6.
\<close>

theorem overall_score_not_boosted_mean:
  "spec_boosted_mean (collect_findings sale_doc restraint_clauses) = 131 / 22
   \<and> overall_score (fst (assess_contract half_even_tenth [] sale_doc restraint_clauses)) = 6
   \<and> overall_score (fst (assess_contract half_even_tenth [] sale_doc restraint_clauses))
       \<noteq> spec_boosted_mean (collect_findings sale_doc restraint_clauses)"
  unfolding assess_contract_report sale_doc_findings by code_simp

text \<open>
  C1 as amended: for every document whose assessment produces at least one finding (and
  whatever findings the assessor held before), \<open>overall_score\<close> is the boosted mean rounded
  to one decimal place: a multiple of 0.1 at a distance of at most 0.05 from the boosted mean
  (which of the two neighbours it is when the boosted mean lies halfway between them is left
  open); the report lists all findings (the same multiset), in descending order of score, and
  findings of equal score keep the order of their discovery; \<open>high_risk_count\<close> is the
  number of CRITICAL findings plus the number of HIGH findings.
\<close>

theorem overall_score_rounded_boosted_mean:
  assumes "collect_findings text clauses \<noteq> []" and "nearest_tenth rnd"
  shows "(let fs = collect_findings text clauses;
              report = fst (assess_contract rnd st text clauses)
          in (\<exists>k::int. overall_score report = of_int k / 10)
             \<and> \<bar>overall_score report - spec_boosted_mean fs\<bar> \<le> 1 / 20
             \<and> sorted_wrt (\<lambda>a b. score b \<le> score a) (findings report)
             \<and> mset (findings report) = mset fs
             \<and> (\<forall>k. filter (\<lambda>f. score f = k) (findings report) = filter (\<lambda>f. score f = k) fs)
             \<and> high_risk_count report
                 = length (filter (\<lambda>f. risk_level f = CRITICAL) fs)
                   + length (filter (\<lambda>f. risk_level f = HIGH) fs))"
proof -
  let ?fs = "collect_findings text clauses"
  from assms(2) have r: "\<exists>k::int. rnd (spec_boosted_mean ?fs) = of_int k / 10"
    "\<bar>rnd (spec_boosted_mean ?fs) - spec_boosted_mean ?fs\<bar> \<le> 1 / 20"
    unfolding nearest_tenth_def by blast+
  from assms(1) r show ?thesis
    by (simp add: Let_def assess_contract_report overall_score_nonempty findings_report
        sorted_desc_sorted sorted_desc_mset sorted_desc_stable high_risk_count_report)
qed

theorem overall_score_rounded_boosted_mean_witness:
  "collect_findings sale_doc restraint_clauses \<noteq> []
   \<and> nearest_tenth half_even_tenth
   \<and> (let fs = collect_findings sale_doc restraint_clauses;
           report = fst (assess_contract half_even_tenth [] sale_doc restraint_clauses)
       in (\<exists>k::int. overall_score report = of_int k / 10)
          \<and> \<bar>overall_score report - spec_boosted_mean fs\<bar> \<le> 1 / 20
          \<and> sorted_wrt (\<lambda>a b. score b \<le> score a) (findings report)
          \<and> mset (findings report) = mset fs
          \<and> (\<forall>k. filter (\<lambda>f. score f = k) (findings report) = filter (\<lambda>f. score f = k) fs)
          \<and> high_risk_count report
              = length (filter (\<lambda>f. risk_level f = CRITICAL) fs)
                + length (filter (\<lambda>f. risk_level f = HIGH) fs))"
proof -
  have nonempty: "collect_findings sale_doc restraint_clauses \<noteq> []"
    unfolding sale_doc_findings by simp
  from nonempty nearest_tenth_half_even
    overall_score_rounded_boosted_mean [OF nonempty nearest_tenth_half_even, of "[]"]
  show ?thesis by (intro conjI)
qed

subsection \<open>C2: the first scenario\<close>

text \<open>
  C2 states that for the four-line text of the first scenario the segmenter yields exactly
  two clauses, with ids \<^verbatim>\<open>1\<close> and \<^verbatim>\<open>2\<close>.  Both headings are found, but the body of the
  first, \<^verbatim>\<open>Terms defined here.\<close>, has 19 characters and \<^verbatim>\<open>extract_clauses\<close> skips a
  body of fewer than 20: the list of ids is not \<^verbatim>\<open>["1", "2"]\<close>.
\<close>

theorem scenario1_ids_not_1_2:
  "map_sum id (map ec_clause_id) (extract_clauses remdups [] scenario1_text)
   \<noteq> Inr [''1'', ''2'']"
  by (simp add: scenario1_clauses)

text \<open>
  C2 as amended: for that text the segmenter finds the two headings \<^verbatim>\<open>1. DEFINITIONS\<close>
  and \<^verbatim>\<open>2. PAYMENT\<close>; the trimmed body of the first has 19 characters; and the segmenter
  yields exactly one clause, with id \<^verbatim>\<open>2\<close>, whose category is \<^verbatim>\<open>payment\<close> and whose
  amounts field is \<^verbatim>\<open>["Rs. 5,00,000"]\<close> (for every iteration order of Python's sets, and
  whatever clauses the extractor held before).
\<close>

theorem scenario1_single_clause:
  assumes "valid_set_order ord"
  shows "all_matches scenario1_text
         = Inr [\<lparr>h_id = Some ''1'', h_title = ''DEFINITIONS'', h_start = 0, h_end = 14\<rparr>,
                \<lparr>h_id = Some ''2'', h_title = ''PAYMENT'', h_start = 34, h_end = 45\<rparr>]
         \<and> length (strip (slice 14 34 scenario1_text)) = 19
         \<and> extract_clauses ord self_clauses scenario1_text
           = Inr [\<lparr>ec_clause_id = ''2'', title = ''PAYMENT'',
                   content = ''The Client shall pay Rs. 5,00,000 on signing.'',
                   category = ''payment'', risk_indicators = [],
                   key_terms = [''shall''], amounts = [''Rs. 5,00,000''], dates = []\<rparr>]"
proof -
  from assms have "set (ord []) = {}" by (simp add: valid_set_order_def)
  then have "ord [] = []" by simp
  then show ?thesis
    by (simp add: scenario1_headings scenario1_first_body scenario1_clauses)
qed

theorem scenario1_single_clause_witness:
  "valid_set_order remdups
   \<and> all_matches scenario1_text
       = Inr [\<lparr>h_id = Some ''1'', h_title = ''DEFINITIONS'', h_start = 0, h_end = 14\<rparr>,
              \<lparr>h_id = Some ''2'', h_title = ''PAYMENT'', h_start = 34, h_end = 45\<rparr>]
   \<and> length (strip (slice 14 34 scenario1_text)) = 19
   \<and> extract_clauses remdups [] scenario1_text
       = Inr [\<lparr>ec_clause_id = ''2'', title = ''PAYMENT'',
               content = ''The Client shall pay Rs. 5,00,000 on signing.'',
               category = ''payment'', risk_indicators = [],
               key_terms = [''shall''], amounts = [''Rs. 5,00,000''], dates = []\<rparr>]"
  using scenario1_single_clause [OF valid_set_order_remdups, of "[]"] valid_set_order_remdups
  by (intro conjI) simp_all

subsection \<open>C3: the per-clause pass\<close>

text \<open>
  C3 states that the per-clause pass emits one finding for every indicator in a clause's
  \<open>risk_indicators\<close>, in particular for every indicator the clause extractor can place
  there, \<^verbatim>\<open>ip_assignment\<close> and \<^verbatim>\<open>auto_renewal\<close> included.  The pass skips an indicator
  that is not a key of \<^verbatim>\<open>RISK_WEIGHTS\<close>, and the extractor's tags \<^verbatim>\<open>ip_assignment\<close> and
  \<^verbatim>\<open>auto_renewal\<close> are not keys of that table, whose keys for the two risks are
  \<^verbatim>\<open>ip_full_transfer\<close> and \<^verbatim>\<open>auto_renewal_hidden\<close>.  For the one-clause document
  \<open>ip_doc\<close> the extractor reports the indicators \<^verbatim>\<open>unlimited_liability\<close> and
  \<^verbatim>\<open>ip_assignment\<close>; the report for the document with that clause holds a finding of the
  clause for the first and none for the second.
\<close>

theorem no_finding_for_ip_assignment:
  "find_risk_indicators remdups ''Assign all ip rights; unlimited liability.''
     = [''unlimited_liability'', ''ip_assignment'']
   \<and> map_of RISK_WEIGHTS ''ip_assignment'' = None
   \<and> map_of RISK_WEIGHTS ''auto_renewal'' = None
   \<and> map risk_type (filter (\<lambda>f. clause_id f = ''1'')
         (findings (fst (assess_contract half_even_tenth [] ip_doc [ip_clause]))))
       = [''Unlimited Liability'']
   \<and> filter (\<lambda>f. risk_type f = risk_label ''ip_assignment'')
         (findings (fst (assess_contract half_even_tenth [] ip_doc [ip_clause]))) = []"
  by code_simp

subsection \<open>C4: the confidence of the classifier\<close>

text \<open>
  C4 states that, whenever some contract type has a nonzero score, the confidence the
  classifier returns equals \<^verbatim>\<open>min(1.0, best_score / (max_possible * 0.3))\<close>.  The code
  returns that value rounded to two decimal places (\<^verbatim>\<open>round(confidence, 2)\<close>): for a
  sentence with the keywords \<^verbatim>\<open>employee\<close> and \<^verbatim>\<open>salary\<close> the value is 2 / 40.5 = 4/81 and
  the confidence returned is 0.05.
\<close>

theorem confidence_not_unrounded:
  "(case classify None employee_text of
      Inl e \<Rightarrow> False
    | Inr r \<Rightarrow> confidence r \<noteq> unrounded_confidence employee_text (contract_type r))"
  by (simp add: employee_classification employee_unrounded)


text \<open>
  C4 as amended: for every document for which some contract type attains a nonzero score, the
  classifier returns a result; its type is a type of the table whose score no other type's
  score exceeds; and its confidence is \<^verbatim>\<open>min(1.0, best_score / (max_possible * 0.3))\<close>,
  with \<open>max_possible\<close> the keyword count of that type times 5 plus its pattern count times 10,
  rounded to two decimal places.
\<close>

theorem confidence_is_rounded:
  assumes "\<exists>(t, tinfo) \<in> set CONTRACT_PATTERNS. 0 < fst (score_type (lower text) tinfo)"
  shows "\<exists>r tinfo. classify st text = Inr r
           \<and> (contract_type r, tinfo) \<in> set CONTRACT_PATTERNS
           \<and> (\<forall>(t', tinfo') \<in> set CONTRACT_PATTERNS.
                 fst (score_type (lower text) tinfo') \<le> fst (score_type (lower text) tinfo))
           \<and> confidence r
               = py_round (min 1 (of_nat (fst (score_type (lower text) tinfo))
                                  / (of_nat (max_possible_score tinfo) * (3 / 10)))) 2
           \<and> confidence r = py_round (unrounded_confidence text (contract_type r)) 2"
proof -
  from assms obtain t0 tinfo0 where "(t0, tinfo0) \<in> set CONTRACT_PATTERNS"
    "0 < fst (score_type (lower text) tinfo0)" by blast
  then have "(t0, fst (score_type (lower text) tinfo0), take 10 (snd (score_type (lower text) tinfo0)))
             \<in> set (type_scores (lower text))"
    unfolding type_scores_mem by blast
  then obtain s rest where sr: "type_scores (lower text) = s # rest"
    by (cases "type_scores (lower text)") auto
  from classify_best [OF sr, of st]
  obtain t sc kws tinfo where b: "(t, tinfo) \<in> set CONTRACT_PATTERNS"
    "sc = fst (score_type (lower text) tinfo)"
    "\<forall>(t', tinfo') \<in> set CONTRACT_PATTERNS. fst (score_type (lower text) tinfo') \<le> sc"
    "classify st text
       = Inr \<lparr>contract_type = t,
              confidence = py_round (min 1 (of_nat sc / (of_nat (max_possible_score tinfo) * (3 / 10)))) 2,
              sub_type = determine_sub_type (lower text) t,
              key_indicators = kws\<rparr>"
    by blast
  note e = contract_patterns_entry [OF b(1)]
  have "unrounded_confidence text t
        = min 1 (of_nat sc / (of_nat (max_possible_score tinfo) * (3 / 10)))"
    by (simp add: unrounded_confidence_def e(1) b(2))
  with b show ?thesis by auto
qed

theorem confidence_is_rounded_witness:
  "hd CONTRACT_PATTERNS \<in> set CONTRACT_PATTERNS
   \<and> 0 < fst (score_type (lower employee_text) (snd (hd CONTRACT_PATTERNS)))
   \<and> (\<exists>r tinfo. classify None employee_text = Inr r
           \<and> (contract_type r, tinfo) \<in> set CONTRACT_PATTERNS
           \<and> (\<forall>(t', tinfo') \<in> set CONTRACT_PATTERNS.
                 fst (score_type (lower employee_text) tinfo')
                 \<le> fst (score_type (lower employee_text) tinfo))
           \<and> confidence r
               = py_round (min 1 (of_nat (fst (score_type (lower employee_text) tinfo))
                                  / (of_nat (max_possible_score tinfo) * (3 / 10)))) 2
           \<and> confidence r = py_round (unrounded_confidence employee_text (contract_type r)) 2)"
proof -
  have m: "hd CONTRACT_PATTERNS \<in> set CONTRACT_PATTERNS"
    by (simp add: CONTRACT_PATTERNS_def)
  have p: "0 < fst (score_type (lower employee_text) (snd (hd CONTRACT_PATTERNS)))"
    by code_simp
  from m p have h: "\<exists>(t, tinfo) \<in> set CONTRACT_PATTERNS.
                      0 < fst (score_type (lower employee_text) tinfo)"
    by (intro bexI [of _ "hd CONTRACT_PATTERNS"]) (simp_all add: case_prod_beta)
  from m p confidence_is_rounded [OF h, of None] show ?thesis
    by (intro conjI)
qed

subsection \<open>C5: the bounds of the confidence\<close>

text \<open>
  C5: for every input text the classifier returns a result whose confidence lies between 0
  and 1, and the confidence is 0 exactly when the contract type is \<^verbatim>\<open>Unknown\<close>.  (The
  rounding to two decimal places cannot turn a positive confidence into 0: a winning type
  scores at least 1, no type of the table can score more than 135, and 1 / (135 * 0.3) rounds
  to 0.02.)
\<close>

theorem confidence_bounds:
  "\<exists>r. classify st text = Inr r \<and> 0 \<le> confidence r \<and> confidence r \<le> 1
       \<and> ((confidence r = 0) = (contract_type r = ''Unknown''))"
proof (cases "type_scores (lower text)")
  case Nil
  then show ?thesis by (simp add: classify_unknown)
next
  case (Cons s rest)
  from classify_best [OF Cons, of st]
  obtain t sc kws tinfo where b: "(t, tinfo) \<in> set CONTRACT_PATTERNS" "0 < sc"
    "classify st text
       = Inr \<lparr>contract_type = t,
              confidence = py_round (min 1 (of_nat sc / (of_nat (max_possible_score tinfo) * (3 / 10)))) 2,
              sub_type = determine_sub_type (lower text) t,
              key_indicators = kws\<rparr>"
    by blast
  note e = contract_patterns_entry [OF b(1)]
  let ?c = "min 1 (of_nat sc / (of_nat (max_possible_score tinfo) * (3 / 10 :: rat)))"
  have lo: "2 / 100 \<le> py_round ?c 2"
    by (rule py_round_2_ge) (rule confidence_lower_bound [OF b(2) e(3) e(4)])
  have hi: "py_round ?c 2 \<le> 1"
    by (rule py_round_2_le_1) simp
  from lo have "0 < py_round ?c 2" by simp
  with hi e(2) b(3) show ?thesis by simp
qed

theorem confidence_bounds_witness:
  "\<exists>r. classify None employee_text = Inr r \<and> 0 \<le> confidence r \<and> confidence r \<le> 1
       \<and> ((confidence r = 0) = (contract_type r = ''Unknown''))"
  by (rule confidence_bounds)

subsection \<open>C6: the overall level and the overall score\<close>

text \<open>
  C6 states that \<open>overall_level\<close> is the level of the report's \<open>overall_score\<close> under the
  thresholds of \<^verbatim>\<open>_score_to_level\<close> (at least 8 CRITICAL, at least 6 HIGH, at least 4 MEDIUM,
  otherwise LOW).  The code derives the level from the boosted mean and rounds the score
  afterwards, so the two disagree when the rounding crosses a threshold: for the sample
  document the boosted mean 131/22 (about 5.95) is MEDIUM and the reported score 6 would be
  HIGH.
\<close>

theorem overall_level_not_level_of_overall_score:
  "overall_score (fst (assess_contract half_even_tenth [] sale_doc restraint_clauses)) = 6
   \<and> overall_level (fst (assess_contract half_even_tenth [] sale_doc restraint_clauses)) = MEDIUM
   \<and> overall_level (fst (assess_contract half_even_tenth [] sale_doc restraint_clauses))
       \<noteq> (if overall_score (fst (assess_contract half_even_tenth [] sale_doc restraint_clauses)) \<ge> 8
          then CRITICAL
          else if overall_score (fst (assess_contract half_even_tenth [] sale_doc restraint_clauses)) \<ge> 6
          then HIGH
          else if overall_score (fst (assess_contract half_even_tenth [] sale_doc restraint_clauses)) \<ge> 4
          then MEDIUM
          else LOW)"
  unfolding assess_contract_report sale_doc_findings by code_simp

text \<open>
  C6 as amended: \<open>overall_level\<close> is the level obtained by applying the thresholds (at least
  8 CRITICAL, at least 6 HIGH, at least 4 MEDIUM, otherwise LOW) to the boosted mean of the
  finding scores, before that mean is rounded to one decimal place for \<open>overall_score\<close>; a
  report without findings has the level LOW.
\<close>

theorem overall_level_of_unrounded_score:
  "(let fs = collect_findings text clauses;
        m = spec_boosted_mean fs;
        report = fst (assess_contract rnd st text clauses)
    in overall_level report
       = (if fs = [] then LOW
          else if m \<ge> 8 then CRITICAL
          else if m \<ge> 6 then HIGH
          else if m \<ge> 4 then MEDIUM
          else LOW))"
  by (simp add: Let_def assess_contract_report overall_level_nonempty report_empty
      score_to_level_def)

theorem overall_level_of_unrounded_score_witness:
  "spec_boosted_mean (collect_findings sale_doc restraint_clauses) = 131 / 22
   \<and> overall_level (fst (assess_contract half_even_tenth [] sale_doc restraint_clauses)) = MEDIUM"
proof -
  have m: "spec_boosted_mean (collect_findings sale_doc restraint_clauses) = 131 / 22"
    unfolding sale_doc_findings by code_simp
  have ne: "collect_findings sale_doc restraint_clauses \<noteq> []"
    unfolding sale_doc_findings by simp
  from overall_level_of_unrounded_score [of sale_doc restraint_clauses half_even_tenth "[]"]
  have "overall_level (fst (assess_contract half_even_tenth [] sale_doc restraint_clauses)) = MEDIUM"
    unfolding Let_def m using ne by simp
  with m show ?thesis by simp
qed

subsection \<open>C7: the segments are ordered, disjoint and long enough\<close>

text \<open>
  C7 states that every emitted clause's \<open>content\<close> has at least 20 characters after
  trimming.  \<^verbatim>\<open>extract_clauses\<close> trims the body, keeps it when it has at least 20
  characters, and stores its first 2000 characters as \<open>content\<close>
  (\<^verbatim>\<open>content=content[:2000]\<close>).  When the body is longer, the cut can end in whitespace:
  for the heading \<^verbatim>\<open>1. A\<close> followed by a line of one letter, 2000 spaces and one letter,
  the clause is emitted with a \<open>content\<close> of 2000 characters that trims to one letter.
\<close>

theorem content_not_long_after_trimming:
  "map_sum id (map (\<lambda>c. (ec_clause_id c, length (content c), strip (content c))))
     (extract_clauses remdups [] padded_doc)
   = Inr [(''1'', 2000, ''p'')]"
proof -
  have t: "take 2000 (CHR ''p'' # replicate 2000 (CHR '' '') @ ''q'')
           = CHR ''p'' # replicate 1999 (CHR '' '')"
    by (simp add: take_Cons')
  have s: "strip (CHR ''p'' # replicate 1999 (CHR '' '')) = ''p''"
    by (rule strip_trailing_spaces) (simp_all add: is_space_code)
  show ?thesis
    by (simp add: extract_clauses_def padded_segments build_clause_def t s)
qed

text \<open>
  C7 as amended: for every document the segmenter returns (it raises no error), and the
  clauses it emits come from segments with these properties.  The span of a segment runs from
  the start of its heading to the offset where its body ends; the heading ends before that
  offset, and the offset lies inside the document.  Each emitted segment starts strictly
  before the next one and ends no later than the next one starts, so the spans do not overlap
  and their start offsets are strictly increasing.  The body of a segment is the text between
  the end of its heading and the end of the span with the whitespace trimmed at both ends; it
  has at least 20 characters, and the clause's \<open>content\<close> is the body cut to its first 2000
  characters, so that \<open>content\<close> has at least 20 characters; when the body has at most 2000
  characters, \<open>content\<close> has at least 20 characters after trimming.
\<close>

theorem segments_ordered_and_long_enough:
  "\<exists>segs. clause_segments text = Inr segs
         \<and> extract_clauses ord self_clauses text = Inr (map (build_clause ord) segs)
         \<and> sorted_wrt before segs
         \<and> list_all (good_segment text) segs
         \<and> list_all (\<lambda>seg. content (build_clause ord seg) = take 2000 (snd (snd seg))
                             \<and> strip (snd (snd seg)) = snd (snd seg)
                             \<and> 20 \<le> length (content (build_clause ord seg))
                             \<and> (length (snd (snd seg)) \<le> 2000
                                  \<longrightarrow> 20 \<le> length (strip (content (build_clause ord seg)))))
                    segs"
proof -
  from segments_basic [of "text" ord self_clauses] obtain segs where
    s: "clause_segments text = Inr segs"
       "extract_clauses ord self_clauses text = Inr (map (build_clause ord) segs)"
       "sorted_wrt before segs"
       "list_all (good_segment text) segs"
       "list_all (\<lambda>seg. content (build_clause ord seg) = take 2000 (snd (snd seg))
                             \<and> 20 \<le> length (content (build_clause ord seg))) segs"
    by blast
  have t: "\<forall>seg \<in> set segs. strip (snd (snd seg)) = snd (snd seg)"
    using s(4) unfolding list_all_iff by (auto simp: good_segment_def strip_strip)
  have "\<forall>seg \<in> set segs. content (build_clause ord seg) = take 2000 (snd (snd seg))
                             \<and> strip (snd (snd seg)) = snd (snd seg)
                             \<and> 20 \<le> length (content (build_clause ord seg))
                             \<and> (length (snd (snd seg)) \<le> 2000
                                  \<longrightarrow> 20 \<le> length (strip (content (build_clause ord seg))))"
  proof
    fix seg
    assume seg: "seg \<in> set segs"
    from s(5) seg have c: "content (build_clause ord seg) = take 2000 (snd (snd seg))"
      "20 \<le> length (content (build_clause ord seg))"
      unfolding list_all_iff by blast+
    from t seg have st: "strip (snd (snd seg)) = snd (snd seg)" by blast
    have "20 \<le> length (strip (content (build_clause ord seg)))"
      if "length (snd (snd seg)) \<le> 2000"
    proof -
      from that c(1) have "content (build_clause ord seg) = snd (snd seg)" by simp
      with st c(2) show ?thesis by simp
    qed
    with c st show "content (build_clause ord seg) = take 2000 (snd (snd seg))
                             \<and> strip (snd (snd seg)) = snd (snd seg)
                             \<and> 20 \<le> length (content (build_clause ord seg))
                             \<and> (length (snd (snd seg)) \<le> 2000
                                  \<longrightarrow> 20 \<le> length (strip (content (build_clause ord seg))))"
      by blast
  qed
  then have "list_all (\<lambda>seg. content (build_clause ord seg) = take 2000 (snd (snd seg))
                             \<and> strip (snd (snd seg)) = snd (snd seg)
                             \<and> 20 \<le> length (content (build_clause ord seg))
                             \<and> (length (snd (snd seg)) \<le> 2000
                                  \<longrightarrow> 20 \<le> length (strip (content (build_clause ord seg)))))
                    segs"
    unfolding list_all_iff .
  with s(1-4) show ?thesis by blast
qed

text \<open>The document of two clauses: both segments are kept, the first ends where the second
  starts, and both bodies are shorter than 2000 characters.\<close>

theorem segments_ordered_and_long_enough_witness:
  "clause_segments two_clause_doc = Inr two_clause_segments
   \<and> length two_clause_segments = 2
   \<and> extract_clauses remdups [] two_clause_doc
       = Inr (map (build_clause remdups) two_clause_segments)
   \<and> sorted_wrt before two_clause_segments
   \<and> list_all (good_segment two_clause_doc) two_clause_segments
   \<and> list_all (\<lambda>seg. length (snd (snd seg)) \<le> 2000
                       \<and> 20 \<le> length (strip (content (build_clause remdups seg))))
              two_clause_segments"
proof -
  from segments_ordered_and_long_enough [of two_clause_doc remdups "[]"]
  obtain segs where
    s: "clause_segments two_clause_doc = Inr segs"
       "extract_clauses remdups [] two_clause_doc = Inr (map (build_clause remdups) segs)"
       "sorted_wrt before segs"
       "list_all (good_segment two_clause_doc) segs"
       "list_all (\<lambda>seg. content (build_clause remdups seg) = take 2000 (snd (snd seg))
                             \<and> strip (snd (snd seg)) = snd (snd seg)
                             \<and> 20 \<le> length (content (build_clause remdups seg))
                             \<and> (length (snd (snd seg)) \<le> 2000
                                  \<longrightarrow> 20 \<le> length (strip (content (build_clause remdups seg)))))
                    segs"
    by blast
  from s(1) have segs: "segs = two_clause_segments"
    by (simp add: two_clause_doc_segments)
  have short: "\<forall>seg \<in> set two_clause_segments. length (snd (snd seg)) \<le> 2000"
    by (simp add: two_clause_segments_def)
  have len: "length two_clause_segments = 2"
    by (simp add: two_clause_segments_def)
  from s(5) short have "list_all (\<lambda>seg. length (snd (snd seg)) \<le> 2000
                       \<and> 20 \<le> length (strip (content (build_clause remdups seg))))
              two_clause_segments"
    unfolding segs list_all_iff by blast
  with s(1-4) len show ?thesis unfolding segs by (intro conjI)
qed

subsection \<open>C8: no two findings with the same triple\<close>

text \<open>
  C8 states that no report holds two findings with the same triple (risk type, clause id,
  original text), for every text and every list of clause dictionaries.  The
  missing-protection pass appends its findings without comparing them with the earlier ones.
  A supplied clause named \<^verbatim>\<open>missing\<close> whose content is the text of that pass and whose
  indicator is \<^verbatim>\<open>missing_liability_cap\<close> gives a finding of the per-clause pass that the
  missing-protection pass repeats.
\<close>

theorem duplicate_finding_for_clause_named_missing:
  "\<not> distinct (map finding_key (findings (fst (assess_contract half_even_tenth [] sale_doc [shadow_clause]))))"
  unfolding assess_contract_report collect_findings_def Let_def sale_doc_text_risks
  by code_simp

text \<open>
  C8 as amended: for every text and every list of clause dictionaries, the findings of the
  document-wide scan and the per-clause pass hold no two findings with the same triple; and
  when no supplied clause has the id \<^verbatim>\<open>missing\<close>, neither does the report, which adds the
  findings of the missing-protection pass.
\<close>

theorem findings_distinct:
  "distinct (map finding_key (scanned_findings text clauses))
   \<and> ((\<forall>c \<in> set clauses. clause_id_of c \<noteq> ''missing'')
        \<longrightarrow> distinct (map finding_key (findings (fst (assess_contract rnd st text clauses)))))"
proof (intro conjI impI)
  show "distinct (map finding_key (scanned_findings text clauses))"
    by (rule scanned_findings_distinct)
next
  assume ids: "\<forall>c \<in> set clauses. clause_id_of c \<noteq> ''missing''"
  have disjoint: "finding_key ` set (scanned_findings text clauses)
                  \<inter> finding_key ` set (missing_findings text) = {}"
    using scanned_findings_not_missing [OF ids, of "text"] missing_findings_id [of "text"]
    by (auto simp: finding_key_def)
  have "distinct (map finding_key (collect_findings text clauses))"
    using scanned_findings_distinct [of "text" clauses] missing_findings_distinct [of "text"] disjoint
    by (simp add: collect_findings_append)
  then show "distinct (map finding_key (findings (fst (assess_contract rnd st text clauses))))"
    by (simp add: assess_contract_report findings_report sorted_desc_keys_distinct)
qed

theorem findings_distinct_witness:
  "distinct (map finding_key (scanned_findings sale_doc restraint_clauses))
   \<and> ''missing'' \<notin> clause_id_of ` set restraint_clauses
   \<and> distinct (map finding_key (findings (fst (assess_contract half_even_tenth [] sale_doc restraint_clauses))))"
proof -
  have ids: "\<forall>c \<in> set restraint_clauses. clause_id_of c \<noteq> ''missing''"
    by (simp add: restraint_clauses_def clause_id_of_def)
  then have nm: "''missing'' \<notin> clause_id_of ` set restraint_clauses"
    by auto
  note fd = findings_distinct [of sale_doc restraint_clauses half_even_tenth "[]"]
  have a: "distinct (map finding_key (scanned_findings sale_doc restraint_clauses))"
    by (rule fd [THEN conjunct1])
  have b: "distinct (map finding_key (findings (fst (assess_contract half_even_tenth [] sale_doc restraint_clauses))))"
    by (rule fd [THEN conjunct2, THEN mp, OF ids])
  from a nm b show ?thesis by (intro conjI)
qed

subsection \<open>C9: running the pipeline twice\<close>

text \<open>
  C9 states that two runs of the pipeline on the same text yield identical outputs.
  \<^verbatim>\<open>_find_risk_indicators\<close> returns \<^verbatim>\<open>list(set(indicators))\<close>, and the order in which
  Python iterates over a set of strings follows the hashes of the strings, which change from
  one interpreter process to the next.  The document \<open>ip_contract\<close> (120 characters, one
  clause) has two indicators in its clause; under two orders of iteration, both without
  duplicates and with the same elements, the clause lists differ and so do the outputs of the
  pipeline.
\<close>

theorem pipeline_depends_on_set_order:
  "valid_set_order remdups \<and> valid_set_order (rev \<circ> remdups)
   \<and> length (strip ip_contract) = 120
   \<and> map risk_indicators (projr (extract_clauses remdups [] ip_contract))
       = [[''unlimited_liability'', ''ip_assignment'']]
   \<and> map risk_indicators (projr (extract_clauses (rev \<circ> remdups) [] ip_contract))
       = [[''ip_assignment'', ''unlimited_liability'']]
   \<and> run_pipeline remdups half_even_tenth fresh ip_contract \<noteq> run_pipeline (rev \<circ> remdups) half_even_tenth fresh ip_contract"
proof -
  have a: "map risk_indicators (projr (extract_clauses remdups [] ip_contract))
       = [[''unlimited_liability'', ''ip_assignment'']]"
    by (simp add: ip_contract_clauses)
  have b: "map risk_indicators (projr (extract_clauses (rev \<circ> remdups) [] ip_contract))
       = [[''ip_assignment'', ''unlimited_liability'']]"
    by (simp add: ip_contract_clauses)
  have "run_pipeline remdups half_even_tenth fresh ip_contract \<noteq> run_pipeline (rev \<circ> remdups) half_even_tenth fresh ip_contract"
  proof
    assume eq: "run_pipeline remdups half_even_tenth fresh ip_contract = run_pipeline (rev \<circ> remdups) half_even_tenth fresh ip_contract"
    from run_pipeline_total [of remdups half_even_tenth fresh ip_contract] obtain out comps'
      where r: "run_pipeline remdups half_even_tenth fresh ip_contract = Inr (out, comps')" by blast
    from run_pipeline_clauses [OF r] run_pipeline_clauses [OF r [unfolded eq]]
    have "extract_clauses remdups (extractor_clauses fresh) ip_contract
          = extract_clauses (rev \<circ> remdups) (extractor_clauses fresh) ip_contract" by simp
    then show False by (simp add: ip_contract_clauses)
  qed
  with a b valid_set_order_remdups valid_set_order_rev_remdups ip_contract_length
  show ?thesis by (intro conjI)
qed

text \<open>
  C9 as amended: under one order of iteration of Python's sets (within one interpreter
  process; the rounding of floats is the same function in every run), for every text the
  pipeline returns, and its output (clause list, classification,
  dimensions, risk report) and the state it leaves in the components are the same whatever
  the components held before: a second run on the same text, with the same components or with
  new ones, yields the same output as the first.
\<close>

theorem pipeline_repeatable:
  "\<exists>out comps'. \<forall>comps. run_pipeline ord rnd comps text = Inr (out, comps')"
proof -
  from run_pipeline_total [of ord rnd fresh "text"] obtain out comps'
    where "run_pipeline ord rnd fresh text = Inr (out, comps')" by blast
  then have "\<forall>comps. run_pipeline ord rnd comps text = Inr (out, comps')"
    using run_pipeline_stateless [of ord rnd _ "text" fresh] by simp
  then show ?thesis by blast
qed

theorem pipeline_repeatable_witness:
  "\<exists>out comps'. \<forall>comps. run_pipeline remdups half_even_tenth comps ip_contract = Inr (out, comps')"
  by (rule pipeline_repeatable)

subsection \<open>C10: the quick risk score of a clause\<close>

text \<open>
  C10: for every clause text, \<^verbatim>\<open>get_clause_risk_score\<close> returns \<open>(2.0, LOW, [])\<close> exactly
  when no pattern of the catalogue is found in the lower-cased text; otherwise it returns the
  greatest weight of the matched risk types (the weight of the table, 5 for a type the table
  does not list), the level of that weight (at least 8 CRITICAL, at least 6 HIGH, at least 4
  MEDIUM, otherwise LOW), and the matched risk types in the order of the catalogue.
\<close>

theorem get_clause_risk_score_spec:
  "(let matched = map fst (filter (\<lambda>(rtype, rinfo).
                      \<exists>p \<in> set (patterns rinfo). re_search p True (lower clause_content))
                    RISK_PATTERNS);
        m = Max ((\<lambda>t. case map_of RISK_WEIGHTS t of None \<Rightarrow> 5 | Some w \<Rightarrow> w) ` set matched)
    in get_clause_risk_score clause_content
       = (if matched = [] then (2, LOW, [])
          else (m,
                (if m \<ge> 8 then CRITICAL else if m \<ge> 6 then HIGH
                 else if m \<ge> 4 then MEDIUM else LOW),
                matched)))
   \<and> ((get_clause_risk_score clause_content = (2, LOW, []))
        = (\<forall>(rtype, rinfo) \<in> set RISK_PATTERNS.
             \<forall>p \<in> set (patterns rinfo). \<not> re_search p True (lower clause_content)))"
proof -
  let ?m = "spec_matched_types clause_content"
  have w: "weight_or_5 = (\<lambda>t. case map_of RISK_WEIGHTS t of None \<Rightarrow> 5 | Some w \<Rightarrow> w)"
    by (rule ext) (simp add: weight_or_5_def)
  have m: "matched_risk_types RISK_PATTERNS (lower clause_content) [] = ?m"
    by (simp add: matched_risk_types_filter spec_matched_types_def)
  have eq: "get_clause_risk_score clause_content
       = (if ?m = [] then (2, LOW, [])
          else (Max (weight_or_5 ` set ?m), score_to_level (Max (weight_or_5 ` set ?m)), ?m))"
  proof (cases ?m)
    case Nil
    then show ?thesis by (simp add: get_clause_risk_score_def m)
  next
    case (Cons f fs)
    then show ?thesis
      by (simp add: get_clause_risk_score_def m Let_def max_weight_Max)
  qed
  have empty: "(?m = []) = (\<forall>(rtype, rinfo) \<in> set RISK_PATTERNS.
             \<forall>p \<in> set (patterns rinfo). \<not> re_search p True (lower clause_content))"
    by (auto simp: spec_matched_types_def filter_empty_conv)
  have "(get_clause_risk_score clause_content = (2, LOW, [])) = (?m = [])"
    by (subst eq) auto
  with empty have iff: "(get_clause_risk_score clause_content = (2, LOW, []))
        = (\<forall>(rtype, rinfo) \<in> set RISK_PATTERNS.
             \<forall>p \<in> set (patterns rinfo). \<not> re_search p True (lower clause_content))"
    by simp
  from eq have "(let matched = ?m; m = Max (weight_or_5 ` set matched)
    in get_clause_risk_score clause_content
       = (if matched = [] then (2, LOW, [])
          else (m, score_to_level m, matched)))"
    by (simp add: Let_def)
  then have first: "(let matched = map fst (filter (\<lambda>(rtype, rinfo).
                      \<exists>p \<in> set (patterns rinfo). re_search p True (lower clause_content))
                    RISK_PATTERNS);
        m = Max ((\<lambda>t. case map_of RISK_WEIGHTS t of None \<Rightarrow> 5 | Some w \<Rightarrow> w) ` set matched)
    in get_clause_risk_score clause_content
       = (if matched = [] then (2, LOW, [])
          else (m,
                (if m \<ge> 8 then CRITICAL else if m \<ge> 6 then HIGH
                 else if m \<ge> 4 then MEDIUM else LOW),
                matched)))"
    unfolding spec_matched_types_def w score_to_level_def .
  from first iff show ?thesis by (rule conjI)
qed

text \<open>Two texts: one with two matched risk types of the weights 7 and 6, one without a
  match.\<close>

theorem get_clause_risk_score_spec_witness:
  "get_clause_risk_score renewal_text = (7, HIGH, [''excessive_penalty'', ''auto_renewal_hidden''])
   \<and> get_clause_risk_score sale_doc = (2, LOW, [])"
proof -
  have a: "get_clause_risk_score renewal_text
           = (7, HIGH, [''excessive_penalty'', ''auto_renewal_hidden''])"
    using get_clause_risk_score_spec [of renewal_text, THEN conjunct1]
    unfolding renewal_text_matched [unfolded spec_matched_types_def] Let_def
    by (simp add: RISK_WEIGHTS_def)
  have b: "get_clause_risk_score sale_doc = (2, LOW, [])"
    using get_clause_risk_score_spec [of sale_doc, THEN conjunct1]
    unfolding sale_doc_matched [unfolded spec_matched_types_def] Let_def
    by simp
  from a b show ?thesis by (rule conjI)
qed

end
